theory Spec2Isabelle
  imports Main "HOL-Library.Word"
begin

section \<open>Machine integers\<close>

text \<open>
  The driver computes with C \<open>int\<close> (32 bit, signed), \<open>GIntBig\<close> (64 bit, signed) and
  \<open>vsi_l_offset\<close> = \<open>GUIntBig\<close> (64 bit, unsigned). Values are modelled as \<open>int\<close>.
  Unsigned 64-bit arithmetic wraps around, and every unsigned operation of the source is
  written with its reduction modulo \<open>2^64\<close> (\<open>u64_add\<close>, \<open>u64_sub\<close>, \<open>u64_mul\<close>);
  a conversion of a signed value to \<open>vsi_l_offset\<close> is \<open>u64\<close>, a conversion to
  \<open>GIntBig\<close> is \<open>s64\<close>. Signed \<open>int\<close> arithmetic is computed in the integers: its overflow is
  undefined behaviour in C++, so statements about \<open>int\<close> operands carry \<open>is_int32\<close>.
\<close>

definition INT_MAX :: int where
  "INT_MAX = 2147483647"

definition GINTBIG_MAX :: int where
  "GINTBIG_MAX = 9223372036854775807"

definition UINT64_MAX :: int where
  "UINT64_MAX = 18446744073709551615"

definition is_int32 :: "int \<Rightarrow> bool" where
  "is_int32 x = (- 2147483648 \<le> x \<and> x \<le> 2147483647)"

definition is_u64 :: "int \<Rightarrow> bool" where
  "is_u64 x = (0 \<le> x \<and> x \<le> 18446744073709551615)"

definition u64 :: "int \<Rightarrow> int" where
  "u64 x = x mod 18446744073709551616"

definition s64 :: "int \<Rightarrow> int" where
  "s64 x = (x + 9223372036854775808) mod 18446744073709551616 - 9223372036854775808"

definition u64_add :: "int \<Rightarrow> int \<Rightarrow> int" where
  "u64_add a b = u64 (a + b)"

definition u64_sub :: "int \<Rightarrow> int \<Rightarrow> int" where
  "u64_sub a b = u64 (a - b)"

definition u64_mul :: "int \<Rightarrow> int \<Rightarrow> int" where
  "u64_mul a b = u64 (a * b)"

text \<open>C division truncates towards zero; \<open>None\<close> is the trap of a division by zero.\<close>

definition c_quot :: "int \<Rightarrow> int \<Rightarrow> int" where
  "c_quot a b = sgn a * sgn b * (\<bar>a\<bar> div \<bar>b\<bar>)"

definition c_div :: "int \<Rightarrow> int \<Rightarrow> int option" where
  "c_div a b = (if b = 0 then None else Some (c_quot a b))"

section \<open>Data model\<close>

type_synonym GByte = "8 word"

datatype CPLErr = CE_None | CE_Failure

datatype CPLErrorNum = CPLE_AppDefined | CPLE_FileIO | CPLE_OutOfMemory

datatype GDALAccess = GA_ReadOnly | GA_Update

datatype GDALRWFlag = GF_Read | GF_Write

datatype Whence = SEEK_SET | SEEK_CUR | SEEK_END

text \<open>
  Modelled from the spec: the pixel types of \<open>gdal.h\<close> (the header is not among the
  sources). The source names \<open>GDT_Unknown\<close> and \<open>GDT_Byte\<close>; the others are the
  integer, floating and complex kinds of the spec's data model, with their sizes.
\<close>

datatype GDALDataType =
    GDT_Unknown | GDT_Byte | GDT_UInt16 | GDT_Int16 | GDT_UInt32 | GDT_Int32
  | GDT_Float32 | GDT_Float64 | GDT_CInt16 | GDT_CInt32 | GDT_CFloat32 | GDT_CFloat64

fun GDALGetDataTypeSizeBytes :: "GDALDataType \<Rightarrow> int" where
  "GDALGetDataTypeSizeBytes GDT_Unknown = 0"
| "GDALGetDataTypeSizeBytes GDT_Byte = 1"
| "GDALGetDataTypeSizeBytes GDT_UInt16 = 2"
| "GDALGetDataTypeSizeBytes GDT_Int16 = 2"
| "GDALGetDataTypeSizeBytes GDT_UInt32 = 4"
| "GDALGetDataTypeSizeBytes GDT_Int32 = 4"
| "GDALGetDataTypeSizeBytes GDT_Float32 = 4"
| "GDALGetDataTypeSizeBytes GDT_Float64 = 8"
| "GDALGetDataTypeSizeBytes GDT_CInt16 = 4"
| "GDALGetDataTypeSizeBytes GDT_CInt32 = 8"
| "GDALGetDataTypeSizeBytes GDT_CFloat32 = 8"
| "GDALGetDataTypeSizeBytes GDT_CFloat64 = 16"

definition GDALGetDataTypeSize :: "GDALDataType \<Rightarrow> int" where
  "GDALGetDataTypeSize dt = 8 * GDALGetDataTypeSizeBytes dt"

fun GDALDataTypeIsComplex :: "GDALDataType \<Rightarrow> bool" where
  "GDALDataTypeIsComplex GDT_CInt16 = True"
| "GDALDataTypeIsComplex GDT_CInt32 = True"
| "GDALDataTypeIsComplex GDT_CFloat32 = True"
| "GDALDataTypeIsComplex GDT_CFloat64 = True"
| "GDALDataTypeIsComplex _ = False"

text \<open>
  What a band reads of its owning dataset: the raster size, the access mode and the
  metadata domains (\<open>GetMetadata(domain)\<close> is \<open>None\<close> for a null list).
\<close>

record GDALDataset =
  dsRasterXSize :: int
  dsRasterYSize :: int
  dsAccess :: GDALAccess
  dsMetadata :: "string \<Rightarrow> string list option"

text \<open>
  The virtual file is an external collaborator. Its handle has an arbitrary type \<open>'f\<close>
  and its operations are the fields of a record, so that every statement below holds
  for every file behaviour: \<open>VSIFSeekL\<close> returns a status (-1 for a failure),
  \<open>VSIFTellL\<close> the position, \<open>VSIFReadL\<close> the bytes it read for a request of
  \<open>n\<close> bytes of size 1, \<open>VSIFWriteL\<close> the number of bytes written, \<open>VSIFFlushL\<close>
  a status.
\<close>

record 'f VSIVirtualFile =
  VSIFSeekL :: "'f \<Rightarrow> int \<Rightarrow> Whence \<Rightarrow> int \<times> 'f"
  VSIFTellL :: "'f \<Rightarrow> int"
  VSIFReadL :: "'f \<Rightarrow> nat \<Rightarrow> GByte list \<times> 'f"
  VSIFWriteL :: "'f \<Rightarrow> GByte list \<Rightarrow> nat \<times> 'f"
  VSIFFlushL :: "'f \<Rightarrow> int \<times> 'f"

text \<open>The calls a band makes on its file, in order (a ghost field of the band).\<close>

datatype FileCall = CallSeek int Whence | CallRead nat | CallWrite "GByte list" | CallFlush

text \<open>
  The band. \<open>pLineBuffer\<close> is \<open>None\<close> for the null pointer; \<open>pLineStart\<close> is the
  offset of the pointer of that name from \<open>pLineBuffer\<close>; \<open>bNativeOrder\<close> and
  \<open>bDirty\<close> are C truth values, the first kept as the \<open>int\<close> it is compared as. \<open>blockCache\<close> is the block
  cache of the base class, of an arbitrary type \<open>'c\<close>. \<open>fileCalls\<close> and
  \<open>cplErrors\<close> record the file calls made and the errors emitted through
  \<open>CPLError\<close>. The colour table, colour interpretation and category names play no
  part in the input and output paths and are left out.
\<close>

record ('f, 'c) RawRasterBand =
  fpRawL :: 'f
  nImgOffset :: int
  nPixelOffset :: int
  nLineOffset :: int
  nLineSize :: int
  bNativeOrder :: int
  nLoadedScanline :: int
  pLineBuffer :: "GByte list option"
  pLineStart :: int
  bDirty :: bool
  bOwnsFP :: bool
  poDS :: "GDALDataset option"
  nBand :: int
  eDataType :: GDALDataType
  eAccess :: GDALAccess
  nRasterXSize :: int
  nRasterYSize :: int
  nBlockXSize :: int
  nBlockYSize :: int
  blockCache :: 'c
  fileCalls :: "FileCall list"
  cplErrors :: "(CPLErr \<times> CPLErrorNum) list"

definition CPLError ::
  "CPLErr \<Rightarrow> CPLErrorNum \<Rightarrow> ('f, 'c) RawRasterBand \<Rightarrow> ('f, 'c) RawRasterBand" where
  "CPLError eErrClass err_no b = b\<lparr>cplErrors := cplErrors b @ [(eErrClass, err_no)]\<rparr>"

section \<open>Construction\<close>

text \<open>
  \<open>RawRasterBand::Initialize\<close>, in three steps. The first two are the stride checks:
  each returns \<open>None\<close> where the source reports ``Inconsistent ...'' and returns, and
  otherwise the pair \<open>(nSmallestOffset, nLargestOffset)\<close> as updated. The third is the
  allocation of the scanline buffer. \<open>VSIMalloc\<close> is the allocator: \<open>None\<close> is a failed
  allocation, otherwise the block returned for the requested size. Every early return of
  the source leaves \<open>pLineBuffer\<close> null.
\<close>

definition Initialize_line ::
  "('f, 'c) RawRasterBand \<Rightarrow> (int \<times> int) option" where
  "Initialize_line b =
    (if nLineOffset b < 0 then
       (if u64_mul (u64 (- nLineOffset b)) (u64 (nRasterYSize b - 1)) > nImgOffset b
        then None
        else Some (u64_sub (nImgOffset b)
                     (u64_mul (u64 (- nLineOffset b)) (u64 (nRasterYSize b - 1))),
                   nImgOffset b))
     else
       (if nImgOffset b >
             u64_sub UINT64_MAX (u64_mul (u64 (nLineOffset b)) (u64 (nRasterYSize b - 1)))
        then None
        else Some (nImgOffset b,
                   u64_add (nImgOffset b)
                     (u64_mul (u64 (nLineOffset b)) (u64 (nRasterYSize b - 1))))))"

definition Initialize_pixel ::
  "('f, 'c) RawRasterBand \<Rightarrow> int \<Rightarrow> int \<Rightarrow> int option" where
  "Initialize_pixel b nSmallestOffset nLargestOffset =
    (if nPixelOffset b < 0 then
       (if u64_mul (u64 (- nPixelOffset b)) (u64 (nRasterXSize b - 1)) > nSmallestOffset
        then None
        else Some nLargestOffset)
     else
       (if nLargestOffset >
             u64_sub UINT64_MAX (u64_mul (u64 (nPixelOffset b)) (u64 (nRasterXSize b - 1)))
        then None
        else Some (u64_add nLargestOffset
                     (u64_mul (u64 (nPixelOffset b)) (u64 (nRasterXSize b - 1))))))"

definition Initialize_buffer ::
  "(int \<Rightarrow> GByte list option) \<Rightarrow> ('f, 'c) RawRasterBand \<Rightarrow> ('f, 'c) RawRasterBand" where
  "Initialize_buffer VSIMalloc b =
    (let nDTSize = GDALGetDataTypeSizeBytes (eDataType b);
         b2 =
           (if nBlockXSize b \<le> 0 \<or>
               (nBlockXSize b > 1 \<and>
                \<bar>nPixelOffset b\<bar> > INT_MAX div (nBlockXSize b - 1)) \<or>
               \<bar>nPixelOffset b\<bar> * (nBlockXSize b - 1) > INT_MAX - nDTSize
            then b\<lparr>nLoadedScanline := - 1, nLineSize := 0, pLineBuffer := None\<rparr>
            else b\<lparr>nLoadedScanline := - 1,
                   nLineSize := \<bar>nPixelOffset b\<bar> * (nBlockXSize b - 1) + nDTSize,
                   pLineBuffer :=
                     VSIMalloc (\<bar>nPixelOffset b\<bar> * (nBlockXSize b - 1) + nDTSize)\<rparr>);
         b3 = (if pLineBuffer b2 = None then CPLError CE_Failure CPLE_AppDefined b2 else b2)
     in b3\<lparr>pLineStart :=
             (if nPixelOffset b \<ge> 0 then 0
              else \<bar>nPixelOffset b\<bar> * (nBlockXSize b - 1))\<rparr>)"

definition Initialize_fail :: "('f, 'c) RawRasterBand \<Rightarrow> ('f, 'c) RawRasterBand" where
  "Initialize_fail b = (CPLError CE_Failure CPLE_AppDefined b)\<lparr>pLineBuffer := None\<rparr>"

definition Initialize ::
  "(int \<Rightarrow> GByte list option) \<Rightarrow> ('f, 'c) RawRasterBand \<Rightarrow> ('f, 'c) RawRasterBand" where
  "Initialize VSIMalloc b0 =
    (let b = b0\<lparr>bDirty := False\<rparr> in
     case Initialize_line b of
       None \<Rightarrow> Initialize_fail b
     | Some (nSmallestOffset, nLargestOffset) \<Rightarrow>
         (case Initialize_pixel b nSmallestOffset nLargestOffset of
            None \<Rightarrow> Initialize_fail b
          | Some nLargestOffset \<Rightarrow>
              if nLargestOffset > GINTBIG_MAX then Initialize_fail b
              else Initialize_buffer VSIMalloc b))"

text \<open>
  Modelled from the spec: \<open>GDALCheckDatasetDimensions\<close> (not among the sources)
  accepts exactly the sizes of construction invariant 1, \<open>width > 0\<close> and
  \<open>height > 0\<close>.
\<close>

definition GDALCheckDatasetDimensions :: "int \<Rightarrow> int \<Rightarrow> bool" where
  "GDALCheckDatasetDimensions nXSize nYSize = (nXSize > 0 \<and> nYSize > 0)"

text \<open>
  The two constructors. The first takes the raster size from the owning dataset; the
  second (the floating band) has no dataset. Each is its initialiser list and
  assignments (\<open>_init\<close>) followed by \<open>Initialize\<close>. A field that the first
  constructor's initialiser list does not name starts from the value the second one gives
  it. The band's own access mode \<open>eAccess\<close> (a field of the base class, changed by
  \<open>SetAccess\<close>) starts as read-only.
\<close>

definition RawRasterBand_ctor_init ::
  "'c \<Rightarrow> GDALDataset \<Rightarrow> int \<Rightarrow> 'f \<Rightarrow> int \<Rightarrow> int \<Rightarrow> int \<Rightarrow> GDALDataType \<Rightarrow> int \<Rightarrow> bool \<Rightarrow>
   ('f, 'c) RawRasterBand" where
  "RawRasterBand_ctor_init cache poDSIn nBandIn fpRawLIn nImgOffsetIn nPixelOffsetIn
      nLineOffsetIn eDataTypeIn bNativeOrderIn bOwnsFPIn =
    \<lparr> fpRawL = fpRawLIn, nImgOffset = nImgOffsetIn, nPixelOffset = nPixelOffsetIn,
      nLineOffset = nLineOffsetIn, nLineSize = 0, bNativeOrder = bNativeOrderIn,
      nLoadedScanline = 0, pLineBuffer = None, pLineStart = 0, bDirty = False,
      bOwnsFP = bOwnsFPIn, poDS = Some poDSIn, nBand = nBandIn,
      eDataType = eDataTypeIn, eAccess = GA_ReadOnly, nRasterXSize = dsRasterXSize poDSIn,
      nRasterYSize = dsRasterYSize poDSIn, nBlockXSize = dsRasterXSize poDSIn,
      nBlockYSize = 1, blockCache = cache, fileCalls = [], cplErrors = [] \<rparr>"

definition RawRasterBand_ctor ::
  "(int \<Rightarrow> GByte list option) \<Rightarrow> 'c \<Rightarrow> GDALDataset \<Rightarrow> int \<Rightarrow> 'f \<Rightarrow> int \<Rightarrow> int \<Rightarrow> int \<Rightarrow>
   GDALDataType \<Rightarrow> int \<Rightarrow> bool \<Rightarrow> ('f, 'c) RawRasterBand" where
  "RawRasterBand_ctor VSIMalloc cache poDSIn nBandIn fpRawLIn nImgOffsetIn nPixelOffsetIn
      nLineOffsetIn eDataTypeIn bNativeOrderIn bOwnsFPIn =
    Initialize VSIMalloc
      (RawRasterBand_ctor_init cache poDSIn nBandIn fpRawLIn nImgOffsetIn nPixelOffsetIn
         nLineOffsetIn eDataTypeIn bNativeOrderIn bOwnsFPIn)"

definition RawRasterBand_floating_init ::
  "'c \<Rightarrow> 'f \<Rightarrow> int \<Rightarrow> int \<Rightarrow> int \<Rightarrow> GDALDataType \<Rightarrow> int \<Rightarrow> int \<Rightarrow> int \<Rightarrow> bool \<Rightarrow>
   ('f, 'c) RawRasterBand" where
  "RawRasterBand_floating_init cache fpRawLIn nImgOffsetIn nPixelOffsetIn nLineOffsetIn
      eDataTypeIn bNativeOrderIn nXSize nYSize bOwnsFPIn =
    \<lparr> fpRawL = fpRawLIn, nImgOffset = nImgOffsetIn, nPixelOffset = nPixelOffsetIn,
      nLineOffset = nLineOffsetIn, nLineSize = 0, bNativeOrder = bNativeOrderIn,
      nLoadedScanline = 0, pLineBuffer = None, pLineStart = 0, bDirty = False,
      bOwnsFP = bOwnsFPIn, poDS = None, nBand = 1,
      eDataType = eDataTypeIn, eAccess = GA_ReadOnly, nRasterXSize = nXSize,
      nRasterYSize = nYSize, nBlockXSize = nXSize,
      nBlockYSize = 1, blockCache = cache, fileCalls = [], cplErrors = [] \<rparr>"

definition RawRasterBand_floating ::
  "(int \<Rightarrow> GByte list option) \<Rightarrow> 'c \<Rightarrow> 'f \<Rightarrow> int \<Rightarrow> int \<Rightarrow> int \<Rightarrow>
   GDALDataType \<Rightarrow> int \<Rightarrow> int \<Rightarrow> int \<Rightarrow> bool \<Rightarrow> ('f, 'c) RawRasterBand" where
  "RawRasterBand_floating VSIMalloc cache fpRawLIn nImgOffsetIn nPixelOffsetIn nLineOffsetIn
      eDataTypeIn bNativeOrderIn nXSize nYSize bOwnsFPIn =
    (let b = RawRasterBand_floating_init cache fpRawLIn nImgOffsetIn nPixelOffsetIn
               nLineOffsetIn eDataTypeIn bNativeOrderIn nXSize nYSize bOwnsFPIn
     in if \<not> GDALCheckDatasetDimensions nXSize nYSize then b\<lparr>pLineBuffer := None\<rparr>
        else Initialize VSIMalloc b)"

definition SetAccess :: "GDALAccess \<Rightarrow> ('f, 'c) RawRasterBand \<Rightarrow> ('f, 'c) RawRasterBand" where
  "SetAccess eAccessIn b = b\<lparr>eAccess := eAccessIn\<rparr>"

section \<open>Addressing\<close>

text \<open>
  The start of scanline \<open>iLine\<close> on the file, as \<open>AccessLine\<close> computes
  \<open>nReadStart\<close> and \<open>IWriteBlock\<close> computes \<open>nWriteStart\<close>: in unsigned 64-bit
  arithmetic, with the magnitudes of negative strides subtracted.
\<close>

definition nReadStart :: "('f, 'c) RawRasterBand \<Rightarrow> int \<Rightarrow> int" where
  "nReadStart b iLine =
    (let r = nImgOffset b;
         r = (if nLineOffset b \<ge> 0
              then u64_add r (u64_mul (u64 (nLineOffset b)) (u64 iLine))
              else u64_sub r (u64_mul (u64 (- s64 (nLineOffset b))) (u64 iLine)))
     in if nPixelOffset b < 0
        then u64_sub r (u64_mul (u64 (- s64 (nPixelOffset b))) (u64 (nBlockXSize b - 1)))
        else r)"

definition nWriteStart :: "('f, 'c) RawRasterBand \<Rightarrow> int \<Rightarrow> int" where
  "nWriteStart b nBlockYOff =
    (let nPixelOffsetToSubtract =
           (if nPixelOffset b \<ge> 0 then 0
            else u64_mul (u64 (- s64 (nPixelOffset b))) (u64 (nBlockXSize b - 1)))
     in u64_sub
          (if nLineOffset b \<ge> 0
           then u64_add (nImgOffset b) (u64_mul (u64 (nLineOffset b)) (u64 nBlockYOff))
           else u64_sub (nImgOffset b)
                  (u64_mul (u64 (- s64 (nLineOffset b))) (u64 nBlockYOff)))
          nPixelOffsetToSubtract)"

text \<open>
  The addressing rule of the specification (section 4.1), in the integers: the byte
  address of pixel \<open>(x, y)\<close>.
\<close>

definition pixel_offset :: "('f, 'c) RawRasterBand \<Rightarrow> int \<Rightarrow> int \<Rightarrow> int" where
  "pixel_offset b x y =
     nImgOffset b
     + (if nLineOffset b \<ge> 0 then \<bar>nLineOffset b\<bar> * y else - (\<bar>nLineOffset b\<bar> * y))
     + (if nPixelOffset b \<ge> 0 then \<bar>nPixelOffset b\<bar> * x else - (\<bar>nPixelOffset b\<bar> * x))"

section \<open>Buffers\<close>

text \<open>
  A memory block is a list of bytes and a pointer into it an offset. \<open>store_bytes\<close>
  writes bytes from an offset on (\<open>memcpy\<close> into the block), \<open>load_bytes\<close> reads
  them. A write past the end of the block, which is undefined in C++, changes nothing here.
\<close>

fun store_bytes :: "GByte list \<Rightarrow> nat \<Rightarrow> GByte list \<Rightarrow> GByte list" where
  "store_bytes buf off [] = buf"
| "store_bytes buf off (x # xs) = store_bytes (buf[off := x]) (Suc off) xs"

definition load_bytes :: "GByte list \<Rightarrow> nat \<Rightarrow> nat \<Rightarrow> GByte list" where
  "load_bytes buf off n = take n (drop off buf)"

definition memset_zero :: "GByte list \<Rightarrow> nat \<Rightarrow> nat \<Rightarrow> GByte list" where
  "memset_zero buf off n = store_bytes buf off (replicate n 0)"

text \<open>
  Modelled from the spec: \<open>GDALSwapWords(pData, nWordSize, nWordCount, nWordSkip)\<close>
  (not among the sources) reverses in place the bytes of each of \<open>nWordCount\<close> words
  of \<open>nWordSize\<close> bytes, \<open>nWordSkip\<close> bytes apart, one word after the other.
\<close>

fun GDALSwapWords :: "GByte list \<Rightarrow> nat \<Rightarrow> nat \<Rightarrow> nat \<Rightarrow> nat \<Rightarrow> GByte list" where
  "GDALSwapWords buf pData nWordSize 0 nWordSkip = buf"
| "GDALSwapWords buf pData nWordSize (Suc n) nWordSkip =
     GDALSwapWords (store_bytes buf pData (rev (load_bytes buf pData nWordSize)))
       (pData + nWordSkip) nWordSize n nWordSkip"

text \<open>
  Modelled from the spec: \<open>GDALCopyWords\<close> (not among the sources) between equal
  source and destination types copies \<open>nWordCount\<close> words of \<open>nWordSize\<close> bytes, one
  after the other, from \<open>pSrc\<close> in steps of \<open>nSrcStride\<close> bytes to \<open>pDst\<close> in steps of
  \<open>nDstStride\<close> bytes (the strides may be negative). Source and destination are
  different blocks.
\<close>

fun GDALCopyWords ::
  "GByte list \<Rightarrow> int \<Rightarrow> int \<Rightarrow> GByte list \<Rightarrow> int \<Rightarrow> int \<Rightarrow> nat \<Rightarrow> nat \<Rightarrow> GByte list" where
  "GDALCopyWords src pSrc nSrcStride dst pDst nDstStride nWordSize 0 = dst"
| "GDALCopyWords src pSrc nSrcStride dst pDst nDstStride nWordSize (Suc n) =
     GDALCopyWords src (pSrc + nSrcStride) nSrcStride
       (store_bytes dst (nat pDst) (load_bytes src (nat pSrc) nWordSize))
       (pDst + nDstStride) nDstStride nWordSize n"

section \<open>The scanline cache\<close>

text \<open>\<open>RawRasterBand::Seek\<close>, \<open>Read\<close> and \<open>Write\<close>; every call is recorded.\<close>

definition Seek ::
  "'f VSIVirtualFile \<Rightarrow> int \<Rightarrow> Whence \<Rightarrow> ('f, 'c) RawRasterBand \<Rightarrow>
   int \<times> ('f, 'c) RawRasterBand" where
  "Seek vsi nOffset nSeekMode b =
    (case VSIFSeekL vsi (fpRawL b) nOffset nSeekMode of
       (rc, f) \<Rightarrow>
         (rc, b\<lparr>fpRawL := f, fileCalls := fileCalls b @ [CallSeek nOffset nSeekMode]\<rparr>))"

definition Read ::
  "'f VSIVirtualFile \<Rightarrow> nat \<Rightarrow> ('f, 'c) RawRasterBand \<Rightarrow> GByte list \<times> ('f, 'c) RawRasterBand" where
  "Read vsi nCount b =
    (case VSIFReadL vsi (fpRawL b) nCount of
       (bytes, f) \<Rightarrow>
         (take nCount bytes, b\<lparr>fpRawL := f, fileCalls := fileCalls b @ [CallRead nCount]\<rparr>))"

definition Write ::
  "'f VSIVirtualFile \<Rightarrow> GByte list \<Rightarrow> ('f, 'c) RawRasterBand \<Rightarrow> nat \<times> ('f, 'c) RawRasterBand" where
  "Write vsi bytes b =
    (case VSIFWriteL vsi (fpRawL b) bytes of
       (n, f) \<Rightarrow>
         (min n (length bytes),
          b\<lparr>fpRawL := f, fileCalls := fileCalls b @ [CallWrite bytes]\<rparr>))"

text \<open>
  The byte swap of the line buffer, which the source writes out three times (in
  \<open>AccessLine\<close> and twice in \<open>IWriteBlock\<close>).
\<close>

definition SwapLineBuffer :: "('f, 'c) RawRasterBand \<Rightarrow> GByte list \<Rightarrow> GByte list" where
  "SwapLineBuffer b buf =
    (if bNativeOrder b = 0 \<and> eDataType b \<noteq> GDT_Byte then
       (if GDALDataTypeIsComplex (eDataType b) then
          (let nWordSize = nat (GDALGetDataTypeSize (eDataType b) div 16) in
           GDALSwapWords
             (GDALSwapWords buf 0 nWordSize (nat (nBlockXSize b)) (nat \<bar>nPixelOffset b\<bar>))
             nWordSize nWordSize (nat (nBlockXSize b)) (nat \<bar>nPixelOffset b\<bar>))
        else
          GDALSwapWords buf 0 (nat (GDALGetDataTypeSizeBytes (eDataType b)))
            (nat (nBlockXSize b)) (nat \<bar>nPixelOffset b\<bar>))
     else buf)"

definition ds_read_only :: "('f, 'c) RawRasterBand \<Rightarrow> bool" where
  "ds_read_only b = (case poDS b of None \<Rightarrow> False | Some ds \<Rightarrow> dsAccess ds = GA_ReadOnly)"

definition ds_no_ENVI :: "('f, 'c) RawRasterBand \<Rightarrow> bool" where
  "ds_no_ENVI b = (case poDS b of None \<Rightarrow> False | Some ds \<Rightarrow> dsMetadata ds ''ENVI'' = None)"

definition AccessLine ::
  "'f VSIVirtualFile \<Rightarrow> int \<Rightarrow> ('f, 'c) RawRasterBand \<Rightarrow> CPLErr \<times> ('f, 'c) RawRasterBand" where
  "AccessLine vsi iLine b =
    (case pLineBuffer b of
       None \<Rightarrow> (CE_Failure, b)
     | Some buf \<Rightarrow>
         if nLoadedScanline b = iLine then (CE_None, b)
         else
           (case Seek vsi (nReadStart b iLine) SEEK_SET b of
              (rc, b1) \<Rightarrow>
                if rc = - 1 then
                  (if ds_read_only b1
                   then (CE_Failure, CPLError CE_Failure CPLE_FileIO b1)
                   else (CE_None,
                         b1\<lparr>pLineBuffer := Some (memset_zero buf 0 (nat (nLineSize b1))),
                            nLoadedScanline := iLine\<rparr>))
                else
                  (case Read vsi (nat (nLineSize b1)) b1 of
                     (bytes, b2) \<Rightarrow>
                       if length bytes < nat (nLineSize b2) then
                         (if ds_read_only b2 \<and> ds_no_ENVI b2
                          then (CE_Failure,
                                CPLError CE_Failure CPLE_FileIO
                                  (b2\<lparr>pLineBuffer := Some (store_bytes buf 0 bytes)\<rparr>))
                          else (CE_None,
                                b2\<lparr>pLineBuffer :=
                                     Some (SwapLineBuffer b2
                                       (memset_zero (store_bytes buf 0 bytes) (length bytes)
                                          (nat (nLineSize b2) - length bytes))),
                                   nLoadedScanline := iLine\<rparr>))
                       else (CE_None,
                             b2\<lparr>pLineBuffer :=
                                  Some (SwapLineBuffer b2 (store_bytes buf 0 bytes)),
                                nLoadedScanline := iLine\<rparr>))))"


definition line_buffer :: "('f, 'c) RawRasterBand \<Rightarrow> GByte list" where
  "line_buffer b = (case pLineBuffer b of None \<Rightarrow> [] | Some buf \<Rightarrow> buf)"

definition IReadBlock ::
  "'f VSIVirtualFile \<Rightarrow> int \<Rightarrow> GByte list \<Rightarrow> ('f, 'c) RawRasterBand \<Rightarrow>
   CPLErr \<times> GByte list \<times> ('f, 'c) RawRasterBand" where
  "IReadBlock vsi nBlockYOff pImage b =
    (case pLineBuffer b of
       None \<Rightarrow> (CE_Failure, pImage, b)
     | Some _ \<Rightarrow>
         (case AccessLine vsi nBlockYOff b of
            (eErr, b1) \<Rightarrow>
              if eErr = CE_Failure then (eErr, pImage, b1)
              else (eErr,
                    GDALCopyWords (line_buffer b1) (pLineStart b1) (nPixelOffset b1)
                      pImage 0 (GDALGetDataTypeSizeBytes (eDataType b1))
                      (nat (GDALGetDataTypeSizeBytes (eDataType b1))) (nat (nBlockXSize b1)),
                    b1)))"

text \<open>
  \<open>IWriteBlock\<close> in two parts: \<open>IWriteBlock_store\<close> is the seek and the write of
  the line buffer, with the error state \<open>eErr\<close> the pre-read left.
\<close>

definition IWriteBlock_store ::
  "'f VSIVirtualFile \<Rightarrow> int \<Rightarrow> CPLErr \<Rightarrow> ('f, 'c) RawRasterBand \<Rightarrow>
   CPLErr \<times> ('f, 'c) RawRasterBand" where
  "IWriteBlock_store vsi nBlockYOff eErr b =
    (case Seek vsi (nWriteStart b nBlockYOff) SEEK_SET b of
       (rc, b1) \<Rightarrow>
         (case (if rc = - 1 then (CE_Failure, CPLError CE_Failure CPLE_FileIO b1)
                else (eErr, b1)) of
            (eErr1, b2) \<Rightarrow>
              if eErr1 = CE_None then
                (case Write vsi (load_bytes (line_buffer b2) 0 (nat (nLineSize b2))) b2 of
                   (n, b3) \<Rightarrow>
                     if n < nat (nLineSize b3)
                     then (CE_Failure, CPLError CE_Failure CPLE_FileIO b3)
                     else (eErr1, b3))
              else (eErr1, b2)))"

definition IWriteBlock ::
  "'f VSIVirtualFile \<Rightarrow> int \<Rightarrow> GByte list \<Rightarrow> ('f, 'c) RawRasterBand \<Rightarrow>
   CPLErr \<times> ('f, 'c) RawRasterBand" where
  "IWriteBlock vsi nBlockYOff pImage b =
    (case pLineBuffer b of
       None \<Rightarrow> (CE_Failure, b)
     | Some _ \<Rightarrow>
         (case (if \<bar>nPixelOffset b\<bar> > GDALGetDataTypeSizeBytes (eDataType b)
                then AccessLine vsi nBlockYOff b else (CE_None, b)) of
            (eErr, b1) \<Rightarrow>
              (case IWriteBlock_store vsi nBlockYOff eErr
                      (b1\<lparr>pLineBuffer := Some (SwapLineBuffer b1
                           (GDALCopyWords pImage 0 (GDALGetDataTypeSizeBytes (eDataType b1))
                              (line_buffer b1) (pLineStart b1) (nPixelOffset b1)
                              (nat (GDALGetDataTypeSizeBytes (eDataType b1)))
                              (nat (nBlockXSize b1))))\<rparr>) of
                 (eErr2, b2) \<Rightarrow>
                   (eErr2,
                    b2\<lparr>pLineBuffer := Some (SwapLineBuffer b2 (line_buffer b2)),
                       bDirty := True\<rparr>))))"

text \<open>
  \<open>RawRasterBand::FlushCache\<close>. The flush of the block cache
  (\<open>GDALRasterBand::FlushCache\<close>) belongs to the external framework and is the
  parameter \<open>GDALRasterBand_FlushCache\<close>: any function of the band, which may call
  \<open>IWriteBlock\<close>.
\<close>

definition FlushCache ::
  "'f VSIVirtualFile \<Rightarrow> (('f, 'c) RawRasterBand \<Rightarrow> CPLErr \<times> ('f, 'c) RawRasterBand) \<Rightarrow>
   ('f, 'c) RawRasterBand \<Rightarrow> CPLErr \<times> ('f, 'c) RawRasterBand" where
  "FlushCache vsi GDALRasterBand_FlushCache b =
    (case GDALRasterBand_FlushCache b of
       (eErr, b1) \<Rightarrow>
         if eErr \<noteq> CE_None then (eErr, b1\<lparr>bDirty := False\<rparr>)
         else if bDirty b1 then
           (case VSIFFlushL vsi (fpRawL b1) of
              (nRet, f) \<Rightarrow>
                (if nRet < 0 then CE_Failure else CE_None,
                 b1\<lparr>fpRawL := f, fileCalls := fileCalls b1 @ [CallFlush], bDirty := False\<rparr>))
         else (CE_None, b1))"

section \<open>The block cache\<close>

text \<open>
  Modelled from the spec: one behaviour of the external block cache, for the examples.
  The cache is the list of its dirty blocks, each a line number with its data. Its flush
  writes the blocks through \<open>IWriteBlock\<close> for as long as no write has failed, and
  drops them all.
\<close>

fun FlushBlocks ::
  "'f VSIVirtualFile \<Rightarrow> (int \<times> GByte list) list \<Rightarrow> CPLErr \<Rightarrow>
   ('f, (int \<times> GByte list) list) RawRasterBand \<Rightarrow>
   CPLErr \<times> ('f, (int \<times> GByte list) list) RawRasterBand" where
  "FlushBlocks vsi [] eGlobalErr b = (eGlobalErr, b)"
| "FlushBlocks vsi (blk # rest) eGlobalErr b =
     (if eGlobalErr = CE_None
      then (case IWriteBlock vsi (fst blk) (snd blk) b of
              (eErr, b1) \<Rightarrow> FlushBlocks vsi rest eErr b1)
      else FlushBlocks vsi rest eGlobalErr b)"

definition BlockCache_FlushCache ::
  "'f VSIVirtualFile \<Rightarrow> ('f, (int \<times> GByte list) list) RawRasterBand \<Rightarrow>
   CPLErr \<times> ('f, (int \<times> GByte list) list) RawRasterBand" where
  "BlockCache_FlushCache vsi b =
    (case FlushBlocks vsi (blockCache b) CE_None b of
       (eErr, b1) \<Rightarrow> (eErr, b1\<lparr>blockCache := []\<rparr>))"

section \<open>The direct input and output path\<close>

text \<open>
  Modelled from the spec: the resampling algorithms and the extra argument of
  \<open>gdal.h\<close> (not among the sources). The progress callback receives the fraction
  \<open>(iLine + 1) / nBufYSize\<close> as its numerator and denominator.
\<close>

datatype GDALRIOResampleAlg =
    GRIORA_NearestNeighbour | GRIORA_Bilinear | GRIORA_Cubic | GRIORA_CubicSpline
  | GRIORA_Lanczos | GRIORA_Average | GRIORA_Mode | GRIORA_Gauss

record GDALRasterIOExtraArg =
  eResampleAlg :: GDALRIOResampleAlg
  pfnProgress :: "(int \<Rightarrow> int \<Rightarrow> bool) option"

text \<open>
  The collaborators of the generic framework, as one record of functions, so that every
  statement holds for each of their behaviours: the configuration options
  (\<open>CPLGetConfigOption\<close> with a null default, \<open>CPLTestBool\<close>), the block cache lookup,
  the overviews, the generic \<open>IRasterIO\<close>, the staging allocator, the conversion of one
  word between two different pixel types, and \<open>SrcIndex i n m\<close>, the value of
  \<open>static_cast<vsi_l_offset>(i * (static_cast<double>(n) / m))\<close>, which the source
  computes in floating point.
\<close>

record ('f, 'c) Framework =
  CPLGetConfigOption :: "string \<Rightarrow> string option"
  CPLTestBool :: "string \<Rightarrow> bool"
  TryGetLockedBlockRef :: "'c \<Rightarrow> int \<Rightarrow> int \<Rightarrow> bool"
  GetOverviewCount :: "('f, 'c) RawRasterBand \<Rightarrow> int"
  OverviewRasterIO ::
    "GByte list \<Rightarrow> ('f, 'c) RawRasterBand \<Rightarrow> CPLErr \<times> GByte list \<times> ('f, 'c) RawRasterBand"
  GDALRasterBand_IRasterIO ::
    "GByte list \<Rightarrow> ('f, 'c) RawRasterBand \<Rightarrow> CPLErr \<times> GByte list \<times> ('f, 'c) RawRasterBand"
  VSI_MALLOC_VERBOSE :: "int \<Rightarrow> GByte list option"
  ConvertWord :: "GDALDataType \<Rightarrow> GDALDataType \<Rightarrow> GByte list \<Rightarrow> GByte list"
  SrcIndex :: "int \<Rightarrow> int \<Rightarrow> int \<Rightarrow> int"

text \<open>The spec's reading of \<open>SrcIndex\<close>: \<open>floor(i * n / m)\<close>.\<close>

definition floor_index :: "int \<Rightarrow> int \<Rightarrow> int \<Rightarrow> int" where
  "floor_index i n m = (i * n) div m"

function IsSignificantNumberOfLinesLoaded_loop ::
  "(int \<Rightarrow> bool) \<Rightarrow> int \<Rightarrow> int \<Rightarrow> int \<Rightarrow> int \<Rightarrow> bool" where
  "IsSignificantNumberOfLinesLoaded_loop cached iLine nEnd nLines nCountLoaded =
    (if iLine < nEnd then
       (if cached iLine then
          (if nCountLoaded + 1 > c_quot nLines 20 then True
           else IsSignificantNumberOfLinesLoaded_loop cached (iLine + 1) nEnd nLines
                  (nCountLoaded + 1))
        else IsSignificantNumberOfLinesLoaded_loop cached (iLine + 1) nEnd nLines nCountLoaded)
     else False)"
  by pat_completeness auto
termination
  by (relation "measure (\<lambda>(cached, iLine, nEnd, nLines, nCountLoaded). nat (nEnd - iLine))") auto

declare IsSignificantNumberOfLinesLoaded_loop.simps [simp del]

definition IsSignificantNumberOfLinesLoaded ::
  "('f, 'c) Framework \<Rightarrow> int \<Rightarrow> int \<Rightarrow> ('f, 'c) RawRasterBand \<Rightarrow> bool" where
  "IsSignificantNumberOfLinesLoaded fw nLineOff nLines b =
     IsSignificantNumberOfLinesLoaded_loop
       (\<lambda>iLine. TryGetLockedBlockRef fw (blockCache b) 0 iLine)
       nLineOff (nLineOff + nLines) nLines 0"

text \<open>
  \<open>CanUseDirectIO\<close>; \<open>None\<close> is the trap of the division by a zero \<open>nPixelOffset\<close>.
  The conditions are evaluated left to right, as \<open>||\<close> does.
\<close>

definition CanUseDirectIO ::
  "('f, 'c) Framework \<Rightarrow> int \<Rightarrow> int \<Rightarrow> int \<Rightarrow> GDALRasterIOExtraArg \<Rightarrow>
   ('f, 'c) RawRasterBand \<Rightarrow> bool option" where
  "CanUseDirectIO fw nYOff nXSize nYSize psExtraArg b =
    (if nPixelOffset b < 0 \<or> eResampleAlg psExtraArg \<noteq> GRIORA_NearestNeighbour
     then Some False
     else
       (case CPLGetConfigOption fw ''GDAL_ONE_BIG_READ'' of
          None \<Rightarrow>
            (if nLineSize b < 50000 then Some False
             else
               (case c_div (nLineSize b) (nPixelOffset b) of
                  None \<Rightarrow> None
                | Some q \<Rightarrow>
                    if nXSize > c_quot q 5 * 2 then Some False
                    else if IsSignificantNumberOfLinesLoaded fw nYOff nYSize b
                    then Some False
                    else Some True))
        | Some pszGDAL_ONE_BIG_READ \<Rightarrow> Some (CPLTestBool fw pszGDAL_ONE_BIG_READ)))"


text \<open>
  The number of the requested scanlines \<open>nLineOff, ..., nLineOff + nLines - 1\<close> that
  the block cache holds.
\<close>

definition cached_lines ::
  "('f, 'c) Framework \<Rightarrow> int \<Rightarrow> int \<Rightarrow> ('f, 'c) RawRasterBand \<Rightarrow> int" where
  "cached_lines fw nLineOff nLines b =
     int (length (filter (\<lambda>iLine. TryGetLockedBlockRef fw (blockCache b) 0 iLine)
                    [nLineOff..nLineOff + nLines - 1]))"

text \<open>
  The gate as section 4.5 of the specification words it, to be compared with
  \<open>CanUseDirectIO\<close>: direct input and output is refused when the pixel stride is
  negative, when the resampling is not nearest-neighbour, or when
  \<open>GDAL_ONE_BIG_READ\<close> is unset and the line is shorter than 50000 bytes, or
  \<open>wIn > (line_size / pixel_stride) * 2/5\<close>, or more than 5% of the lines are cached;
  an option that is set decides. The two fractions are read in the rationals, with the
  denominators cleared (\<open>pixel_stride\<close> is positive where they are evaluated).
\<close>

definition CanUseDirectIO_spec ::
  "('f, 'c) Framework \<Rightarrow> int \<Rightarrow> int \<Rightarrow> int \<Rightarrow> GDALRasterIOExtraArg \<Rightarrow>
   ('f, 'c) RawRasterBand \<Rightarrow> bool" where
  "CanUseDirectIO_spec fw nYOff nXSize nYSize psExtraArg b =
    (if nPixelOffset b < 0 \<or> eResampleAlg psExtraArg \<noteq> GRIORA_NearestNeighbour then False
     else
       (case CPLGetConfigOption fw ''GDAL_ONE_BIG_READ'' of
          None \<Rightarrow>
            \<not> (nLineSize b < 50000 \<or>
               5 * nXSize * nPixelOffset b > 2 * nLineSize b \<or>
               20 * cached_lines fw nYOff nYSize b > nYSize)
        | Some v \<Rightarrow> CPLTestBool fw v))"

text \<open>
  The byte swap of a block of the direct path, as \<open>AccessBlock\<close> and the write branches
  of \<open>IRasterIO\<close> write it out: \<open>nWordCount\<close> words, \<open>nWordSkip\<close> bytes apart.
\<close>

definition SwapBlock ::
  "('f, 'c) RawRasterBand \<Rightarrow> GByte list \<Rightarrow> nat \<Rightarrow> nat \<Rightarrow> GByte list" where
  "SwapBlock b pData nWordCount nWordSkip =
    (if GDALDataTypeIsComplex (eDataType b) then
       (let nWordSize = nat (GDALGetDataTypeSize (eDataType b) div 16) in
        GDALSwapWords (GDALSwapWords pData 0 nWordSize nWordCount nWordSkip)
          nWordSize nWordSize nWordCount nWordSkip)
     else
       GDALSwapWords pData 0 (nat (GDALGetDataTypeSizeBytes (eDataType b)))
         nWordCount nWordSkip)"

text \<open>
  \<open>AccessBlock\<close> reads \<open>nBlockSize\<close> bytes at \<open>nBlockOff\<close> into \<open>pData\<close>. It
  always returns \<open>CE_None\<close>. The word count \<open>nBlockSize / nPixelOffset\<close> is an unsigned
  division; \<open>None\<close> is its trap for a zero \<open>nPixelOffset\<close>.
\<close>

definition AccessBlock ::
  "'f VSIVirtualFile \<Rightarrow> int \<Rightarrow> nat \<Rightarrow> GByte list \<Rightarrow> ('f, 'c) RawRasterBand \<Rightarrow>
   (CPLErr \<times> GByte list \<times> ('f, 'c) RawRasterBand) option" where
  "AccessBlock vsi nBlockOff nBlockSize pData b =
    (case Seek vsi nBlockOff SEEK_SET b of
       (rc, b1) \<Rightarrow>
         if rc = - 1 then Some (CE_None, memset_zero pData 0 nBlockSize, b1)
         else
           (case Read vsi nBlockSize b1 of
              (bytes, b2) \<Rightarrow>
                if length bytes < nBlockSize then
                  Some (CE_None,
                        memset_zero (store_bytes pData 0 bytes) (length bytes)
                          (nBlockSize - length bytes),
                        b2)
                else if bNativeOrder b2 = 0 \<and> eDataType b2 \<noteq> GDT_Byte then
                  (case c_div (int nBlockSize) (u64 (nPixelOffset b2)) of
                     None \<Rightarrow> None
                   | Some nWordCount \<Rightarrow>
                       Some (CE_None,
                             SwapBlock b2 (store_bytes pData 0 bytes) (nat nWordCount)
                               (nat (nPixelOffset b2)),
                             b2))
                else Some (CE_None, store_bytes pData 0 bytes, b2)))"

text \<open>
  \<open>GDALCopyWords\<close> between two pixel types: bytewise for equal types, otherwise every
  word goes through the framework's conversion.
\<close>

fun GDALCopyWords_conv ::
  "(GByte list \<Rightarrow> GByte list) \<Rightarrow> GByte list \<Rightarrow> int \<Rightarrow> int \<Rightarrow> GByte list \<Rightarrow> int \<Rightarrow> int \<Rightarrow>
   nat \<Rightarrow> nat \<Rightarrow> GByte list" where
  "GDALCopyWords_conv conv src pSrc nSrcStride dst pDst nDstStride nWordSize 0 = dst"
| "GDALCopyWords_conv conv src pSrc nSrcStride dst pDst nDstStride nWordSize (Suc n) =
     GDALCopyWords_conv conv src (pSrc + nSrcStride) nSrcStride
       (store_bytes dst (nat pDst) (conv (load_bytes src (nat pSrc) nWordSize)))
       (pDst + nDstStride) nDstStride nWordSize n"

definition GDALCopyWords_typed ::
  "('f, 'c) Framework \<Rightarrow> GByte list \<Rightarrow> int \<Rightarrow> GDALDataType \<Rightarrow> int \<Rightarrow>
   GByte list \<Rightarrow> int \<Rightarrow> GDALDataType \<Rightarrow> int \<Rightarrow> nat \<Rightarrow> GByte list" where
  "GDALCopyWords_typed fw src pSrc eSrcType nSrcStride dst pDst eDstType nDstStride nWordCount =
    (if eSrcType = eDstType
     then GDALCopyWords src pSrc nSrcStride dst pDst nDstStride
            (nat (GDALGetDataTypeSizeBytes eSrcType)) nWordCount
     else GDALCopyWords_conv (ConvertWord fw eSrcType eDstType) src pSrc nSrcStride
            dst pDst nDstStride (nat (GDALGetDataTypeSizeBytes eSrcType)) nWordCount)"

text \<open>The file offsets of the direct path, with the types of the source's operands.\<close>

definition DirectOffset_rows :: "('f, 'c) RawRasterBand \<Rightarrow> int \<Rightarrow> int" where
  "DirectOffset_rows b nYOff =
    (if nLineOffset b \<ge> 0 then u64_add (nImgOffset b) (u64 (nYOff * nLineOffset b))
     else u64_sub (nImgOffset b) (u64_mul (u64 nYOff) (u64 (- nLineOffset b))))"

definition DirectOffset_line :: "('f, 'c) RawRasterBand \<Rightarrow> int \<Rightarrow> int \<Rightarrow> int" where
  "DirectOffset_line b nLine nXOff =
    (let nOffset =
           (if nLineOffset b \<ge> 0
            then u64_add (nImgOffset b) (u64_mul nLine (u64 (nLineOffset b)))
            else u64_sub (nImgOffset b) (u64_mul nLine (u64 (- nLineOffset b))))
     in if nPixelOffset b \<ge> 0 then u64_add nOffset (u64 (nXOff * nPixelOffset b))
        else u64_sub nOffset (u64_mul (u64 nXOff) (u64 (- nPixelOffset b))))"

text \<open>
  The condition of the ``simplest case'' of \<open>IRasterIO\<close>: a contiguous block of
  uninterleaved pixels.
\<close>

definition IsContiguousRequest ::
  "('f, 'c) RawRasterBand \<Rightarrow> int \<Rightarrow> int \<Rightarrow> int \<Rightarrow> int \<Rightarrow> GDALDataType \<Rightarrow> int \<Rightarrow> int \<Rightarrow> bool" where
  "IsContiguousRequest b nXSize nYSize nBufXSize nBufYSize eBufType nPixelSpace nLineSpace =
    (nXSize = nRasterXSize b \<and> nXSize = nBufXSize \<and> nYSize = nBufYSize \<and>
     eBufType = eDataType b \<and>
     nPixelOffset b = GDALGetDataTypeSizeBytes (eDataType b) \<and>
     nPixelSpace = GDALGetDataTypeSizeBytes eBufType \<and>
     nLineSpace = nPixelSpace * nXSize)"

text \<open>One output row of the general read case, and the loop over the rows.\<close>

definition ReadRowPixels ::
  "('f, 'c) Framework \<Rightarrow> ('f, 'c) RawRasterBand \<Rightarrow> GByte list \<Rightarrow> int \<Rightarrow> int \<Rightarrow> int \<Rightarrow>
   GDALDataType \<Rightarrow> int \<Rightarrow> int \<Rightarrow> bool \<Rightarrow> GByte list \<Rightarrow> GByte list" where
  "ReadRowPixels fw b pabyData iLine nXSize nBufXSize eBufType nPixelSpace nLineSpace
      bSameSize pData =
    (if bSameSize then
       GDALCopyWords_typed fw pabyData 0 (eDataType b) (nPixelOffset b)
         pData (iLine * nLineSpace) eBufType nPixelSpace (nat nXSize)
     else
       fold (\<lambda>iPixel dst.
               GDALCopyWords_typed fw pabyData
                 (SrcIndex fw (int iPixel) nXSize nBufXSize * nPixelOffset b)
                 (eDataType b) (nPixelOffset b)
                 dst (iLine * nLineSpace + int iPixel * nPixelSpace) eBufType nPixelSpace 1)
            [0..<nat nBufXSize] pData)"

fun IRasterIO_read_rows ::
  "'f VSIVirtualFile \<Rightarrow> ('f, 'c) Framework \<Rightarrow> int \<Rightarrow> int \<Rightarrow> int \<Rightarrow> int \<Rightarrow> int \<Rightarrow> int \<Rightarrow>
   GDALDataType \<Rightarrow> int \<Rightarrow> int \<Rightarrow> GDALRasterIOExtraArg \<Rightarrow> nat \<Rightarrow> nat list \<Rightarrow>
   GByte list \<Rightarrow> GByte list \<Rightarrow> ('f, 'c) RawRasterBand \<Rightarrow>
   (CPLErr \<times> GByte list \<times> ('f, 'c) RawRasterBand) option" where
  "IRasterIO_read_rows vsi fw nXOff nYOff nXSize nYSize nBufXSize nBufYSize eBufType
      nPixelSpace nLineSpace psExtraArg nBytesToRW [] pabyData pData b =
     Some (CE_None, pData, b)"
| "IRasterIO_read_rows vsi fw nXOff nYOff nXSize nYSize nBufXSize nBufYSize eBufType
      nPixelSpace nLineSpace psExtraArg nBytesToRW (iLine # rest) pabyData pData b =
     (case AccessBlock vsi
             (DirectOffset_line b
                (u64_add (u64 nYOff) (SrcIndex fw (int iLine) nYSize nBufYSize)) nXOff)
             nBytesToRW pabyData b of
        None \<Rightarrow> None
      | Some (eErr, pabyData1, b1) \<Rightarrow>
          if eErr \<noteq> CE_None
          then Some (CE_Failure, pData, CPLError CE_Failure CPLE_FileIO b1)
          else
            (let pData1 =
                   ReadRowPixels fw b1 pabyData1 (int iLine) nXSize nBufXSize eBufType
                     nPixelSpace nLineSpace
                     (nXSize = nBufXSize \<and> nYSize = nBufYSize) pData
             in case pfnProgress psExtraArg of
                  None \<Rightarrow>
                    IRasterIO_read_rows vsi fw nXOff nYOff nXSize nYSize nBufXSize nBufYSize
                      eBufType nPixelSpace nLineSpace psExtraArg nBytesToRW rest
                      pabyData1 pData1 b1
                | Some progress \<Rightarrow>
                    if \<not> progress (int iLine + 1) nBufYSize
                    then Some (CE_Failure, pData1, b1)
                    else
                      IRasterIO_read_rows vsi fw nXOff nYOff nXSize nYSize nBufXSize
                        nBufYSize eBufType nPixelSpace nLineSpace psExtraArg nBytesToRW rest
                        pabyData1 pData1 b1))"


text \<open>One input row of the general write case, and the loop over the rows.\<close>

definition WriteRowPixels ::
  "('f, 'c) Framework \<Rightarrow> ('f, 'c) RawRasterBand \<Rightarrow> GByte list \<Rightarrow> int \<Rightarrow> int \<Rightarrow> int \<Rightarrow>
   GDALDataType \<Rightarrow> int \<Rightarrow> int \<Rightarrow> bool \<Rightarrow> GByte list \<Rightarrow> GByte list" where
  "WriteRowPixels fw b pData iLine nXSize nBufXSize eBufType nPixelSpace nLineSpace
      bSameSize pabyData =
    (if bSameSize then
       GDALCopyWords_typed fw pData (iLine * nLineSpace) eBufType nPixelSpace
         pabyData 0 (eDataType b) (nPixelOffset b) (nat nXSize)
     else
       fold (\<lambda>iPixel dst.
               GDALCopyWords_typed fw pData
                 (iLine * nLineSpace + int iPixel * nPixelSpace) eBufType nPixelSpace
                 dst (SrcIndex fw (int iPixel) nXSize nBufXSize * nPixelOffset b)
                 (eDataType b) (nPixelOffset b) 1)
            [0..<nat nBufXSize] pabyData)"

definition SwapIfForeign ::
  "('f, 'c) RawRasterBand \<Rightarrow> GByte list \<Rightarrow> nat \<Rightarrow> nat \<Rightarrow> GByte list" where
  "SwapIfForeign b pData nWordCount nWordSkip =
    (if bNativeOrder b = 0 \<and> eDataType b \<noteq> GDT_Byte
     then SwapBlock b pData nWordCount nWordSkip else pData)"

fun IRasterIO_write_rows ::
  "'f VSIVirtualFile \<Rightarrow> ('f, 'c) Framework \<Rightarrow> int \<Rightarrow> int \<Rightarrow> int \<Rightarrow> int \<Rightarrow> int \<Rightarrow> int \<Rightarrow>
   GDALDataType \<Rightarrow> int \<Rightarrow> int \<Rightarrow> nat \<Rightarrow> nat list \<Rightarrow>
   GByte list \<Rightarrow> GByte list \<Rightarrow> ('f, 'c) RawRasterBand \<Rightarrow>
   (CPLErr \<times> ('f, 'c) RawRasterBand) option" where
  "IRasterIO_write_rows vsi fw nXOff nYOff nXSize nYSize nBufXSize nBufYSize eBufType
      nPixelSpace nLineSpace nBytesToRW [] pabyData pData b =
     Some (CE_None, b\<lparr>bDirty := True\<rparr>)"
| "IRasterIO_write_rows vsi fw nXOff nYOff nXSize nYSize nBufXSize nBufYSize eBufType
      nPixelSpace nLineSpace nBytesToRW (iLine # rest) pabyData pData b =
     (let nOffset =
            DirectOffset_line b
              (u64_add (u64 nYOff) (SrcIndex fw (int iLine) nYSize nBufYSize)) nXOff
      in case (if nPixelOffset b > GDALGetDataTypeSizeBytes (eDataType b)
               then AccessBlock vsi nOffset nBytesToRW pabyData b
               else Some (CE_None, pabyData, b)) of
           None \<Rightarrow> None
         | Some (eErr, pabyData1, b1) \<Rightarrow>
             (let pabyData2 =
                    SwapIfForeign b1
                      (WriteRowPixels fw b1 pData (int iLine) nXSize nBufXSize eBufType
                         nPixelSpace nLineSpace
                         (nXSize = nBufXSize \<and> nYSize = nBufYSize) pabyData1)
                      (nat nXSize) (nat (nPixelOffset b1))
              in case Seek vsi nOffset SEEK_SET b1 of
                   (rc, b2) \<Rightarrow>
                     if rc = - 1 then Some (CE_Failure, CPLError CE_Failure CPLE_FileIO b2)
                     else
                       (case Write vsi (load_bytes pabyData2 0 nBytesToRW) b2 of
                          (n, b3) \<Rightarrow>
                            if n < nBytesToRW
                            then Some (CE_Failure, CPLError CE_Failure CPLE_FileIO b3)
                            else
                              IRasterIO_write_rows vsi fw nXOff nYOff nXSize nYSize
                                nBufXSize nBufYSize eBufType nPixelSpace nLineSpace
                                nBytesToRW rest
                                (SwapIfForeign b3 pabyData2 (nat nXSize)
                                   (nat (nPixelOffset b3)))
                                pData b3)))"

text \<open>
  The direct path of \<open>IRasterIO\<close>, after the gate: reading and writing. The result is
  the status, the caller's buffer \<open>pData\<close> and the band.
\<close>

definition IRasterIO_read ::
  "'f VSIVirtualFile \<Rightarrow> ('f, 'c) Framework \<Rightarrow> int \<Rightarrow> int \<Rightarrow> int \<Rightarrow> int \<Rightarrow> GByte list \<Rightarrow>
   int \<Rightarrow> int \<Rightarrow> GDALDataType \<Rightarrow> int \<Rightarrow> int \<Rightarrow> GDALRasterIOExtraArg \<Rightarrow>
   ('f, 'c) RawRasterBand \<Rightarrow> (CPLErr \<times> GByte list \<times> ('f, 'c) RawRasterBand) option" where
  "IRasterIO_read vsi fw nXOff nYOff nXSize nYSize pData nBufXSize nBufYSize eBufType
      nPixelSpace nLineSpace psExtraArg b =
    (if IsContiguousRequest b nXSize nYSize nBufXSize nBufYSize eBufType nPixelSpace nLineSpace
     then
       (case AccessBlock vsi (DirectOffset_rows b nYOff)
               (nat (u64_mul (u64_mul (u64 nXSize) (u64 nYSize))
                       (u64 (GDALGetDataTypeSizeBytes (eDataType b)))))
               pData b of
          None \<Rightarrow> None
        | Some (eErr, pData1, b1) \<Rightarrow>
            if eErr \<noteq> CE_None
            then Some (CE_Failure, pData1, CPLError CE_Failure CPLE_FileIO b1)
            else Some (CE_None, pData1, b1))
     else
       (case VSI_MALLOC_VERBOSE fw (u64_mul (u64 (nPixelOffset b)) (u64 nXSize)) of
          None \<Rightarrow> Some (CE_Failure, pData, b)
        | Some pabyData \<Rightarrow>
            IRasterIO_read_rows vsi fw nXOff nYOff nXSize nYSize nBufXSize nBufYSize
              eBufType nPixelSpace nLineSpace psExtraArg
              (nat (u64_mul (u64 (nPixelOffset b)) (u64 nXSize)))
              [0..<nat nBufYSize] pabyData pData b))"

definition IRasterIO_write ::
  "'f VSIVirtualFile \<Rightarrow> ('f, 'c) Framework \<Rightarrow> int \<Rightarrow> int \<Rightarrow> int \<Rightarrow> int \<Rightarrow> GByte list \<Rightarrow>
   int \<Rightarrow> int \<Rightarrow> GDALDataType \<Rightarrow> int \<Rightarrow> int \<Rightarrow>
   ('f, 'c) RawRasterBand \<Rightarrow> (CPLErr \<times> GByte list \<times> ('f, 'c) RawRasterBand) option" where
  "IRasterIO_write vsi fw nXOff nYOff nXSize nYSize pData nBufXSize nBufYSize eBufType
      nPixelSpace nLineSpace b =
    (if IsContiguousRequest b nXSize nYSize nBufXSize nBufYSize eBufType nPixelSpace nLineSpace
     then
       (let pData1 = SwapIfForeign b pData (nat nXSize) (nat (nPixelOffset b))
        in case Seek vsi (DirectOffset_rows b nYOff) SEEK_SET b of
             (rc, b1) \<Rightarrow>
               if rc = - 1
               then Some (CE_Failure, pData1, CPLError CE_Failure CPLE_FileIO b1)
               else
                 (case Write vsi
                         (load_bytes pData1 0
                            (nat (u64_mul (u64_mul (u64 nXSize) (u64 nYSize))
                                    (u64 (GDALGetDataTypeSizeBytes (eDataType b1))))))
                         b1 of
                    (n, b2) \<Rightarrow>
                      if n < nat (u64_mul (u64_mul (u64 nXSize) (u64 nYSize))
                                    (u64 (GDALGetDataTypeSizeBytes (eDataType b2))))
                      then Some (CE_Failure, pData1, CPLError CE_Failure CPLE_FileIO b2)
                      else Some (CE_None,
                                 SwapIfForeign b2 pData1 (nat nXSize) (nat (nPixelOffset b2)),
                                 b2)))
     else
       (case VSI_MALLOC_VERBOSE fw (u64_mul (u64 (nPixelOffset b)) (u64 nXSize)) of
          None \<Rightarrow> Some (CE_Failure, pData, b)
        | Some pabyData \<Rightarrow>
            (case IRasterIO_write_rows vsi fw nXOff nYOff nXSize nYSize nBufXSize nBufYSize
                    eBufType nPixelSpace nLineSpace
                    (nat (u64_mul (u64 (nPixelOffset b)) (u64 nXSize)))
                    [0..<nat nBufYSize] pabyData pData b of
               None \<Rightarrow> None
             | Some (eErr, b1) \<Rightarrow> Some (eErr, pData, b1))))"

text \<open>
  \<open>RawRasterBand::IRasterIO\<close>. \<open>None\<close> is an arithmetic trap. When the gate is closed
  the request goes to the generic implementation of the framework. A failed overview
  read falls through to the direct read.
\<close>

definition IRasterIO ::
  "'f VSIVirtualFile \<Rightarrow> ('f, 'c) Framework \<Rightarrow> GDALRWFlag \<Rightarrow> int \<Rightarrow> int \<Rightarrow> int \<Rightarrow> int \<Rightarrow>
   GByte list \<Rightarrow> int \<Rightarrow> int \<Rightarrow> GDALDataType \<Rightarrow> int \<Rightarrow> int \<Rightarrow> GDALRasterIOExtraArg \<Rightarrow>
   ('f, 'c) RawRasterBand \<Rightarrow> (CPLErr \<times> GByte list \<times> ('f, 'c) RawRasterBand) option" where
  "IRasterIO vsi fw eRWFlag nXOff nYOff nXSize nYSize pData nBufXSize nBufYSize eBufType
      nPixelSpace nLineSpace psExtraArg b =
    (case CanUseDirectIO fw nYOff nXSize nYSize psExtraArg b of
       None \<Rightarrow> None
     | Some bDirect \<Rightarrow>
         if \<not> bDirect then Some (GDALRasterBand_IRasterIO fw pData b)
         else if eRWFlag = GF_Read then
           (if (nBufXSize < nXSize \<or> nBufYSize < nYSize) \<and> GetOverviewCount fw b > 0
            then
              (case OverviewRasterIO fw pData b of
                 (eErr, pData1, b1) \<Rightarrow>
                   if eErr = CE_None then Some (CE_None, pData1, b1)
                   else IRasterIO_read vsi fw nXOff nYOff nXSize nYSize pData1 nBufXSize
                          nBufYSize eBufType nPixelSpace nLineSpace psExtraArg b1)
            else IRasterIO_read vsi fw nXOff nYOff nXSize nYSize pData nBufXSize
                   nBufYSize eBufType nPixelSpace nLineSpace psExtraArg b)
         else IRasterIO_write vsi fw nXOff nYOff nXSize nYSize pData nBufXSize nBufYSize
                eBufType nPixelSpace nLineSpace b)"


section \<open>The sanity check before opening\<close>

text \<open>
  Modelled from the spec: the overflow-checked unsigned 64-bit arithmetic of
  \<open>cpl_safemaths.hpp\<close> (not among the sources). \<open>None\<close> is the exception thrown on
  overflow.
\<close>

definition CPLSM :: "int \<Rightarrow> int option" where
  "CPLSM x = Some x"

definition CPLSM_add :: "int option \<Rightarrow> int option \<Rightarrow> int option" where
  "CPLSM_add a b =
    (case a of None \<Rightarrow> None
     | Some x \<Rightarrow> (case b of None \<Rightarrow> None
                 | Some y \<Rightarrow> if x + y > UINT64_MAX then None else Some (x + y)))"

definition CPLSM_mul :: "int option \<Rightarrow> int option \<Rightarrow> int option" where
  "CPLSM_mul a b =
    (case a of None \<Rightarrow> None
     | Some x \<Rightarrow> (case b of None \<Rightarrow> None
                 | Some y \<Rightarrow> if x * y > UINT64_MAX then None else Some (x * y)))"

definition nExpectedFileSize ::
  "int \<Rightarrow> int \<Rightarrow> int \<Rightarrow> int \<Rightarrow> int \<Rightarrow> int \<Rightarrow> int \<Rightarrow> int option" where
  "nExpectedFileSize nXSize nYSize nBands nPixelOffset' nLineOffset' nHeaderSize nBandOffset =
    CPLSM_add
      (CPLSM_add
         (CPLSM_add (CPLSM (u64 nHeaderSize))
            (CPLSM_mul (CPLSM (u64 nBandOffset)) (CPLSM (u64 (nBands - 1)))))
         (if nLineOffset' \<ge> 0
          then CPLSM_mul (CPLSM (u64 (nYSize - 1))) (CPLSM (u64 nLineOffset'))
          else CPLSM (u64 0)))
      (if nPixelOffset' \<ge> 0
       then CPLSM_mul (CPLSM (u64 (nXSize - 1))) (CPLSM (u64 nPixelOffset'))
       else CPLSM (u64 0))"

text \<open>The condition under which the file size is checked.\<close>

definition CheckFileSize :: "('f, 'c) Framework \<Rightarrow> int \<Rightarrow> int \<Rightarrow> int \<Rightarrow> bool" where
  "CheckFileSize fw nXSize nBands nPixelOffset' =
    (let pszCheck = CPLGetConfigOption fw ''RAW_CHECK_FILE_SIZE'' in
     (nBands > 10 \<or>
      u64_mul (u64 nPixelOffset') (u64 nXSize) > 20000 \<or>
      (case pszCheck of None \<Rightarrow> False | Some v \<Rightarrow> CPLTestBool fw v)) \<and>
     \<not> (case pszCheck of None \<Rightarrow> False | Some v \<Rightarrow> \<not> CPLTestBool fw v))"

text \<open>
  The second check: the line buffer of one band against \<open>knMAX_BUFFER_MEM / nBands\<close>.
\<close>

definition TooMuchMemory :: "int \<Rightarrow> int \<Rightarrow> int \<Rightarrow> int \<Rightarrow> bool" where
  "TooMuchMemory nXSize nBands nDTSize nPixelOffset' =
    (nBands > 0 \<and>
     \<bar>nPixelOffset'\<bar> * (nXSize - 1) + nDTSize > c_quot (c_quot INT_MAX 4) nBands)"

text \<open>
  \<open>RAWDatasetCheckMemoryUsage\<close>: the verdict, the file as the function leaves it, and
  the errors it emits.
\<close>

definition RAWDatasetCheckMemoryUsage ::
  "'f VSIVirtualFile \<Rightarrow> ('f, 'c) Framework \<Rightarrow> int \<Rightarrow> int \<Rightarrow> int \<Rightarrow> int \<Rightarrow> int \<Rightarrow> int \<Rightarrow>
   int \<Rightarrow> int \<Rightarrow> 'f \<Rightarrow> bool \<times> 'f \<times> (CPLErr \<times> CPLErrorNum) list" where
  "RAWDatasetCheckMemoryUsage vsi fw nXSize nYSize nBands nDTSize nPixelOffset' nLineOffset'
      nHeaderSize nBandOffset fp =
    (if CheckFileSize fw nXSize nBands nPixelOffset' then
       (case nExpectedFileSize nXSize nYSize nBands nPixelOffset' nLineOffset' nHeaderSize
               nBandOffset of
          None \<Rightarrow> (False, fp, [(CE_Failure, CPLE_AppDefined)])
        | Some nExpected \<Rightarrow>
            if u64 (VSIFTellL vsi (snd (VSIFSeekL vsi fp 0 SEEK_END))) < nExpected div 2
            then (False, snd (VSIFSeekL vsi fp 0 SEEK_END), [(CE_Failure, CPLE_AppDefined)])
            else if TooMuchMemory nXSize nBands nDTSize nPixelOffset'
            then (False, snd (VSIFSeekL vsi fp 0 SEEK_END), [(CE_Failure, CPLE_OutOfMemory)])
            else (True, snd (VSIFSeekL vsi fp 0 SEEK_END), []))
     else if TooMuchMemory nXSize nBands nDTSize nPixelOffset'
     then (False, fp, [(CE_Failure, CPLE_OutOfMemory)])
     else (True, fp, []))"

text \<open>
  The words of section 4.10 of the specification, to be compared with the code: the
  expected size in the integers, and the condition under which the size check is said to
  run (\<open>nBands > 10\<close>, or \<open>pixel_stride * width > 20000\<close>, or a configuration option
  requests it).
\<close>

definition expected_size_spec ::
  "int \<Rightarrow> int \<Rightarrow> int \<Rightarrow> int \<Rightarrow> int \<Rightarrow> int \<Rightarrow> int \<Rightarrow> int" where
  "expected_size_spec nXSize nYSize nBandCount nPixelOffset' nLineOffset' nHeaderSize nBandOffset =
     nHeaderSize + nBandOffset * (nBandCount - 1)
     + (if nLineOffset' \<ge> 0 then nLineOffset' * (nYSize - 1) else 0)
     + (if nPixelOffset' \<ge> 0 then nPixelOffset' * (nXSize - 1) else 0)"

definition SizeCheckTriggered_spec :: "('f, 'c) Framework \<Rightarrow> int \<Rightarrow> int \<Rightarrow> int \<Rightarrow> bool" where
  "SizeCheckTriggered_spec fw nXSize nBandCount nPixelOffset' =
    (nBandCount > 10 \<or> nPixelOffset' * nXSize > 20000 \<or>
     (case CPLGetConfigOption fw ''RAW_CHECK_FILE_SIZE'' of
        None \<Rightarrow> False | Some v \<Rightarrow> CPLTestBool fw v))"

section \<open>Layout inference\<close>

datatype Interleaving = UNKNOWN | BIP | BIL | BSQ

record RawBinaryLayout =
  eInterleaving :: Interleaving
  sLayout_eDataType :: GDALDataType
  bLittleEndianOrder :: bool
  nImageOffset :: int
  sLayout_nPixelOffset :: int
  sLayout_nLineOffset :: int
  sLayout_nBandOffset :: int

text \<open>
  A band of a dataset is a raw band or a band of another class, for which the
  \<open>dynamic_cast\<close> of the source gives null. The dataset adds its bands to what the
  bands see of it; \<open>nBands\<close> is their number.
\<close>

datatype ('f, 'c) GDALRasterBand = RawBand "('f, 'c) RawRasterBand" | OtherBand

record ('f, 'c) RawDataset = GDALDataset +
  papoBands :: "('f, 'c) GDALRasterBand list"

definition nBands :: "('f, 'c) RawDataset \<Rightarrow> int" where
  "nBands ds = int (length (papoBands ds))"

text \<open>The local variables of \<open>GetRawBinaryLayout\<close> that its loop over the bands sets.\<close>

record LayoutScan =
  scanImgOffset :: int
  scanBandOffset :: int
  scanPixelOffset :: int
  scanLineOffset :: int
  scanNativeOrder :: int
  scanDT :: GDALDataType

fun GetRawBinaryLayout_bands ::
  "int \<Rightarrow> ('f, 'c) GDALRasterBand list \<Rightarrow> LayoutScan \<Rightarrow> LayoutScan option" where
  "GetRawBinaryLayout_bands i [] sc = Some sc"
| "GetRawBinaryLayout_bands i (OtherBand # rest) sc = None"
| "GetRawBinaryLayout_bands i (RawBand poBand # rest) sc =
     (if i = 1 then
        GetRawBinaryLayout_bands (i + 1) rest
          (sc\<lparr>scanImgOffset := nImgOffset poBand, scanPixelOffset := nPixelOffset poBand,
              scanLineOffset := nLineOffset poBand, scanNativeOrder := bNativeOrder poBand,
              scanDT := eDataType poBand\<rparr>)
      else if scanPixelOffset sc \<noteq> nPixelOffset poBand \<or>
              scanLineOffset sc \<noteq> nLineOffset poBand \<or>
              scanNativeOrder sc \<noteq> bNativeOrder poBand \<or>
              scanDT sc \<noteq> eDataType poBand
      then None
      else if i = 2 then
        GetRawBinaryLayout_bands (i + 1) rest
          (sc\<lparr>scanBandOffset := s64 (nImgOffset poBand) - s64 (scanImgOffset sc)\<rparr>)
      else if scanBandOffset sc * (i - 1) \<noteq>
              s64 (nImgOffset poBand) - s64 (scanImgOffset sc)
      then None
      else GetRawBinaryLayout_bands (i + 1) rest sc)"

text \<open>The comparison of a band with the values that the loop took from band 1.\<close>

definition scan_agrees :: "LayoutScan \<Rightarrow> ('f, 'c) RawRasterBand \<Rightarrow> bool" where
  "scan_agrees sc b =
    (nPixelOffset b = scanPixelOffset sc \<and> nLineOffset b = scanLineOffset sc \<and>
     bNativeOrder b = scanNativeOrder sc \<and> eDataType b = scanDT sc)"

definition ClassifyInterleaving ::
  "int \<Rightarrow> int \<Rightarrow> int \<Rightarrow> int \<Rightarrow> int \<Rightarrow> int \<Rightarrow> int \<Rightarrow> Interleaving" where
  "ClassifyInterleaving nBandCount nDTSize nXSize nYSize nPixelOffset' nLineOffset' nBandOffset =
    (if nBandCount > 1 then
       (if nPixelOffset' = nBandCount * nDTSize \<and>
           nLineOffset' = nPixelOffset' * nXSize \<and>
           nBandOffset = nDTSize
        then BIP
        else if nPixelOffset' = nDTSize \<and>
                nLineOffset' = nDTSize * nBandCount * nXSize \<and>
                nBandOffset = nDTSize * nXSize
        then BIL
        else if nPixelOffset' = nDTSize \<and>
                nLineOffset' = nDTSize * nXSize \<and>
                nBandOffset = nLineOffset' * nYSize
        then BSQ
        else UNKNOWN)
     else UNKNOWN)"

text \<open>
  \<open>RawDataset::GetRawBinaryLayout\<close>; \<open>None\<close> is the return value \<open>false\<close>.
  \<open>CPL_LSB\<close> says whether the host is little-endian.
\<close>

definition GetRawBinaryLayout ::
  "bool \<Rightarrow> ('f, 'c) RawDataset \<Rightarrow> RawBinaryLayout option" where
  "GetRawBinaryLayout CPL_LSB ds =
    (case GetRawBinaryLayout_bands 1 (papoBands ds)
            \<lparr> scanImgOffset = 0, scanBandOffset = 0, scanPixelOffset = 0,
              scanLineOffset = 0, scanNativeOrder = 0, scanDT = GDT_Unknown \<rparr> of
       None \<Rightarrow> None
     | Some sc \<Rightarrow>
         Some \<lparr> eInterleaving =
                  ClassifyInterleaving (nBands ds) (GDALGetDataTypeSizeBytes (scanDT sc))
                    (dsRasterXSize ds) (dsRasterYSize ds) (scanPixelOffset sc)
                    (scanLineOffset sc) (scanBandOffset sc),
                sLayout_eDataType = scanDT sc,
                bLittleEndianOrder =
                  (if CPL_LSB then scanNativeOrder sc \<noteq> 0 else \<not> scanNativeOrder sc \<noteq> 0),
                nImageOffset = scanImgOffset sc,
                sLayout_nPixelOffset = scanPixelOffset sc,
                sLayout_nLineOffset = scanLineOffset sc,
                sLayout_nBandOffset = scanBandOffset sc \<rparr>)"

text \<open>
  The words of section 4.9 of the specification, to be compared with the code. The bands
  are numbered from 1; \<open>I\<close> is the image offset of band 1 and the band stride is the
  offset of band 2 minus \<open>I\<close>. A layout is regular when every band agrees with band 1 on
  pixel stride, line stride, byte order and data type, and band \<open>i\<close> starts at
  \<open>I + band_stride * (i - 1)\<close>.
\<close>

definition same_shape_spec :: "('f, 'c) RawRasterBand \<Rightarrow> ('f, 'c) RawRasterBand \<Rightarrow> bool" where
  "same_shape_spec a b =
    (nPixelOffset b = nPixelOffset a \<and> nLineOffset b = nLineOffset a \<and>
     bNativeOrder b = bNativeOrder a \<and> eDataType b = eDataType a)"

definition band_stride_spec :: "('f, 'c) RawRasterBand list \<Rightarrow> int" where
  "band_stride_spec bs = nImgOffset (bs ! 1) - nImgOffset (bs ! 0)"

definition regular_layout_spec :: "('f, 'c) RawRasterBand list \<Rightarrow> bool" where
  "regular_layout_spec bs =
    list_all (\<lambda>(i, b). same_shape_spec (bs ! 0) b \<and>
                        nImgOffset b = nImgOffset (bs ! 0) + band_stride_spec bs * (int i - 1))
      (enumerate 1 bs)"

definition BIP_spec :: "int \<Rightarrow> int \<Rightarrow> int \<Rightarrow> int \<Rightarrow> int \<Rightarrow> int \<Rightarrow> bool" where
  "BIP_spec nBandCount dt_size width pixel_stride line_stride band_stride =
    (pixel_stride = nBandCount * dt_size \<and> line_stride = pixel_stride * width \<and>
     band_stride = dt_size)"

definition BIL_spec :: "int \<Rightarrow> int \<Rightarrow> int \<Rightarrow> int \<Rightarrow> int \<Rightarrow> int \<Rightarrow> bool" where
  "BIL_spec nBandCount dt_size width pixel_stride line_stride band_stride =
    (pixel_stride = dt_size \<and> line_stride = dt_size * nBandCount * width \<and>
     band_stride = dt_size * width)"

definition BSQ_spec :: "int \<Rightarrow> int \<Rightarrow> int \<Rightarrow> int \<Rightarrow> int \<Rightarrow> int \<Rightarrow> bool" where
  "BSQ_spec dt_size width height pixel_stride line_stride band_stride =
    (pixel_stride = dt_size \<and> line_stride = dt_size * width \<and>
     band_stride = line_stride * height)"

section \<open>An in-memory file\<close>

text \<open>
  One behaviour of the virtual file, for the examples: a byte array with a position.
  Seeking always succeeds, a read stops at the end of the data, a write extends the data
  (a hole is filled with zeros), a flush succeeds.
\<close>

record MemFile =
  mfData :: "GByte list"
  mfPos :: nat

definition mem_vsi :: "MemFile VSIVirtualFile" where
  "mem_vsi =
    \<lparr> VSIFSeekL = (\<lambda>f nOffset nWhence.
         (0, f\<lparr>mfPos := (case nWhence of
                          SEEK_SET \<Rightarrow> nat nOffset
                        | SEEK_CUR \<Rightarrow> nat (int (mfPos f) + nOffset)
                        | SEEK_END \<Rightarrow> nat (int (length (mfData f)) + nOffset))\<rparr>)),
      VSIFTellL = (\<lambda>f. int (mfPos f)),
      VSIFReadL = (\<lambda>f n. (take n (drop (mfPos f) (mfData f)),
                           f\<lparr>mfPos := mfPos f + length (take n (drop (mfPos f) (mfData f)))\<rparr>)),
      VSIFWriteL = (\<lambda>f bytes.
         (length bytes,
          f\<lparr>mfData := take (mfPos f) (mfData f @ replicate (mfPos f - length (mfData f)) 0)
                        @ bytes @ drop (mfPos f + length bytes) (mfData f),
            mfPos := mfPos f + length bytes\<rparr>)),
      VSIFFlushL = (\<lambda>f. (0, f)) \<rparr>"

definition zero_malloc :: "int \<Rightarrow> GByte list option" where
  "zero_malloc n = Some (replicate (nat n) 0)"

section \<open>Example bands\<close>

text \<open>
  A floating band of 10 by 10 bytes stored right to left and bottom up: pixel \<open>(0, 0)\<close>
  is byte 99 of the file, pixel \<open>(9, 9)\<close> is byte 0.
\<close>

definition ex_reversed_init :: "(MemFile, unit) RawRasterBand" where
  "ex_reversed_init =
     RawRasterBand_floating_init () \<lparr>mfData = [], mfPos = 0\<rparr> 99 (- 1) (- 10) GDT_Byte 1 10 10
       False"

text \<open>
  A band of 4 by 2 bytes on a file that holds only 6 of its 8 bytes, under a dataset
  that is read-only, read-only with \<open>ENVI\<close> metadata, or open for update.
\<close>

definition ex_ds_ro :: GDALDataset where
  "ex_ds_ro = \<lparr> dsRasterXSize = 4, dsRasterYSize = 2, dsAccess = GA_ReadOnly,
                dsMetadata = (\<lambda>domain. None) \<rparr>"

definition ex_ds_envi :: GDALDataset where
  "ex_ds_envi = \<lparr> dsRasterXSize = 4, dsRasterYSize = 2, dsAccess = GA_ReadOnly,
                  dsMetadata = (\<lambda>domain. if domain = ''ENVI'' then Some [''bands=1''] else None) \<rparr>"

definition ex_ds_rw :: GDALDataset where
  "ex_ds_rw = \<lparr> dsRasterXSize = 4, dsRasterYSize = 2, dsAccess = GA_Update,
                dsMetadata = (\<lambda>domain. None) \<rparr>"

definition ex_truncated :: "GDALDataset \<Rightarrow> (MemFile, unit) RawRasterBand" where
  "ex_truncated ds =
     RawRasterBand_ctor zero_malloc () ds 1 \<lparr>mfData = [1, 2, 3, 4, 5, 6], mfPos = 0\<rparr>
       0 1 4 GDT_Byte 1 False"

text \<open>The same band without a dataset (the floating constructor).\<close>

definition ex_floating :: "(MemFile, unit) RawRasterBand" where
  "ex_floating =
     RawRasterBand_floating zero_malloc () \<lparr>mfData = [1, 2, 3, 4, 5, 6], mfPos = 0\<rparr>
       0 1 4 GDT_Byte 1 4 2 False"

text \<open>A file on which every seek fails, and one that accepts no byte.\<close>

definition noseek_vsi :: "MemFile VSIVirtualFile" where
  "noseek_vsi = mem_vsi\<lparr>VSIFSeekL := (\<lambda>f nOffset nWhence. (- 1, f))\<rparr>"

definition full_vsi :: "MemFile VSIVirtualFile" where
  "full_vsi = mem_vsi\<lparr>VSIFWriteL := (\<lambda>f bytes. (0, f))\<rparr>"

text \<open>The floating band with one dirty block, line 1, in its block cache.\<close>

definition ex_cached :: "(MemFile, (int \<times> GByte list) list) RawRasterBand" where
  "ex_cached =
     RawRasterBand_floating zero_malloc [(1, [9, 8, 7, 6])]
       \<lparr>mfData = [1, 2, 3, 4, 5, 6], mfPos = 0\<rparr> 0 1 4 GDT_Byte 1 4 2 False"

text \<open>
  A band whose construction fails: with a line stride of -4 and two lines the first
  stride check needs \<open>nImgOffset \<ge> 4\<close>. Its line buffer is null.
\<close>

definition ex_failed :: "(MemFile, unit) RawRasterBand" where
  "ex_failed =
     RawRasterBand_floating zero_malloc () \<lparr>mfData = [1, 2, 3, 4, 5, 6], mfPos = 0\<rparr>
       0 1 (- 4) GDT_Byte 1 4 2 False"

text \<open>
  A framework without overviews and with an empty block cache, whose generic
  \<open>IRasterIO\<close> fails, under a given setting of the configuration options; and the request
  for nearest-neighbour resampling without a progress callback.
\<close>

definition ex_framework :: "(string \<Rightarrow> string option) \<Rightarrow> (MemFile, unit) Framework" where
  "ex_framework options =
     \<lparr> CPLGetConfigOption = options,
       CPLTestBool = (\<lambda>v. v \<noteq> ''NO'' \<and> v \<noteq> ''FALSE'' \<and> v \<noteq> ''OFF'' \<and> v \<noteq> ''0''),
       TryGetLockedBlockRef = (\<lambda>cache nXBlockOff nYBlockOff. False),
       GetOverviewCount = (\<lambda>b. 0),
       OverviewRasterIO = (\<lambda>pData b. (CE_Failure, pData, b)),
       GDALRasterBand_IRasterIO = (\<lambda>pData b. (CE_Failure, pData, b)),
       VSI_MALLOC_VERBOSE = zero_malloc,
       ConvertWord = (\<lambda>eSrcType eDstType w. w),
       SrcIndex = floor_index \<rparr>"

definition ex_big_read :: "string \<Rightarrow> string option" where
  "ex_big_read name = (if name = ''GDAL_ONE_BIG_READ'' then Some ''YES'' else None)"

definition ex_nearest :: GDALRasterIOExtraArg where
  "ex_nearest = \<lparr> eResampleAlg = GRIORA_NearestNeighbour, pfnProgress = None \<rparr>"

text \<open>
  A floating band of 10 pixels of one byte, 6000 bytes apart: its line has 54001 bytes.
\<close>

definition ex_sparse :: "(MemFile, unit) RawRasterBand" where
  "ex_sparse =
     RawRasterBand_floating zero_malloc () \<lparr>mfData = [], mfPos = 0\<rparr>
       0 6000 60000 GDT_Byte 1 10 1 False"

definition ex_no_options :: "string \<Rightarrow> string option" where
  "ex_no_options name = None"

text \<open>The configuration that switches the file size check off, and one that forces it.\<close>

definition ex_no_size_check :: "string \<Rightarrow> string option" where
  "ex_no_size_check name = (if name = ''RAW_CHECK_FILE_SIZE'' then Some ''NO'' else None)"

definition ex_size_check :: "string \<Rightarrow> string option" where
  "ex_size_check name = (if name = ''RAW_CHECK_FILE_SIZE'' then Some ''YES'' else None)"

definition ex_six_bytes :: MemFile where
  "ex_six_bytes = \<lparr>mfData = [1, 2, 3, 4, 5, 6], mfPos = 0\<rparr>"

text \<open>
  A dataset of 5 by 4 pixels of two bytes in three bands, interleaved by line: the bands
  start at 0, 10 and 20, a pixel takes 2 bytes and a line 30.
\<close>

definition ex_ds_bil :: GDALDataset where
  "ex_ds_bil = \<lparr> dsRasterXSize = 5, dsRasterYSize = 4, dsAccess = GA_ReadOnly,
                 dsMetadata = (\<lambda>domain. None) \<rparr>"

definition ex_bil_band :: "int \<Rightarrow> int \<Rightarrow> (MemFile, unit) RawRasterBand" where
  "ex_bil_band nBandIn nImgOffsetIn =
     RawRasterBand_ctor zero_malloc () ex_ds_bil nBandIn \<lparr>mfData = [], mfPos = 0\<rparr>
       nImgOffsetIn 2 30 GDT_UInt16 1 False"

definition ex_bil :: "(MemFile, unit) RawDataset" where
  "ex_bil = \<lparr> dsRasterXSize = 5, dsRasterYSize = 4, dsAccess = GA_ReadOnly,
              dsMetadata = (\<lambda>domain. None),
              papoBands = [RawBand (ex_bil_band 1 0), RawBand (ex_bil_band 2 10),
                           RawBand (ex_bil_band 3 20)] \<rparr>"

section \<open>Properties of the construction and the addressing\<close>

lemma u64_small: "0 \<le> x \<Longrightarrow> x < 18446744073709551616 \<Longrightarrow> u64 x = x"
  by (simp add: u64_def)

lemma mul31_bound:
  fixes a k :: int
  assumes "0 \<le> a" "a \<le> 2147483648" "0 \<le> k" "k \<le> 2147483648"
  shows "0 \<le> a * k \<and> a * k \<le> 4611686018427387904"
proof -
  have "a * k \<le> 2147483648 * 2147483648"
    using assms by (intro mult_mono) auto
  moreover have "0 \<le> a * k" using assms by simp
  ultimately show ?thesis by simp
qed

lemma u64_mul_small:
  assumes "0 \<le> a" "a \<le> 2147483648" "0 \<le> k" "k \<le> 2147483648"
  shows "u64_mul (u64 a) (u64 k) = a * k"
proof -
  have ua: "u64 a = a" using assms by (simp add: u64_small)
  have uk: "u64 k = k" using assms by (simp add: u64_small)
  have "0 \<le> a * k \<and> a * k \<le> 4611686018427387904" using assms by (rule mul31_bound)
  then show ?thesis unfolding u64_mul_def ua uk by (simp add: u64_small)
qed

lemma u64_mul_neg:
  assumes "1 \<le> a" "a \<le> 2147483648" "- 2147483649 \<le> k" "k < 0"
  shows "u64_mul (u64 a) (u64 k) = 18446744073709551616 + a * k"
proof -
  define m where "m = - k"
  have m: "1 \<le> m" "m \<le> 2147483649" "k = - m" using assms by (simp_all add: m_def)
  have up: "a * m \<le> 2147483648 * 2147483649"
    using assms m by (intro mult_mono) auto
  have lo: "1 * 1 \<le> a * m"
    using assms m by (intro mult_mono) auto
  have "u64_mul (u64 a) (u64 k) = (a * k) mod 18446744073709551616"
    by (simp only: u64_mul_def u64_def mod_mult_eq)
  also have "\<dots> = (a * k + 18446744073709551616) mod 18446744073709551616"
    by (simp only: mod_add_self2)
  also have "\<dots> = a * k + 18446744073709551616"
    using up lo by (intro mod_pos_pos_trivial) (simp_all add: m(3))
  finally show ?thesis by simp
qed


lemma Initialize_buffer_fields:
  "nImgOffset (Initialize_buffer m b) = nImgOffset b"
  "nPixelOffset (Initialize_buffer m b) = nPixelOffset b"
  "nLineOffset (Initialize_buffer m b) = nLineOffset b"
  "nBlockXSize (Initialize_buffer m b) = nBlockXSize b"
  "nRasterXSize (Initialize_buffer m b) = nRasterXSize b"
  "nRasterYSize (Initialize_buffer m b) = nRasterYSize b"
  by (simp_all add: Initialize_buffer_def Let_def CPLError_def)

lemma Initialize_fail_fields:
  "nImgOffset (Initialize_fail b) = nImgOffset b"
  "nPixelOffset (Initialize_fail b) = nPixelOffset b"
  "nLineOffset (Initialize_fail b) = nLineOffset b"
  "nBlockXSize (Initialize_fail b) = nBlockXSize b"
  "nRasterXSize (Initialize_fail b) = nRasterXSize b"
  "nRasterYSize (Initialize_fail b) = nRasterYSize b"
  "pLineBuffer (Initialize_fail b) = None"
  by (simp_all add: Initialize_fail_def CPLError_def)

lemma Initialize_fields:
  "nImgOffset (Initialize m b) = nImgOffset b"
  "nPixelOffset (Initialize m b) = nPixelOffset b"
  "nLineOffset (Initialize m b) = nLineOffset b"
  "nBlockXSize (Initialize m b) = nBlockXSize b"
  "nRasterXSize (Initialize m b) = nRasterXSize b"
  "nRasterYSize (Initialize m b) = nRasterYSize b"
  by (simp_all add: Initialize_def Let_def Initialize_buffer_fields Initialize_fail_fields
      split: option.splits prod.splits)

lemma Initialize_success:
  assumes "pLineBuffer (Initialize m b) \<noteq> None"
  obtains lo hi hi' where
    "Initialize_line (b\<lparr>bDirty := False\<rparr>) = Some (lo, hi)"
    "Initialize_pixel (b\<lparr>bDirty := False\<rparr>) lo hi = Some hi'"
    "hi' \<le> GINTBIG_MAX"
    "pLineBuffer (Initialize_buffer m (b\<lparr>bDirty := False\<rparr>)) \<noteq> None"
  using assms
  by (auto simp: Initialize_def Let_def Initialize_fail_fields
      split: option.splits prod.splits if_splits)

lemma Initialize_buffer_success:
  assumes "pLineBuffer (Initialize_buffer m b) \<noteq> None"
  shows "0 < nBlockXSize b"
  using assms
  by (auto simp: Initialize_buffer_def Let_def CPLError_def split: if_splits)


lemma mult_le_extent:
  fixes a y n :: int
  assumes "0 \<le> a" "0 \<le> y" "y < n"
  shows "0 \<le> a * y \<and> a * y \<le> a * (n - 1)"
proof
  show "0 \<le> a * y" using assms by simp
  show "a * y \<le> a * (n - 1)" using assms by (intro mult_left_mono) auto
qed

lemma Initialize_line_pos:
  assumes ok: "Initialize_line b = Some (lo, hi)"
    and r: "is_u64 (nImgOffset b)" "is_int32 (nLineOffset b)" "is_int32 (nRasterYSize b)"
    and h: "1 \<le> nRasterYSize b"
  shows "(nLineOffset b < 0 \<longrightarrow>
            \<bar>nLineOffset b\<bar> * (nRasterYSize b - 1) \<le> nImgOffset b \<and>
            lo = nImgOffset b - \<bar>nLineOffset b\<bar> * (nRasterYSize b - 1) \<and> hi = nImgOffset b) \<and>
         (0 \<le> nLineOffset b \<longrightarrow>
            lo = nImgOffset b \<and> hi = nImgOffset b + \<bar>nLineOffset b\<bar> * (nRasterYSize b - 1) \<and>
            hi \<le> UINT64_MAX)"
proof (cases "nLineOffset b < 0")
  case True
  define a where "a = - nLineOffset b"
  define k where "k = nRasterYSize b - 1"
  have ak: "0 \<le> a" "a \<le> 2147483648" "0 \<le> k" "k \<le> 2147483648"
    using True r h by (simp_all add: a_def k_def is_int32_def)
  have p: "u64_mul (u64 a) (u64 k) = a * k" using ak by (rule u64_mul_small)
  have pb: "0 \<le> a * k" using ak by simp
  from ok True have le: "a * k \<le> nImgOffset b" and lo: "lo = u64_sub (nImgOffset b) (a * k)"
    and hi: "hi = nImgOffset b"
    by (auto simp: Initialize_line_def p a_def[symmetric] k_def[symmetric] split: if_splits)
  have "u64_sub (nImgOffset b) (a * k) = nImgOffset b - a * k"
    using le pb r(1) by (simp add: u64_sub_def u64_small is_u64_def)
  with le lo hi True show ?thesis by (simp add: a_def k_def)
next
  case False
  define a where "a = nLineOffset b"
  define k where "k = nRasterYSize b - 1"
  have ak: "0 \<le> a" "a \<le> 2147483648" "0 \<le> k" "k \<le> 2147483648"
    using False r h by (simp_all add: a_def k_def is_int32_def)
  have p: "u64_mul (u64 a) (u64 k) = a * k" using ak by (rule u64_mul_small)
  have pb: "0 \<le> a * k \<and> a * k \<le> 4611686018427387904" using ak by (rule mul31_bound)
  have sub: "u64_sub UINT64_MAX (a * k) = UINT64_MAX - a * k"
    using pb by (simp add: u64_sub_def u64_small UINT64_MAX_def)
  from ok False have le: "nImgOffset b \<le> UINT64_MAX - a * k" and lo: "lo = nImgOffset b"
    and hi: "hi = u64_add (nImgOffset b) (a * k)"
    by (auto simp: Initialize_line_def p sub a_def[symmetric] k_def[symmetric] split: if_splits)
  have "u64_add (nImgOffset b) (a * k) = nImgOffset b + a * k"
    using le pb r(1) by (simp add: u64_add_def u64_small is_u64_def UINT64_MAX_def)
  with le lo hi False show ?thesis by (simp add: a_def k_def)
qed

lemma Initialize_pixel_pos:
  assumes ok: "Initialize_pixel b lo hi = Some hi'"
    and r: "0 \<le> lo" "0 \<le> hi" "hi \<le> UINT64_MAX" "is_int32 (nPixelOffset b)" "is_int32 (nRasterXSize b)"
    and w: "1 \<le> nRasterXSize b"
  shows "(nPixelOffset b < 0 \<longrightarrow>
            \<bar>nPixelOffset b\<bar> * (nRasterXSize b - 1) \<le> lo \<and> hi' = hi) \<and>
         (0 \<le> nPixelOffset b \<longrightarrow>
            hi' = hi + \<bar>nPixelOffset b\<bar> * (nRasterXSize b - 1))"
proof (cases "nPixelOffset b < 0")
  case True
  define a where "a = - nPixelOffset b"
  define k where "k = nRasterXSize b - 1"
  have ak: "0 \<le> a" "a \<le> 2147483648" "0 \<le> k" "k \<le> 2147483648"
    using True r w by (simp_all add: a_def k_def is_int32_def)
  have p: "u64_mul (u64 a) (u64 k) = a * k" using ak by (rule u64_mul_small)
  from ok True have "a * k \<le> lo" "hi' = hi"
    by (auto simp: Initialize_pixel_def p a_def[symmetric] k_def[symmetric] split: if_splits)
  with True show ?thesis by (simp add: a_def k_def)
next
  case False
  define a where "a = nPixelOffset b"
  define k where "k = nRasterXSize b - 1"
  have ak: "0 \<le> a" "a \<le> 2147483648" "0 \<le> k" "k \<le> 2147483648"
    using False r w by (simp_all add: a_def k_def is_int32_def)
  have p: "u64_mul (u64 a) (u64 k) = a * k" using ak by (rule u64_mul_small)
  have pb: "0 \<le> a * k \<and> a * k \<le> 4611686018427387904" using ak by (rule mul31_bound)
  have sub: "u64_sub UINT64_MAX (a * k) = UINT64_MAX - a * k"
    using pb by (simp add: u64_sub_def u64_small UINT64_MAX_def)
  from ok False have le: "hi \<le> UINT64_MAX - a * k" and hi: "hi' = u64_add hi (a * k)"
    by (auto simp: Initialize_pixel_def p sub a_def[symmetric] k_def[symmetric] split: if_splits)
  have "u64_add hi (a * k) = hi + a * k"
    using le pb r by (simp add: u64_add_def u64_small UINT64_MAX_def)
  with hi False show ?thesis by (simp add: a_def k_def)
qed

lemma Initialize_line_nonpos_height:
  assumes ok: "Initialize_line b = Some (lo, hi)"
    and r: "is_int32 (nLineOffset b)" "is_int32 (nRasterYSize b)"
    and h: "nRasterYSize b \<le> 0" and l: "nLineOffset b < 0"
  shows "hi = nImgOffset b \<and> GINTBIG_MAX < nImgOffset b"
proof -
  define a where "a = - nLineOffset b"
  define k where "k = nRasterYSize b - 1"
  define m where "m = - k"
  have ak: "1 \<le> a" "a \<le> 2147483648" "- 2147483649 \<le> k" "k < 0"
    using l r h by (simp_all add: a_def k_def is_int32_def)
  have p: "u64_mul (u64 a) (u64 k) = 18446744073709551616 + a * k"
    using ak by (rule u64_mul_neg)
  have m: "0 \<le> m" "m \<le> 2147483649" "k = - m" using ak by (simp_all add: m_def)
  have "a * m \<le> 2147483648 * 2147483649"
    using ak m by (intro mult_mono) auto
  then have lb: "- 4611686020574871552 \<le> a * k" by (simp add: m(3))
  from ok l have "18446744073709551616 + a * k \<le> nImgOffset b" "hi = nImgOffset b"
    by (auto simp: Initialize_line_def p a_def[symmetric] k_def[symmetric] split: if_splits)
  with lb show ?thesis by (simp add: GINTBIG_MAX_def)
qed


lemma pixel_offset_bounds:
  fixes b :: "('f, 'c) RawRasterBand"
  assumes ok: "pLineBuffer (Initialize VSIMalloc b) \<noteq> None"
    and r: "is_u64 (nImgOffset b)" "is_int32 (nPixelOffset b)" "is_int32 (nLineOffset b)"
           "is_int32 (nRasterXSize b)" "is_int32 (nRasterYSize b)"
    and bx: "nBlockXSize b = nRasterXSize b"
    and h: "1 \<le> nRasterYSize b"
  shows "1 \<le> nRasterXSize b"
    and "nLineOffset b < 0 \<Longrightarrow> nPixelOffset b < 0 \<Longrightarrow>
           \<bar>nLineOffset b\<bar> * (nRasterYSize b - 1) + \<bar>nPixelOffset b\<bar> * (nRasterXSize b - 1)
             \<le> nImgOffset b"
    and "nImgOffset b
          - (if nLineOffset b < 0 then \<bar>nLineOffset b\<bar> * (nRasterYSize b - 1) else 0)
          - (if nPixelOffset b < 0 then \<bar>nPixelOffset b\<bar> * (nRasterXSize b - 1) else 0) \<ge> 0"
    and "nImgOffset b
          + (if nLineOffset b < 0 then 0 else \<bar>nLineOffset b\<bar> * (nRasterYSize b - 1))
          + (if nPixelOffset b < 0 then 0 else \<bar>nPixelOffset b\<bar> * (nRasterXSize b - 1))
            \<le> GINTBIG_MAX"
proof -
  let ?b = "b\<lparr>bDirty := False\<rparr>"
  from ok obtain lo hi hi' where
    s1: "Initialize_line ?b = Some (lo, hi)" and
    s2: "Initialize_pixel ?b lo hi = Some hi'" and
    s3: "hi' \<le> GINTBIG_MAX" and
    s4: "pLineBuffer (Initialize_buffer VSIMalloc ?b) \<noteq> None"
    by (rule Initialize_success)
  have f: "nImgOffset ?b = nImgOffset b" "nLineOffset ?b = nLineOffset b"
    "nPixelOffset ?b = nPixelOffset b" "nRasterXSize ?b = nRasterXSize b"
    "nRasterYSize ?b = nRasterYSize b" "nBlockXSize ?b = nBlockXSize b"
    by simp_all
  from s4 have "0 < nBlockXSize ?b" by (rule Initialize_buffer_success)
  then show w: "1 \<le> nRasterXSize b" using bx by simp
  have L: "(nLineOffset b < 0 \<longrightarrow>
            \<bar>nLineOffset b\<bar> * (nRasterYSize b - 1) \<le> nImgOffset b \<and>
            lo = nImgOffset b - \<bar>nLineOffset b\<bar> * (nRasterYSize b - 1) \<and> hi = nImgOffset b) \<and>
         (0 \<le> nLineOffset b \<longrightarrow>
            lo = nImgOffset b \<and> hi = nImgOffset b + \<bar>nLineOffset b\<bar> * (nRasterYSize b - 1) \<and>
            hi \<le> UINT64_MAX)"
    using Initialize_line_pos[OF s1] r h unfolding f by blast
  have e: "0 \<le> \<bar>nLineOffset b\<bar> * (nRasterYSize b - 1)" using h by simp
  have lohi: "0 \<le> lo" "0 \<le> hi" "hi \<le> UINT64_MAX"
    using L e r(1) by (auto simp: is_u64_def UINT64_MAX_def)
  have P: "(nPixelOffset b < 0 \<longrightarrow>
            \<bar>nPixelOffset b\<bar> * (nRasterXSize b - 1) \<le> lo \<and> hi' = hi) \<and>
         (0 \<le> nPixelOffset b \<longrightarrow>
            hi' = hi + \<bar>nPixelOffset b\<bar> * (nRasterXSize b - 1))"
    using Initialize_pixel_pos[OF s2 lohi] r w unfolding f by blast
  have e2: "0 \<le> \<bar>nPixelOffset b\<bar> * (nRasterXSize b - 1)" using w by simp
  show "nLineOffset b < 0 \<Longrightarrow> nPixelOffset b < 0 \<Longrightarrow>
           \<bar>nLineOffset b\<bar> * (nRasterYSize b - 1) + \<bar>nPixelOffset b\<bar> * (nRasterXSize b - 1)
             \<le> nImgOffset b"
    using L P by linarith
  show "nImgOffset b
          - (if nLineOffset b < 0 then \<bar>nLineOffset b\<bar> * (nRasterYSize b - 1) else 0)
          - (if nPixelOffset b < 0 then \<bar>nPixelOffset b\<bar> * (nRasterXSize b - 1) else 0) \<ge> 0"
    using L P lohi r(1) by (auto simp: is_u64_def)
  show "nImgOffset b
          + (if nLineOffset b < 0 then 0 else \<bar>nLineOffset b\<bar> * (nRasterYSize b - 1))
          + (if nPixelOffset b < 0 then 0 else \<bar>nPixelOffset b\<bar> * (nRasterXSize b - 1))
            \<le> GINTBIG_MAX"
    using L P s3 e e2 by (cases "nLineOffset b < 0"; cases "nPixelOffset b < 0") simp_all
qed


lemma Initialize_pixel_neg_hi:
  "Initialize_pixel b lo hi = Some hi' \<Longrightarrow> nPixelOffset b < 0 \<Longrightarrow> hi' = hi"
  by (auto simp: Initialize_pixel_def split: if_splits)

lemma Initialize_neg_strides_height:
  fixes b :: "('f, 'c) RawRasterBand"
  assumes ok: "pLineBuffer (Initialize VSIMalloc b) \<noteq> None"
    and r: "is_int32 (nLineOffset b)" "is_int32 (nRasterYSize b)"
    and n: "nLineOffset b < 0" "nPixelOffset b < 0"
  shows "1 \<le> nRasterYSize b"
proof (rule ccontr)
  assume "\<not> 1 \<le> nRasterYSize b"
  then have h: "nRasterYSize b \<le> 0" by simp
  let ?b = "b\<lparr>bDirty := False\<rparr>"
  from ok obtain lo hi hi' where
    s1: "Initialize_line ?b = Some (lo, hi)" and
    s2: "Initialize_pixel ?b lo hi = Some hi'" and
    s3: "hi' \<le> GINTBIG_MAX"
    by (rule Initialize_success)
  have "hi = nImgOffset ?b \<and> GINTBIG_MAX < nImgOffset ?b"
    using s1 r h n by (intro Initialize_line_nonpos_height) simp_all
  moreover have "hi' = hi" using s2 n by (intro Initialize_pixel_neg_hi[OF s2]) simp
  ultimately show False using s3 by simp
qed

lemma pixel_offset_linear:
  "pixel_offset b x y = nImgOffset b + nLineOffset b * y + nPixelOffset b * x"
  by (simp add: pixel_offset_def abs_if)

lemma nReadStart_exact:
  fixes b :: "('f, 'c) RawRasterBand"
  assumes r: "is_int32 (nPixelOffset b)" "is_int32 (nLineOffset b)" "is_int32 (nBlockXSize b)"
    and w: "1 \<le> nBlockXSize b" and y: "0 \<le> y" "y \<le> 2147483647"
    and lo: "0 \<le> pixel_offset b (if nPixelOffset b < 0 then nBlockXSize b - 1 else 0) y"
    and lo0: "0 \<le> pixel_offset b 0 y"
    and hi: "pixel_offset b 0 y \<le> UINT64_MAX"
  shows "nReadStart b y = pixel_offset b (if nPixelOffset b < 0 then nBlockXSize b - 1 else 0) y"
    and "nWriteStart b y = pixel_offset b (if nPixelOffset b < 0 then nBlockXSize b - 1 else 0) y"
proof -
  have sl: "s64 (nLineOffset b) = nLineOffset b" and sp: "s64 (nPixelOffset b) = nPixelOffset b"
    using r by (simp_all add: s64_def is_int32_def)
  have pl: "u64_mul (u64 \<bar>nLineOffset b\<bar>) (u64 y) = \<bar>nLineOffset b\<bar> * y"
    using r y by (intro u64_mul_small) (auto simp: is_int32_def)
  have pp: "u64_mul (u64 \<bar>nPixelOffset b\<bar>) (u64 (nBlockXSize b - 1))
              = \<bar>nPixelOffset b\<bar> * (nBlockXSize b - 1)"
    using r w by (intro u64_mul_small) (auto simp: is_int32_def)
  define row where "row = nImgOffset b + nLineOffset b * y"
  have rowb: "0 \<le> row" "row < 18446744073709551616"
    using lo0 hi by (simp_all add: row_def pixel_offset_linear UINT64_MAX_def)
  have row: "(if nLineOffset b \<ge> 0
              then u64_add (nImgOffset b) (u64_mul (u64 (nLineOffset b)) (u64 y))
              else u64_sub (nImgOffset b) (u64_mul (u64 (- s64 (nLineOffset b))) (u64 y))) = row"
  proof (cases "nLineOffset b \<ge> 0")
    case True
    then have "u64_mul (u64 (nLineOffset b)) (u64 y) = nLineOffset b * y" using pl by simp
    then have "u64_add (nImgOffset b) (u64_mul (u64 (nLineOffset b)) (u64 y)) = u64 row"
      by (simp add: u64_add_def row_def)
    then show ?thesis using True rowb by (simp add: u64_small)
  next
    case False
    then have "u64_mul (u64 (- s64 (nLineOffset b))) (u64 y) = - nLineOffset b * y"
      using pl by (simp add: sl)
    then have "u64_sub (nImgOffset b) (u64_mul (u64 (- s64 (nLineOffset b))) (u64 y)) = u64 row"
      by (simp add: u64_sub_def row_def)
    then show ?thesis using False rowb by (simp add: u64_small)
  qed
  have fin: "(if nPixelOffset b < 0
        then u64_sub row (u64_mul (u64 (- s64 (nPixelOffset b))) (u64 (nBlockXSize b - 1)))
        else row) = pixel_offset b (if nPixelOffset b < 0 then nBlockXSize b - 1 else 0) y"
  proof (cases "nPixelOffset b < 0")
    case True
    then have e: "u64_mul (u64 (- s64 (nPixelOffset b))) (u64 (nBlockXSize b - 1))
        = - nPixelOffset b * (nBlockXSize b - 1)"
      using pp by (simp add: sp)
    define t where "t = pixel_offset b (nBlockXSize b - 1) y"
    have t: "row - (- nPixelOffset b * (nBlockXSize b - 1)) = t"
      by (simp add: row_def t_def pixel_offset_linear)
    have "0 \<le> (- nPixelOffset b) * (nBlockXSize b - 1)"
      using True w by (intro mult_nonneg_nonneg) simp_all
    then have "t \<le> row" using t by linarith
    moreover have "0 \<le> t" using lo True by (simp add: t_def)
    ultimately have "u64 t = t" using rowb by (intro u64_small) simp_all
    then have "u64_sub row (- nPixelOffset b * (nBlockXSize b - 1)) = t"
      unfolding u64_sub_def t by simp
    then show ?thesis using True by (simp only: e t_def if_True)
  next
    case False
    then show ?thesis by (simp add: row_def pixel_offset_linear)
  qed
  show "nReadStart b y = pixel_offset b (if nPixelOffset b < 0 then nBlockXSize b - 1 else 0) y"
    unfolding nReadStart_def Let_def row by (rule fin)
  have "u64_sub row 0 = row" using rowb by (simp add: u64_sub_def u64_small)
  then have "nWriteStart b y = (if nPixelOffset b < 0
        then u64_sub row (u64_mul (u64 (- s64 (nPixelOffset b))) (u64 (nBlockXSize b - 1)))
        else row)"
    unfolding nWriteStart_def Let_def row by simp
  then show "nWriteStart b y = pixel_offset b (if nPixelOffset b < 0 then nBlockXSize b - 1 else 0) y"
    using fin by simp
qed


lemma pixel_offset_in_range:
  fixes b :: "('f, 'c) RawRasterBand"
  assumes ok: "pLineBuffer (Initialize VSIMalloc b) \<noteq> None"
    and r: "is_u64 (nImgOffset b)" "is_int32 (nPixelOffset b)" "is_int32 (nLineOffset b)"
           "is_int32 (nRasterXSize b)" "is_int32 (nRasterYSize b)"
    and bx: "nBlockXSize b = nRasterXSize b"
    and x: "0 \<le> x" "x < nRasterXSize b" and y: "0 \<le> y" "y < nRasterYSize b"
  shows "0 \<le> pixel_offset b x y \<and> pixel_offset b x y \<le> GINTBIG_MAX"
proof -
  have h: "1 \<le> nRasterYSize b" using y by simp
  note B = pixel_offset_bounds[OF ok r bx h]
  define A where "A = \<bar>nLineOffset b\<bar> * y"
  define A' where "A' = \<bar>nLineOffset b\<bar> * (nRasterYSize b - 1)"
  define C where "C = \<bar>nPixelOffset b\<bar> * x"
  define C' where "C' = \<bar>nPixelOffset b\<bar> * (nRasterXSize b - 1)"
  have ey: "0 \<le> A \<and> A \<le> A'"
    unfolding A_def A'_def using y by (intro mult_le_extent) simp_all
  have ex: "0 \<le> C \<and> C \<le> C'"
    unfolding C_def C'_def using x by (intro mult_le_extent) simp_all
  have ly: "nLineOffset b * y = (if nLineOffset b < 0 then - A else A)"
    by (simp add: A_def abs_if)
  have px: "nPixelOffset b * x = (if nPixelOffset b < 0 then - C else C)"
    by (simp add: C_def abs_if)
  have lo: "nImgOffset b - (if nLineOffset b < 0 then A' else 0)
      - (if nPixelOffset b < 0 then C' else 0) \<ge> 0"
    using B(3) by (simp only: A'_def C'_def)
  have hi: "nImgOffset b + (if nLineOffset b < 0 then 0 else A')
      + (if nPixelOffset b < 0 then 0 else C') \<le> GINTBIG_MAX"
    using B(4) by (simp only: A'_def C'_def)
  have "pixel_offset b x y = nImgOffset b + (if nLineOffset b < 0 then - A else A)
      + (if nPixelOffset b < 0 then - C else C)"
    by (simp only: pixel_offset_linear ly px)
  then show ?thesis
    using lo hi ex ey by (cases "nLineOffset b < 0"; cases "nPixelOffset b < 0") simp_all
qed

text \<open>
  Claim C1. For a band whose construction succeeds (the line buffer is not null), every
  pixel \<open>(x, y)\<close> of the raster has a byte address \<open>pixel_offset b x y\<close> between 0
  and the largest signed 64-bit integer; with both strides negative the two subtracted
  extents together do not exceed \<open>nImgOffset\<close>; and the start of line \<open>y\<close> that
  \<open>AccessLine\<close> computes in unsigned arithmetic is the address of the leftmost byte of
  that line. The hypotheses on the fields are their C types; both constructors set
  \<open>nBlockXSize\<close> to \<open>nRasterXSize\<close>.
\<close>

theorem Initialize_offsets_in_range:
  fixes b :: "('f, 'c) RawRasterBand"
  assumes ok: "pLineBuffer (Initialize VSIMalloc b) \<noteq> None"
    and r: "is_u64 (nImgOffset b)" "is_int32 (nPixelOffset b)" "is_int32 (nLineOffset b)"
           "is_int32 (nRasterXSize b)" "is_int32 (nRasterYSize b)"
    and bx: "nBlockXSize b = nRasterXSize b"
  shows "(\<forall>x y. 0 \<le> x \<and> x < nRasterXSize b \<and> 0 \<le> y \<and> y < nRasterYSize b \<longrightarrow>
            0 \<le> pixel_offset b x y \<and> pixel_offset b x y \<le> GINTBIG_MAX) \<and>
         (nLineOffset b < 0 \<and> nPixelOffset b < 0 \<longrightarrow>
            \<bar>nLineOffset b\<bar> * (nRasterYSize b - 1) + \<bar>nPixelOffset b\<bar> * (nRasterXSize b - 1)
              \<le> nImgOffset b) \<and>
         (\<forall>y. 0 \<le> y \<and> y < nRasterYSize b \<longrightarrow>
            nReadStart (Initialize VSIMalloc b) y =
              pixel_offset b (if nPixelOffset b < 0 then nRasterXSize b - 1 else 0) y)"
proof (intro conjI allI impI)
  fix x y
  assume "0 \<le> x \<and> x < nRasterXSize b \<and> 0 \<le> y \<and> y < nRasterYSize b"
  then have xy: "0 \<le> x" "x < nRasterXSize b" "0 \<le> y" "y < nRasterYSize b" by simp_all
  from pixel_offset_in_range[OF ok r bx xy]
  show "0 \<le> pixel_offset b x y" and "pixel_offset b x y \<le> GINTBIG_MAX" by simp_all
next
  assume n: "nLineOffset b < 0 \<and> nPixelOffset b < 0"
  then have h: "1 \<le> nRasterYSize b"
    using Initialize_neg_strides_height[OF ok r(3) r(5)] by simp
  from pixel_offset_bounds(2)[OF ok r bx h] n
  show "\<bar>nLineOffset b\<bar> * (nRasterYSize b - 1) + \<bar>nPixelOffset b\<bar> * (nRasterXSize b - 1)
              \<le> nImgOffset b" by simp
next
  fix y
  assume "0 \<le> y \<and> y < nRasterYSize b"
  then have y: "0 \<le> y" "y < nRasterYSize b" by simp_all
  then have h: "1 \<le> nRasterYSize b" by simp
  have w: "1 \<le> nRasterXSize b" by (rule pixel_offset_bounds(1)[OF ok r bx h])
  let ?b = "Initialize VSIMalloc b"
  have po: "pixel_offset ?b = pixel_offset b"
    by (intro ext) (simp add: pixel_offset_linear Initialize_fields)
  have x0: "0 \<le> (0::int)" "0 < nRasterXSize b" using w by simp_all
  have xm: "0 \<le> nRasterXSize b - 1" "nRasterXSize b - 1 < nRasterXSize b" using w by simp_all
  have b0: "0 \<le> pixel_offset b 0 y \<and> pixel_offset b 0 y \<le> GINTBIG_MAX"
    by (rule pixel_offset_in_range[OF ok r bx x0 y])
  have bm: "0 \<le> pixel_offset b (nRasterXSize b - 1) y"
    using pixel_offset_in_range[OF ok r bx xm y] by simp
  have "nReadStart ?b y =
      pixel_offset ?b (if nPixelOffset ?b < 0 then nBlockXSize ?b - 1 else 0) y"
  proof (rule nReadStart_exact(1))
    show "is_int32 (nPixelOffset ?b)" "is_int32 (nLineOffset ?b)" "is_int32 (nBlockXSize ?b)"
      using r bx by (simp_all add: Initialize_fields)
    show "1 \<le> nBlockXSize ?b" using w bx by (simp add: Initialize_fields)
    show "0 \<le> y" by (rule y(1))
    show "y \<le> 2147483647" using y r(5) by (simp add: is_int32_def)
    show "0 \<le> pixel_offset ?b (if nPixelOffset ?b < 0 then nBlockXSize ?b - 1 else 0) y"
      using b0 bm bx by (simp add: po Initialize_fields)
    show "0 \<le> pixel_offset ?b 0 y" using b0 by (simp add: po)
    show "pixel_offset ?b 0 y \<le> UINT64_MAX"
      using b0 by (simp add: po UINT64_MAX_def GINTBIG_MAX_def)
  qed
  then show "nReadStart ?b y =
      pixel_offset b (if nPixelOffset b < 0 then nRasterXSize b - 1 else 0) y"
    using bx by (simp add: po Initialize_fields)
qed


lemma ex_reversed_ok: "pLineBuffer (Initialize zero_malloc ex_reversed_init) \<noteq> None"
  by (simp add: Initialize_def Initialize_line_def Initialize_pixel_def Initialize_buffer_def
      ex_reversed_init_def RawRasterBand_floating_init_def zero_malloc_def u64_mul_def u64_def
      u64_sub_def GINTBIG_MAX_def INT_MAX_def CPLError_def)

theorem Initialize_offsets_in_range_witness:
  "pLineBuffer (Initialize zero_malloc ex_reversed_init) \<noteq> None \<and>
   pixel_offset ex_reversed_init 9 9 = 0 \<and>
   0 \<le> pixel_offset ex_reversed_init 9 9 \<and>
   pixel_offset ex_reversed_init 9 9 \<le> GINTBIG_MAX \<and>
   \<bar>nLineOffset ex_reversed_init\<bar> * (nRasterYSize ex_reversed_init - 1)
     + \<bar>nPixelOffset ex_reversed_init\<bar> * (nRasterXSize ex_reversed_init - 1)
     \<le> nImgOffset ex_reversed_init \<and>
   nReadStart (Initialize zero_malloc ex_reversed_init) 9 = 0"
proof -
  have f: "nImgOffset ex_reversed_init = 99" "nPixelOffset ex_reversed_init = - 1"
    "nLineOffset ex_reversed_init = - 10" "nRasterXSize ex_reversed_init = 10"
    "nRasterYSize ex_reversed_init = 10" "nBlockXSize ex_reversed_init = 10"
    by (simp_all add: ex_reversed_init_def RawRasterBand_floating_init_def)
  have p: "pixel_offset ex_reversed_init 9 9 = 0"
    by (simp add: pixel_offset_def f)
  have t: "(\<forall>x y. 0 \<le> x \<and> x < nRasterXSize ex_reversed_init \<and> 0 \<le> y \<and>
               y < nRasterYSize ex_reversed_init \<longrightarrow>
            0 \<le> pixel_offset ex_reversed_init x y \<and>
            pixel_offset ex_reversed_init x y \<le> GINTBIG_MAX) \<and>
         (nLineOffset ex_reversed_init < 0 \<and> nPixelOffset ex_reversed_init < 0 \<longrightarrow>
            \<bar>nLineOffset ex_reversed_init\<bar> * (nRasterYSize ex_reversed_init - 1)
            + \<bar>nPixelOffset ex_reversed_init\<bar> * (nRasterXSize ex_reversed_init - 1)
              \<le> nImgOffset ex_reversed_init) \<and>
         (\<forall>y. 0 \<le> y \<and> y < nRasterYSize ex_reversed_init \<longrightarrow>
            nReadStart (Initialize zero_malloc ex_reversed_init) y =
              pixel_offset ex_reversed_init
                (if nPixelOffset ex_reversed_init < 0 then nRasterXSize ex_reversed_init - 1
                 else 0) y)"
    by (rule Initialize_offsets_in_range[OF ex_reversed_ok])
       (simp_all add: f is_u64_def is_int32_def)
  from t have a: "0 \<le> pixel_offset ex_reversed_init 9 9 \<and>
      pixel_offset ex_reversed_init 9 9 \<le> GINTBIG_MAX"
    by (simp add: f del: One_nat_def)
  from t have b: "\<bar>nLineOffset ex_reversed_init\<bar> * (nRasterYSize ex_reversed_init - 1)
            + \<bar>nPixelOffset ex_reversed_init\<bar> * (nRasterXSize ex_reversed_init - 1)
              \<le> nImgOffset ex_reversed_init"
    by (simp add: f)
  from t have "nReadStart (Initialize zero_malloc ex_reversed_init) 9 =
      pixel_offset ex_reversed_init 9 9"
    by (simp add: f)
  with p a b ex_reversed_ok show ?thesis by simp
qed


section \<open>Properties of the scanline cache\<close>

subsection \<open>Buffers\<close>

lemma length_store_bytes [simp]: "length (store_bytes buf off xs) = length buf"
  by (induction xs arbitrary: buf off) auto

lemma store_bytes_append:
  "off + length xs \<le> length buf \<Longrightarrow>
   store_bytes buf off xs = take off buf @ xs @ drop (off + length xs) buf"
proof (induction xs arbitrary: buf off)
  case Nil
  then show ?case by simp
next
  case (Cons x xs)
  from Cons.prems have off: "off < length buf" by simp
  have "store_bytes (buf[off := x]) (Suc off) xs =
      take (Suc off) (buf[off := x]) @ xs @ drop (Suc off + length xs) (buf[off := x])"
    using Cons.prems by (intro Cons.IH) simp
  also have "take (Suc off) (buf[off := x]) = take off buf @ [x]"
    using off by (simp add: take_Suc_conv_app_nth)
  also have "drop (Suc off + length xs) (buf[off := x]) = drop (off + length (x # xs)) buf"
    by simp
  finally show ?case by simp
qed

lemma length_memset_zero [simp]: "length (memset_zero buf off n) = length buf"
  by (simp add: memset_zero_def)

lemma memset_zero_all: "length buf = n \<Longrightarrow> memset_zero buf 0 n = replicate n 0"
  by (simp add: memset_zero_def store_bytes_append)

lemma read_then_zero_tail:
  assumes "length bytes \<le> length buf"
  shows "memset_zero (store_bytes buf 0 bytes) (length bytes) (length buf - length bytes)
          = bytes @ replicate (length buf - length bytes) 0"
proof -
  have "store_bytes buf 0 bytes = bytes @ drop (length bytes) buf"
    using assms by (simp add: store_bytes_append)
  then show ?thesis using assms by (simp add: memset_zero_def store_bytes_append)
qed

lemma length_GDALSwapWords [simp]:
  "length (GDALSwapWords buf pData nWordSize n nWordSkip) = length buf"
  by (induction n arbitrary: buf pData) auto

lemma length_GDALCopyWords [simp]:
  "length (GDALCopyWords src pSrc nSrcStride dst pDst nDstStride nWordSize n) = length dst"
  by (induction n arbitrary: dst pSrc pDst) auto

lemma length_SwapLineBuffer [simp]: "length (SwapLineBuffer b buf) = length buf"
  by (simp add: SwapLineBuffer_def Let_def)

lemma SwapLineBuffer_cong:
  "bNativeOrder b' = bNativeOrder b \<Longrightarrow> eDataType b' = eDataType b \<Longrightarrow>
   nBlockXSize b' = nBlockXSize b \<Longrightarrow> nPixelOffset b' = nPixelOffset b \<Longrightarrow>
   SwapLineBuffer b' = SwapLineBuffer b"
  by (intro ext) (simp add: SwapLineBuffer_def)

subsection \<open>The file wrappers\<close>

lemma Seek_eq:
  "Seek vsi nOffset nSeekMode b =
    (fst (VSIFSeekL vsi (fpRawL b) nOffset nSeekMode),
     b\<lparr>fpRawL := snd (VSIFSeekL vsi (fpRawL b) nOffset nSeekMode),
       fileCalls := fileCalls b @ [CallSeek nOffset nSeekMode]\<rparr>)"
  by (simp add: Seek_def split_beta)

lemma Read_eq:
  "Read vsi n b =
    (take n (fst (VSIFReadL vsi (fpRawL b) n)),
     b\<lparr>fpRawL := snd (VSIFReadL vsi (fpRawL b) n), fileCalls := fileCalls b @ [CallRead n]\<rparr>)"
  by (simp add: Read_def split_beta)

lemma Write_eq:
  "Write vsi bytes b =
    (min (fst (VSIFWriteL vsi (fpRawL b) bytes)) (length bytes),
     b\<lparr>fpRawL := snd (VSIFWriteL vsi (fpRawL b) bytes),
       fileCalls := fileCalls b @ [CallWrite bytes]\<rparr>)"
  by (simp add: Write_def split_beta)

lemma ds_flags_frame [simp]:
  "ds_read_only (b\<lparr>fpRawL := f\<rparr>) = ds_read_only b"
  "ds_read_only (b\<lparr>fileCalls := c\<rparr>) = ds_read_only b"
  "ds_no_ENVI (b\<lparr>fpRawL := f\<rparr>) = ds_no_ENVI b"
  "ds_no_ENVI (b\<lparr>fileCalls := c\<rparr>) = ds_no_ENVI b"
  by (simp_all add: ds_read_only_def ds_no_ENVI_def)

lemma SwapLineBuffer_frame [simp]:
  "SwapLineBuffer (b\<lparr>fpRawL := f\<rparr>) = SwapLineBuffer b"
  "SwapLineBuffer (b\<lparr>fileCalls := c\<rparr>) = SwapLineBuffer b"
  "SwapLineBuffer (b\<lparr>pLineBuffer := p\<rparr>) = SwapLineBuffer b"
  "SwapLineBuffer (b\<lparr>cplErrors := e\<rparr>) = SwapLineBuffer b"
  "SwapLineBuffer (b\<lparr>nLoadedScanline := l\<rparr>) = SwapLineBuffer b"
  by (intro ext, simp add: SwapLineBuffer_def)+

subsection \<open>AccessLine, case by case\<close>

lemma AccessLine_null: "pLineBuffer b = None \<Longrightarrow> AccessLine vsi iLine b = (CE_Failure, b)"
  by (simp add: AccessLine_def)

lemma AccessLine_cached:
  "pLineBuffer b = Some buf \<Longrightarrow> nLoadedScanline b = iLine \<Longrightarrow>
   AccessLine vsi iLine b = (CE_None, b)"
  by (simp add: AccessLine_def)

lemma AccessLine_seek_failed:
  assumes "pLineBuffer b = Some buf" "nLoadedScanline b \<noteq> iLine"
    and "fst (VSIFSeekL vsi (fpRawL b) (nReadStart b iLine) SEEK_SET) = - 1"
  shows "AccessLine vsi iLine b =
    (if ds_read_only b
     then (CE_Failure,
           b\<lparr>fpRawL := snd (VSIFSeekL vsi (fpRawL b) (nReadStart b iLine) SEEK_SET),
             fileCalls := fileCalls b @ [CallSeek (nReadStart b iLine) SEEK_SET],
             cplErrors := cplErrors b @ [(CE_Failure, CPLE_FileIO)]\<rparr>)
     else (CE_None,
           b\<lparr>fpRawL := snd (VSIFSeekL vsi (fpRawL b) (nReadStart b iLine) SEEK_SET),
             fileCalls := fileCalls b @ [CallSeek (nReadStart b iLine) SEEK_SET],
             pLineBuffer := Some (memset_zero buf 0 (nat (nLineSize b))),
             nLoadedScanline := iLine\<rparr>))"
  using assms by (simp add: AccessLine_def Seek_eq CPLError_def)

lemma AccessLine_read:
  assumes "pLineBuffer b = Some buf" "nLoadedScanline b \<noteq> iLine"
    and "fst (VSIFSeekL vsi (fpRawL b) (nReadStart b iLine) SEEK_SET) \<noteq> - 1"
    and f1: "f1 = snd (VSIFSeekL vsi (fpRawL b) (nReadStart b iLine) SEEK_SET)"
    and bs: "bytes = take (nat (nLineSize b)) (fst (VSIFReadL vsi f1 (nat (nLineSize b))))"
    and b2: "b2 = b\<lparr>fpRawL := snd (VSIFReadL vsi f1 (nat (nLineSize b))),
             fileCalls := fileCalls b @ [CallSeek (nReadStart b iLine) SEEK_SET,
                                          CallRead (nat (nLineSize b))]\<rparr>"
  shows "AccessLine vsi iLine b =
    (if length bytes < nat (nLineSize b) then
       (if ds_read_only b \<and> ds_no_ENVI b
        then (CE_Failure,
              b2\<lparr>pLineBuffer := Some (store_bytes buf 0 bytes),
                 cplErrors := cplErrors b @ [(CE_Failure, CPLE_FileIO)]\<rparr>)
        else (CE_None,
              b2\<lparr>pLineBuffer :=
                   Some (SwapLineBuffer b
                     (memset_zero (store_bytes buf 0 bytes) (length bytes)
                        (nat (nLineSize b) - length bytes))),
                 nLoadedScanline := iLine\<rparr>))
     else (CE_None,
           b2\<lparr>pLineBuffer := Some (SwapLineBuffer b (store_bytes buf 0 bytes)),
              nLoadedScanline := iLine\<rparr>))"
  using assms(1-3) unfolding f1 bs b2
  by (simp add: AccessLine_def Seek_eq Read_eq CPLError_def)



lemma Initialize_buffer_length:
  assumes "\<And>n buf. VSIMalloc n = Some buf \<Longrightarrow> length buf = nat n"
    and "pLineBuffer (Initialize VSIMalloc b) = Some buf"
  shows "length buf = nat (nLineSize (Initialize VSIMalloc b))"
  using assms(2) assms(1)
  by (auto simp: Initialize_def Initialize_buffer_def Initialize_fail_def CPLError_def Let_def
      split: option.splits prod.splits if_splits)

subsection \<open>Claims on AccessLine\<close>

text \<open>
  Claim C2. \<open>AccessLine\<close> on a line that is not the cached one. When the seek succeeds
  and the read is short, the call fails (with an I/O error emitted and the cached line
  number unchanged) exactly when the band has a dataset that is read-only and has no
  \<open>ENVI\<close> metadata; in every other case it succeeds, the line number becomes
  \<open>iLine\<close>, and the buffer is the bytes read followed by zeros (then byte-swapped as
  step 5 of the specification says; for native order that is the identity). When the
  seek fails, the call fails for a read-only dataset and otherwise succeeds with the
  whole buffer zero and the line number set.
\<close>

theorem AccessLine_failure_policy:
  fixes b :: "('f, 'c) RawRasterBand" and vsi :: "'f VSIVirtualFile" and iLine :: int
  assumes buf: "pLineBuffer b = Some buf" and len: "length buf = nat (nLineSize b)"
    and miss: "nLoadedScanline b \<noteq> iLine"
  defines "seek \<equiv> VSIFSeekL vsi (fpRawL b) (nReadStart b iLine) SEEK_SET"
  defines "bytes \<equiv> take (nat (nLineSize b)) (fst (VSIFReadL vsi (snd seek) (nat (nLineSize b))))"
  defines "ro_no_envi \<equiv> (case poDS b of None \<Rightarrow> False
      | Some ds \<Rightarrow> dsAccess ds = GA_ReadOnly \<and> dsMetadata ds ''ENVI'' = None)"
  defines "ro \<equiv> (case poDS b of None \<Rightarrow> False | Some ds \<Rightarrow> dsAccess ds = GA_ReadOnly)"
  defines "r \<equiv> AccessLine vsi iLine b"
  shows "(fst seek \<noteq> - 1 \<and> length bytes < nat (nLineSize b) \<longrightarrow>
            (fst r = CE_Failure \<longleftrightarrow> ro_no_envi) \<and>
            (if ro_no_envi
             then cplErrors (snd r) = cplErrors b @ [(CE_Failure, CPLE_FileIO)] \<and>
                  nLoadedScanline (snd r) = nLoadedScanline b
             else fst r = CE_None \<and> nLoadedScanline (snd r) = iLine \<and>
                  cplErrors (snd r) = cplErrors b \<and>
                  pLineBuffer (snd r) =
                    Some (SwapLineBuffer b
                            (bytes @ replicate (nat (nLineSize b) - length bytes) 0)))) \<and>
         (fst seek = - 1 \<longrightarrow>
            (if ro
             then fst r = CE_Failure \<and>
                  cplErrors (snd r) = cplErrors b @ [(CE_Failure, CPLE_FileIO)] \<and>
                  nLoadedScanline (snd r) = nLoadedScanline b
             else fst r = CE_None \<and> nLoadedScanline (snd r) = iLine \<and>
                  cplErrors (snd r) = cplErrors b \<and>
                  pLineBuffer (snd r) = Some (replicate (nat (nLineSize b)) 0)))"
proof (intro conjI impI)
  assume a: "fst seek \<noteq> - 1 \<and> length bytes < nat (nLineSize b)"
  have e: "ro_no_envi = (ds_read_only b \<and> ds_no_ENVI b)"
    by (simp add: ro_no_envi_def ds_read_only_def ds_no_ENVI_def split: option.splits)
  have z: "memset_zero (store_bytes buf 0 bytes) (length bytes) (nat (nLineSize b) - length bytes)
      = bytes @ replicate (nat (nLineSize b) - length bytes) 0"
    using read_then_zero_tail[of bytes buf] a len by simp
  have r: "r = (if ds_read_only b \<and> ds_no_ENVI b
        then (CE_Failure,
              b\<lparr>fpRawL := snd (VSIFReadL vsi (snd seek) (nat (nLineSize b))),
                fileCalls := fileCalls b @ [CallSeek (nReadStart b iLine) SEEK_SET,
                                             CallRead (nat (nLineSize b))],
                pLineBuffer := Some (store_bytes buf 0 bytes),
                cplErrors := cplErrors b @ [(CE_Failure, CPLE_FileIO)]\<rparr>)
        else (CE_None,
              b\<lparr>fpRawL := snd (VSIFReadL vsi (snd seek) (nat (nLineSize b))),
                fileCalls := fileCalls b @ [CallSeek (nReadStart b iLine) SEEK_SET,
                                             CallRead (nat (nLineSize b))],
                pLineBuffer := Some (SwapLineBuffer b
                     (bytes @ replicate (nat (nLineSize b) - length bytes) 0)),
                nLoadedScanline := iLine\<rparr>))"
  proof -
    from a have s: "fst (VSIFSeekL vsi (fpRawL b) (nReadStart b iLine) SEEK_SET) \<noteq> - 1"
      by (simp add: seek_def)
    note rd = AccessLine_read[OF buf miss s refl refl refl, folded seek_def, folded bytes_def]
    show ?thesis unfolding r_def rd using a z by simp
  qed
  show "fst r = CE_Failure \<longleftrightarrow> ro_no_envi" by (simp add: r e)
  show "if ro_no_envi
             then cplErrors (snd r) = cplErrors b @ [(CE_Failure, CPLE_FileIO)] \<and>
                  nLoadedScanline (snd r) = nLoadedScanline b
             else fst r = CE_None \<and> nLoadedScanline (snd r) = iLine \<and>
                  cplErrors (snd r) = cplErrors b \<and>
                  pLineBuffer (snd r) =
                    Some (SwapLineBuffer b
                            (bytes @ replicate (nat (nLineSize b) - length bytes) 0))"
    by (simp add: r e)
next
  assume a: "fst seek = - 1"
  have e: "ro = ds_read_only b" by (simp add: ro_def ds_read_only_def)
  show "if ro
             then fst r = CE_Failure \<and>
                  cplErrors (snd r) = cplErrors b @ [(CE_Failure, CPLE_FileIO)] \<and>
                  nLoadedScanline (snd r) = nLoadedScanline b
             else fst r = CE_None \<and> nLoadedScanline (snd r) = iLine \<and>
                  cplErrors (snd r) = cplErrors b \<and>
                  pLineBuffer (snd r) = Some (replicate (nat (nLineSize b)) 0)"
  proof -
    from a have s: "fst (VSIFSeekL vsi (fpRawL b) (nReadStart b iLine) SEEK_SET) = - 1"
      by (simp add: seek_def)
    note sf = AccessLine_seek_failed[OF buf miss s]
    show ?thesis unfolding r_def e sf using len by (simp add: memset_zero_all)
  qed
qed



lemma AccessLine_frame:
  "nLineSize (snd (AccessLine vsi iLine b)) = nLineSize b"
  "nPixelOffset (snd (AccessLine vsi iLine b)) = nPixelOffset b"
  "nLineOffset (snd (AccessLine vsi iLine b)) = nLineOffset b"
  "nImgOffset (snd (AccessLine vsi iLine b)) = nImgOffset b"
  "nBlockXSize (snd (AccessLine vsi iLine b)) = nBlockXSize b"
  "eDataType (snd (AccessLine vsi iLine b)) = eDataType b"
  "bNativeOrder (snd (AccessLine vsi iLine b)) = bNativeOrder b"
  "pLineStart (snd (AccessLine vsi iLine b)) = pLineStart b"
  "bDirty (snd (AccessLine vsi iLine b)) = bDirty b"
  "poDS (snd (AccessLine vsi iLine b)) = poDS b"
  "blockCache (snd (AccessLine vsi iLine b)) = blockCache b"
  by (simp_all add: AccessLine_def Seek_eq Read_eq CPLError_def split: option.splits)

lemma AccessLine_buffer_length:
  "pLineBuffer b = Some buf \<Longrightarrow>
   \<exists>buf'. pLineBuffer (snd (AccessLine vsi iLine b)) = Some buf' \<and> length buf' = length buf"
  by (simp add: AccessLine_def Seek_eq Read_eq CPLError_def)

lemma AccessLine_buffer_null:
  "pLineBuffer b = None \<Longrightarrow> pLineBuffer (snd (AccessLine vsi iLine b)) = None"
  by (simp add: AccessLine_def)


text \<open>
  Claim C10. A band without an owning dataset (\<open>poDS\<close> null, as the floating
  constructor leaves it), whatever access mode \<open>SetAccess\<close> gave it: \<open>AccessLine\<close>
  emits no error; with a line buffer it returns success and sets the line number; a
  failed seek leaves the buffer all zero, a short read leaves the bytes read followed by
  zeros.
\<close>

theorem AccessLine_floating_never_fails:
  fixes b :: "('f, 'c) RawRasterBand" and vsi :: "'f VSIVirtualFile" and iLine :: int
    and eAccessIn :: GDALAccess
  assumes float: "poDS b = None"
  defines "seek \<equiv> VSIFSeekL vsi (fpRawL b) (nReadStart b iLine) SEEK_SET"
  defines "bytes \<equiv> take (nat (nLineSize b)) (fst (VSIFReadL vsi (snd seek) (nat (nLineSize b))))"
  defines "r \<equiv> AccessLine vsi iLine (SetAccess eAccessIn b)"
  shows "cplErrors (snd r) = cplErrors b \<and>
         (if pLineBuffer b = None then r = (CE_Failure, SetAccess eAccessIn b)
          else fst r = CE_None \<and> nLoadedScanline (snd r) = iLine) \<and>
         (\<forall>buf. pLineBuffer b = Some buf \<and> length buf = nat (nLineSize b) \<and>
                nLoadedScanline b \<noteq> iLine \<longrightarrow>
            (if fst seek = - 1
             then pLineBuffer (snd r) = Some (replicate (nat (nLineSize b)) 0)
             else length bytes < nat (nLineSize b) \<longrightarrow>
                  pLineBuffer (snd r) =
                    Some (SwapLineBuffer b
                            (bytes @ replicate (nat (nLineSize b) - length bytes) 0))))"
proof -
  let ?b = "SetAccess eAccessIn b"
  have f: "poDS ?b = None" "pLineBuffer ?b = pLineBuffer b" "nLoadedScanline ?b = nLoadedScanline b"
    "fpRawL ?b = fpRawL b" "nLineSize ?b = nLineSize b" "cplErrors ?b = cplErrors b"
    "fileCalls ?b = fileCalls b"
    using float by (simp_all add: SetAccess_def)
  have rs: "nReadStart ?b iLine = nReadStart b iLine"
    by (simp add: nReadStart_def SetAccess_def Let_def)
  have sw: "SwapLineBuffer ?b = SwapLineBuffer b"
    by (intro ext) (simp add: SwapLineBuffer_def SetAccess_def)
  have ro: "\<not> ds_read_only ?b" by (simp add: ds_read_only_def f)
  show ?thesis
  proof (cases "pLineBuffer b")
    case None
    then have "r = (CE_Failure, ?b)" unfolding r_def by (intro AccessLine_null) (simp add: f)
    then show ?thesis using None by (simp add: f)
  next
    case (Some buf)
    then have buf: "pLineBuffer ?b = Some buf" by (simp add: f)
    show ?thesis
    proof (cases "nLoadedScanline b = iLine")
      case True
      then have "r = (CE_None, ?b)" unfolding r_def
        by (intro AccessLine_cached[OF buf]) (simp add: f)
      then show ?thesis using Some True by (simp add: f)
    next
      case False
      then have miss: "nLoadedScanline ?b \<noteq> iLine" by (simp add: f)
      show ?thesis
      proof (cases "fst seek = - 1")
        case True
        then have s: "fst (VSIFSeekL vsi (fpRawL ?b) (nReadStart ?b iLine) SEEK_SET) = - 1"
          by (simp add: seek_def f rs)
        note sf = AccessLine_seek_failed[OF buf miss s]
        show ?thesis unfolding r_def sf using ro Some True
          by (simp add: f memset_zero_all)
      next
        case nf: False
        then have s: "fst (VSIFSeekL vsi (fpRawL ?b) (nReadStart ?b iLine) SEEK_SET) \<noteq> - 1"
          by (simp add: seek_def f rs)
        note rd = AccessLine_read[OF buf miss s refl refl refl, unfolded f rs sw,
            folded seek_def, folded bytes_def]
        have z: "length buf = nat (nLineSize b) \<Longrightarrow> length bytes < nat (nLineSize b) \<Longrightarrow>
            memset_zero (store_bytes buf 0 bytes) (length bytes) (nat (nLineSize b) - length bytes)
              = bytes @ replicate (nat (nLineSize b) - length bytes) 0"
          using read_then_zero_tail[of bytes buf] by simp
        show ?thesis unfolding r_def rd using ro Some nf z
          by (auto simp: f)
      qed
    qed
  qed
qed


subsection \<open>IWriteBlock\<close>

lemma IWriteBlock_store_result:
  "fst (IWriteBlock_store vsi nBlockYOff eErr b) =
    (if fst (VSIFSeekL vsi (fpRawL b) (nWriteStart b nBlockYOff) SEEK_SET) = - 1 then CE_Failure
     else if eErr \<noteq> CE_None then eErr
     else if min (fst (VSIFWriteL vsi
                         (snd (VSIFSeekL vsi (fpRawL b) (nWriteStart b nBlockYOff) SEEK_SET))
                         (load_bytes (line_buffer b) 0 (nat (nLineSize b)))))
                 (length (load_bytes (line_buffer b) 0 (nat (nLineSize b))))
             < nat (nLineSize b)
          then CE_Failure else CE_None)"
  by (simp add: IWriteBlock_store_def Seek_eq Write_eq CPLError_def line_buffer_def)

lemma IWriteBlock_null: "pLineBuffer b = None \<Longrightarrow> IWriteBlock vsi nBlockYOff pImage b = (CE_Failure, b)"
  by (simp add: IWriteBlock_def)

lemma IWriteBlock_dirty:
  "pLineBuffer b = Some buf \<Longrightarrow> bDirty (snd (IWriteBlock vsi nBlockYOff pImage b))"
  by (simp add: IWriteBlock_def split_beta)

lemma CPLErr_not_None: "(e \<noteq> CE_None) = (e = CE_Failure)"
  by (cases e) simp_all

text \<open>
  Claim C9. \<open>IWriteBlock\<close> on a band with a line buffer always leaves \<open>bDirty\<close>
  set: also when every seek fails, and when the file takes fewer bytes than the line
  holds, in which cases it returns failure.
\<close>

theorem IWriteBlock_marks_dirty:
  fixes b :: "('f, 'c) RawRasterBand" and vsi :: "'f VSIVirtualFile"
  assumes buf: "pLineBuffer b = Some buf"
  shows "bDirty (snd (IWriteBlock vsi nBlockYOff pImage b)) \<and>
         ((\<forall>f nOffset. fst (VSIFSeekL vsi f nOffset SEEK_SET) = - 1) \<longrightarrow>
            fst (IWriteBlock vsi nBlockYOff pImage b) = CE_Failure) \<and>
         ((\<forall>f bytes. bytes \<noteq> [] \<longrightarrow> fst (VSIFWriteL vsi f bytes) < length bytes) \<and>
          0 < nLineSize b \<and> length buf = nat (nLineSize b) \<longrightarrow>
            fst (IWriteBlock vsi nBlockYOff pImage b) = CE_Failure)"
proof (intro conjI impI)
  show "bDirty (snd (IWriteBlock vsi nBlockYOff pImage b))"
    using buf by (rule IWriteBlock_dirty)
next
  assume "\<forall>f nOffset. fst (VSIFSeekL vsi f nOffset SEEK_SET) = - 1"
  then show "fst (IWriteBlock vsi nBlockYOff pImage b) = CE_Failure"
    using buf by (simp add: IWriteBlock_def split_beta IWriteBlock_store_result)
next
  assume a: "(\<forall>f bytes. bytes \<noteq> [] \<longrightarrow> fst (VSIFWriteL vsi f bytes) < length bytes) \<and>
          0 < nLineSize b \<and> length buf = nat (nLineSize b)"
  define b1 where "b1 = snd (if \<bar>nPixelOffset b\<bar> > GDALGetDataTypeSizeBytes (eDataType b)
                then AccessLine vsi nBlockYOff b else (CE_None, b))"
  have n1: "nLineSize b1 = nLineSize b" by (simp add: b1_def AccessLine_frame)
  have "\<exists>buf1. pLineBuffer b1 = Some buf1 \<and> length buf1 = length buf"
    using AccessLine_buffer_length[OF buf, of vsi nBlockYOff] buf
    by (cases "\<bar>nPixelOffset b\<bar> > GDALGetDataTypeSizeBytes (eDataType b)")
       (simp_all add: b1_def)
  then obtain buf1 where buf1: "pLineBuffer b1 = Some buf1" "length buf1 = length buf"
    by blast
  have short: "\<And>f bytes. length bytes = nat (nLineSize b) \<Longrightarrow>
      min (fst (VSIFWriteL vsi f bytes)) (length bytes) < nat (nLineSize b)"
  proof -
    fix f and bytes :: "GByte list"
    assume l: "length bytes = nat (nLineSize b)"
    then have "bytes \<noteq> []" using a by auto
    then have "fst (VSIFWriteL vsi f bytes) < length bytes" using a by blast
    then show "min (fst (VSIFWriteL vsi f bytes)) (length bytes) < nat (nLineSize b)"
      using l by simp
  qed
  show "fst (IWriteBlock vsi nBlockYOff pImage b) = CE_Failure"
    using buf buf1 a n1 short
    by (simp add: IWriteBlock_def split_beta IWriteBlock_store_result b1_def[symmetric]
        line_buffer_def load_bytes_def CPLErr_not_None)
qed


lemma ex_floating_fields:
  "ex_floating =
     \<lparr> fpRawL = \<lparr>mfData = [1, 2, 3, 4, 5, 6], mfPos = 0\<rparr>, nImgOffset = 0, nPixelOffset = 1,
       nLineOffset = 4, nLineSize = 4, bNativeOrder = 1, nLoadedScanline = - 1,
       pLineBuffer = Some [0, 0, 0, 0], pLineStart = 0, bDirty = False, bOwnsFP = False,
       poDS = None, nBand = 1, eDataType = GDT_Byte, eAccess = GA_ReadOnly,
       nRasterXSize = 4, nRasterYSize = 2, nBlockXSize = 4, nBlockYSize = 1,
       blockCache = (), fileCalls = [], cplErrors = [] \<rparr>"
  by (simp add: ex_floating_def RawRasterBand_floating_def RawRasterBand_floating_init_def
      GDALCheckDatasetDimensions_def
      Initialize_def Initialize_line_def Initialize_pixel_def Initialize_buffer_def
      zero_malloc_def u64_mul_def u64_def u64_sub_def u64_add_def UINT64_MAX_def
      GINTBIG_MAX_def INT_MAX_def CPLError_def eval_nat_numeral)

theorem AccessLine_floating_never_fails_witness:
  "fst (AccessLine noseek_vsi 1 (SetAccess GA_ReadOnly ex_floating)) = CE_None \<and>
   nLoadedScanline (snd (AccessLine noseek_vsi 1 (SetAccess GA_ReadOnly ex_floating))) = 1 \<and>
   pLineBuffer (snd (AccessLine noseek_vsi 1 (SetAccess GA_ReadOnly ex_floating)))
     = Some [0, 0, 0, 0] \<and>
   cplErrors (snd (AccessLine noseek_vsi 1 (SetAccess GA_ReadOnly ex_floating))) = [] \<and>
   fst (AccessLine mem_vsi 1 (SetAccess GA_Update ex_floating)) = CE_None \<and>
   pLineBuffer (snd (AccessLine mem_vsi 1 (SetAccess GA_Update ex_floating)))
     = Some [5, 6, 0, 0] \<and>
   cplErrors (snd (AccessLine mem_vsi 1 (SetAccess GA_Update ex_floating))) = []"
proof -
  have f: "poDS ex_floating = None" "pLineBuffer ex_floating = Some [0, 0, 0, 0]"
    "nLineSize ex_floating = 4" "nLoadedScanline ex_floating = - 1"
    "cplErrors ex_floating = []" "nReadStart ex_floating 1 = 4"
    "fpRawL ex_floating = \<lparr>mfData = [1, 2, 3, 4, 5, 6], mfPos = 0\<rparr>"
    "\<And>buf. SwapLineBuffer ex_floating buf = buf"
    by (simp_all add: ex_floating_fields nReadStart_def u64_add_def u64_mul_def u64_def
        SwapLineBuffer_def Let_def)
  note ev = f mem_vsi_def noseek_vsi_def eval_nat_numeral
  have 1: "fst (AccessLine noseek_vsi 1 (SetAccess GA_ReadOnly ex_floating)) = CE_None \<and>
   nLoadedScanline (snd (AccessLine noseek_vsi 1 (SetAccess GA_ReadOnly ex_floating))) = 1 \<and>
   pLineBuffer (snd (AccessLine noseek_vsi 1 (SetAccess GA_ReadOnly ex_floating)))
     = Some [0, 0, 0, 0] \<and>
   cplErrors (snd (AccessLine noseek_vsi 1 (SetAccess GA_ReadOnly ex_floating))) = []"
    using AccessLine_floating_never_fails[of ex_floating noseek_vsi 1 GA_ReadOnly]
    by (simp add: ev)
  have 2: "fst (AccessLine mem_vsi 1 (SetAccess GA_Update ex_floating)) = CE_None \<and>
   pLineBuffer (snd (AccessLine mem_vsi 1 (SetAccess GA_Update ex_floating)))
     = Some [5, 6, 0, 0] \<and>
   cplErrors (snd (AccessLine mem_vsi 1 (SetAccess GA_Update ex_floating))) = []"
    using AccessLine_floating_never_fails[of ex_floating mem_vsi 1 GA_Update]
    by (simp add: ev)
  from 1 2 show ?thesis by simp
qed

theorem IWriteBlock_marks_dirty_witness:
  "bDirty (snd (IWriteBlock noseek_vsi 1 [9, 8, 7, 6] ex_floating)) \<and>
   fst (IWriteBlock noseek_vsi 1 [9, 8, 7, 6] ex_floating) = CE_Failure \<and>
   bDirty (snd (IWriteBlock full_vsi 1 [9, 8, 7, 6] ex_floating)) \<and>
   fst (IWriteBlock full_vsi 1 [9, 8, 7, 6] ex_floating) = CE_Failure \<and>
   bDirty (snd (IWriteBlock mem_vsi 1 [9, 8, 7, 6] ex_floating))"
proof -
  have f: "pLineBuffer ex_floating = Some [0, 0, 0, 0]" "nLineSize ex_floating = 4"
    by (simp_all add: ex_floating_fields)
  have 1: "bDirty (snd (IWriteBlock noseek_vsi 1 [9, 8, 7, 6] ex_floating)) \<and>
      fst (IWriteBlock noseek_vsi 1 [9, 8, 7, 6] ex_floating) = CE_Failure"
    using IWriteBlock_marks_dirty[OF f(1), of noseek_vsi 1 "[9, 8, 7, 6]"]
    by (simp add: noseek_vsi_def)
  have 2: "bDirty (snd (IWriteBlock full_vsi 1 [9, 8, 7, 6] ex_floating)) \<and>
      fst (IWriteBlock full_vsi 1 [9, 8, 7, 6] ex_floating) = CE_Failure"
    using IWriteBlock_marks_dirty[OF f(1), of full_vsi 1 "[9, 8, 7, 6]"]
    by (simp add: full_vsi_def f)
  have 3: "bDirty (snd (IWriteBlock mem_vsi 1 [9, 8, 7, 6] ex_floating))"
    using IWriteBlock_marks_dirty[OF f(1), of mem_vsi 1 "[9, 8, 7, 6]"] by simp
  from 1 2 3 show ?thesis by simp
qed

lemma ex_truncated_fields:
  "dsRasterXSize ds = 4 \<Longrightarrow> dsRasterYSize ds = 2 \<Longrightarrow>
   ex_truncated ds =
     \<lparr> fpRawL = \<lparr>mfData = [1, 2, 3, 4, 5, 6], mfPos = 0\<rparr>, nImgOffset = 0, nPixelOffset = 1,
       nLineOffset = 4, nLineSize = 4, bNativeOrder = 1, nLoadedScanline = - 1,
       pLineBuffer = Some [0, 0, 0, 0], pLineStart = 0, bDirty = False, bOwnsFP = False,
       poDS = Some ds, nBand = 1, eDataType = GDT_Byte, eAccess = GA_ReadOnly,
       nRasterXSize = 4, nRasterYSize = 2, nBlockXSize = 4, nBlockYSize = 1,
       blockCache = (), fileCalls = [], cplErrors = [] \<rparr>"
  by (simp add: ex_truncated_def RawRasterBand_ctor_def RawRasterBand_ctor_init_def
      Initialize_def Initialize_line_def Initialize_pixel_def Initialize_buffer_def
      zero_malloc_def u64_mul_def u64_def u64_sub_def u64_add_def UINT64_MAX_def
      GINTBIG_MAX_def INT_MAX_def CPLError_def eval_nat_numeral)

theorem AccessLine_failure_policy_witness:
  "fst (AccessLine mem_vsi 1 (ex_truncated ex_ds_ro)) = CE_Failure \<and>
   cplErrors (snd (AccessLine mem_vsi 1 (ex_truncated ex_ds_ro))) = [(CE_Failure, CPLE_FileIO)] \<and>
   fst (AccessLine mem_vsi 1 (ex_truncated ex_ds_envi)) = CE_None \<and>
   nLoadedScanline (snd (AccessLine mem_vsi 1 (ex_truncated ex_ds_envi))) = 1 \<and>
   pLineBuffer (snd (AccessLine mem_vsi 1 (ex_truncated ex_ds_envi))) = Some [5, 6, 0, 0] \<and>
   fst (AccessLine mem_vsi 1 (ex_truncated ex_ds_rw)) = CE_None \<and>
   pLineBuffer (snd (AccessLine mem_vsi 1 (ex_truncated ex_ds_rw))) = Some [5, 6, 0, 0] \<and>
   fst (AccessLine noseek_vsi 1 (ex_truncated ex_ds_rw)) = CE_None \<and>
   nLoadedScanline (snd (AccessLine noseek_vsi 1 (ex_truncated ex_ds_rw))) = 1 \<and>
   pLineBuffer (snd (AccessLine noseek_vsi 1 (ex_truncated ex_ds_rw))) = Some [0, 0, 0, 0] \<and>
   fst (AccessLine noseek_vsi 1 (ex_truncated ex_ds_ro)) = CE_Failure"
proof -
  have ro: "ex_truncated ex_ds_ro = \<lparr> fpRawL = \<lparr>mfData = [1, 2, 3, 4, 5, 6], mfPos = 0\<rparr>, nImgOffset = 0, nPixelOffset = 1,
       nLineOffset = 4, nLineSize = 4, bNativeOrder = 1, nLoadedScanline = - 1,
       pLineBuffer = Some [0, 0, 0, 0], pLineStart = 0, bDirty = False, bOwnsFP = False,
       poDS = Some ex_ds_ro, nBand = 1, eDataType = GDT_Byte, eAccess = GA_ReadOnly,
       nRasterXSize = 4, nRasterYSize = 2, nBlockXSize = 4, nBlockYSize = 1,
       blockCache = (), fileCalls = [], cplErrors = [] \<rparr>"
    by (rule ex_truncated_fields) (simp_all add: ex_ds_ro_def)
  have envi: "ex_truncated ex_ds_envi = \<lparr> fpRawL = \<lparr>mfData = [1, 2, 3, 4, 5, 6], mfPos = 0\<rparr>, nImgOffset = 0, nPixelOffset = 1,
       nLineOffset = 4, nLineSize = 4, bNativeOrder = 1, nLoadedScanline = - 1,
       pLineBuffer = Some [0, 0, 0, 0], pLineStart = 0, bDirty = False, bOwnsFP = False,
       poDS = Some ex_ds_envi, nBand = 1, eDataType = GDT_Byte, eAccess = GA_ReadOnly,
       nRasterXSize = 4, nRasterYSize = 2, nBlockXSize = 4, nBlockYSize = 1,
       blockCache = (), fileCalls = [], cplErrors = [] \<rparr>"
    by (rule ex_truncated_fields) (simp_all add: ex_ds_envi_def)
  have rw: "ex_truncated ex_ds_rw = \<lparr> fpRawL = \<lparr>mfData = [1, 2, 3, 4, 5, 6], mfPos = 0\<rparr>, nImgOffset = 0, nPixelOffset = 1,
       nLineOffset = 4, nLineSize = 4, bNativeOrder = 1, nLoadedScanline = - 1,
       pLineBuffer = Some [0, 0, 0, 0], pLineStart = 0, bDirty = False, bOwnsFP = False,
       poDS = Some ex_ds_rw, nBand = 1, eDataType = GDT_Byte, eAccess = GA_ReadOnly,
       nRasterXSize = 4, nRasterYSize = 2, nBlockXSize = 4, nBlockYSize = 1,
       blockCache = (), fileCalls = [], cplErrors = [] \<rparr>"
    by (rule ex_truncated_fields) (simp_all add: ex_ds_rw_def)
  have ds: "dsAccess ex_ds_ro = GA_ReadOnly" "dsMetadata ex_ds_ro ''ENVI'' = None"
    "dsAccess ex_ds_envi = GA_ReadOnly" "dsMetadata ex_ds_envi ''ENVI'' = Some [''bands=1'']"
    "dsAccess ex_ds_rw = GA_Update"
    by (simp_all add: ex_ds_ro_def ex_ds_envi_def ex_ds_rw_def)
  note ev = nReadStart_def u64_add_def u64_mul_def u64_def mem_vsi_def noseek_vsi_def
    SwapLineBuffer_def Let_def ds eval_nat_numeral
  have 1: "fst (AccessLine mem_vsi 1 (ex_truncated ex_ds_ro)) = CE_Failure \<and>
      cplErrors (snd (AccessLine mem_vsi 1 (ex_truncated ex_ds_ro))) = [(CE_Failure, CPLE_FileIO)]"
    using AccessLine_failure_policy[of "ex_truncated ex_ds_ro" "[0, 0, 0, 0]" 1 mem_vsi]
    by (simp add: ro ev)
  have 2: "fst (AccessLine mem_vsi 1 (ex_truncated ex_ds_envi)) = CE_None \<and>
      nLoadedScanline (snd (AccessLine mem_vsi 1 (ex_truncated ex_ds_envi))) = 1 \<and>
      pLineBuffer (snd (AccessLine mem_vsi 1 (ex_truncated ex_ds_envi))) = Some [5, 6, 0, 0]"
    using AccessLine_failure_policy[of "ex_truncated ex_ds_envi" "[0, 0, 0, 0]" 1 mem_vsi]
    by (simp add: envi ev)
  have 3: "fst (AccessLine mem_vsi 1 (ex_truncated ex_ds_rw)) = CE_None \<and>
      pLineBuffer (snd (AccessLine mem_vsi 1 (ex_truncated ex_ds_rw))) = Some [5, 6, 0, 0]"
    using AccessLine_failure_policy[of "ex_truncated ex_ds_rw" "[0, 0, 0, 0]" 1 mem_vsi]
    by (simp add: rw ev)
  have 4: "fst (AccessLine noseek_vsi 1 (ex_truncated ex_ds_rw)) = CE_None \<and>
      nLoadedScanline (snd (AccessLine noseek_vsi 1 (ex_truncated ex_ds_rw))) = 1 \<and>
      pLineBuffer (snd (AccessLine noseek_vsi 1 (ex_truncated ex_ds_rw))) = Some [0, 0, 0, 0]"
    using AccessLine_failure_policy[of "ex_truncated ex_ds_rw" "[0, 0, 0, 0]" 1 noseek_vsi]
    by (simp add: rw ev)
  have 5: "fst (AccessLine noseek_vsi 1 (ex_truncated ex_ds_ro)) = CE_Failure"
    using AccessLine_failure_policy[of "ex_truncated ex_ds_ro" "[0, 0, 0, 0]" 1 noseek_vsi]
    by (simp add: ro ev)
  from 1 2 3 4 5 show ?thesis by simp
qed


subsection \<open>FlushCache\<close>

lemma FlushCache_eq:
  "FlushCache vsi cf b =
    (if fst (cf b) \<noteq> CE_None then (fst (cf b), (snd (cf b))\<lparr>bDirty := False\<rparr>)
     else if bDirty (snd (cf b)) then
       (if fst (VSIFFlushL vsi (fpRawL (snd (cf b)))) < 0 then CE_Failure else CE_None,
        (snd (cf b))\<lparr>fpRawL := snd (VSIFFlushL vsi (fpRawL (snd (cf b)))),
                     fileCalls := fileCalls (snd (cf b)) @ [CallFlush], bDirty := False\<rparr>)
     else (CE_None, snd (cf b)))"
  by (simp add: FlushCache_def split_beta)

lemma FlushCache_clean: "\<not> bDirty (snd (FlushCache vsi cf b))"
  by (simp add: FlushCache_eq)

lemma FlushCache_noop:
  "\<not> bDirty b \<Longrightarrow> cf b = (CE_None, b) \<Longrightarrow> FlushCache vsi cf b = (CE_None, b)"
  by (simp add: FlushCache_eq)

text \<open>
  Claim C6. \<open>FlushCache\<close>, for every behaviour of the flush of the block cache: the
  dirty flag is clear afterwards on every path; when the cache flush reports an error,
  that error is returned and the file is not touched; otherwise the file is flushed
  exactly when the dirty flag is set after the cache flush. Hence a second flush whose
  walk of the cache finds nothing to do changes nothing and calls nothing on the file.
\<close>

theorem FlushCache_policy:
  fixes b :: "('f, 'c) RawRasterBand" and vsi :: "'f VSIVirtualFile"
    and GDALRasterBand_FlushCache :: "('f, 'c) RawRasterBand \<Rightarrow> CPLErr \<times> ('f, 'c) RawRasterBand"
  defines "c \<equiv> GDALRasterBand_FlushCache b"
  defines "r \<equiv> FlushCache vsi GDALRasterBand_FlushCache b"
  shows "\<not> bDirty (snd r) \<and>
         (if fst c \<noteq> CE_None
          then fst r = fst c \<and> fileCalls (snd r) = fileCalls (snd c) \<and>
               fpRawL (snd r) = fpRawL (snd c)
          else if bDirty (snd c)
          then fileCalls (snd r) = fileCalls (snd c) @ [CallFlush] \<and>
               fpRawL (snd r) = snd (VSIFFlushL vsi (fpRawL (snd c))) \<and>
               fst r = (if fst (VSIFFlushL vsi (fpRawL (snd c))) < 0 then CE_Failure
                        else CE_None)
          else r = (CE_None, snd c)) \<and>
         (GDALRasterBand_FlushCache (snd r) = (CE_None, snd r) \<longrightarrow>
            FlushCache vsi GDALRasterBand_FlushCache (snd r) = (CE_None, snd r))"
proof (intro conjI impI)
  show "\<not> bDirty (snd r)" unfolding r_def by (rule FlushCache_clean)
  show "if fst c \<noteq> CE_None
          then fst r = fst c \<and> fileCalls (snd r) = fileCalls (snd c) \<and>
               fpRawL (snd r) = fpRawL (snd c)
          else if bDirty (snd c)
          then fileCalls (snd r) = fileCalls (snd c) @ [CallFlush] \<and>
               fpRawL (snd r) = snd (VSIFFlushL vsi (fpRawL (snd c))) \<and>
               fst r = (if fst (VSIFFlushL vsi (fpRawL (snd c))) < 0 then CE_Failure
                        else CE_None)
          else r = (CE_None, snd c)"
    unfolding r_def c_def by (simp add: FlushCache_eq)
next
  assume "GDALRasterBand_FlushCache (snd r) = (CE_None, snd r)"
  moreover have "\<not> bDirty (snd r)" unfolding r_def by (rule FlushCache_clean)
  ultimately show "FlushCache vsi GDALRasterBand_FlushCache (snd r) = (CE_None, snd r)"
    by (intro FlushCache_noop)
qed

lemma BlockCache_FlushCache_empty:
  "blockCache b = [] \<Longrightarrow> BlockCache_FlushCache vsi b = (CE_None, b)"
  by (simp add: BlockCache_FlushCache_def)

lemma ex_cached_fields:
  "ex_cached =
     \<lparr> fpRawL = \<lparr>mfData = [1, 2, 3, 4, 5, 6], mfPos = 0\<rparr>, nImgOffset = 0, nPixelOffset = 1,
       nLineOffset = 4, nLineSize = 4, bNativeOrder = 1, nLoadedScanline = - 1,
       pLineBuffer = Some [0, 0, 0, 0], pLineStart = 0, bDirty = False, bOwnsFP = False,
       poDS = None, nBand = 1, eDataType = GDT_Byte, eAccess = GA_ReadOnly,
       nRasterXSize = 4, nRasterYSize = 2, nBlockXSize = 4, nBlockYSize = 1,
       blockCache = [(1, [9, 8, 7, 6])], fileCalls = [], cplErrors = [] \<rparr>"
  by (simp add: ex_cached_def RawRasterBand_floating_def RawRasterBand_floating_init_def
      GDALCheckDatasetDimensions_def
      Initialize_def Initialize_line_def Initialize_pixel_def Initialize_buffer_def
      zero_malloc_def u64_mul_def u64_def u64_sub_def u64_add_def UINT64_MAX_def
      GINTBIG_MAX_def INT_MAX_def CPLError_def eval_nat_numeral)


lemma ex_cached_flush:
  "fst (BlockCache_FlushCache mem_vsi ex_cached) = CE_None"
  "bDirty (snd (BlockCache_FlushCache mem_vsi ex_cached))"
  "fileCalls (snd (BlockCache_FlushCache mem_vsi ex_cached))
     = [CallSeek 4 SEEK_SET, CallWrite [9, 8, 7, 6]]"
  "mfData (fpRawL (snd (BlockCache_FlushCache mem_vsi ex_cached))) = [1, 2, 3, 4, 9, 8, 7, 6]"
  by code_simp+

lemma ex_cached_flush_noseek:
  "fst (BlockCache_FlushCache noseek_vsi ex_cached) = CE_Failure"
  "fileCalls (snd (BlockCache_FlushCache noseek_vsi ex_cached)) = [CallSeek 4 SEEK_SET]"
  by code_simp+

lemma BlockCache_FlushCache_cache [simp]:
  "blockCache (snd (BlockCache_FlushCache vsi b)) = []"
  by (simp add: BlockCache_FlushCache_def split_beta)

lemma FlushCache_cache:
  "blockCache (snd (FlushCache vsi cf b)) = blockCache (snd (cf b))"
  by (simp add: FlushCache_eq)

theorem FlushCache_policy_witness:
  "fst (FlushCache mem_vsi (BlockCache_FlushCache mem_vsi) ex_cached) = CE_None \<and>
   \<not> bDirty (snd (FlushCache mem_vsi (BlockCache_FlushCache mem_vsi) ex_cached)) \<and>
   fileCalls (snd (FlushCache mem_vsi (BlockCache_FlushCache mem_vsi) ex_cached))
     = [CallSeek 4 SEEK_SET, CallWrite [9, 8, 7, 6], CallFlush] \<and>
   FlushCache mem_vsi (BlockCache_FlushCache mem_vsi)
       (snd (FlushCache mem_vsi (BlockCache_FlushCache mem_vsi) ex_cached))
     = (CE_None, snd (FlushCache mem_vsi (BlockCache_FlushCache mem_vsi) ex_cached)) \<and>
   fst (FlushCache noseek_vsi (BlockCache_FlushCache noseek_vsi) ex_cached) = CE_Failure \<and>
   \<not> bDirty (snd (FlushCache noseek_vsi (BlockCache_FlushCache noseek_vsi) ex_cached)) \<and>
   fileCalls (snd (FlushCache noseek_vsi (BlockCache_FlushCache noseek_vsi) ex_cached))
     = [CallSeek 4 SEEK_SET]"
proof -
  let ?r = "FlushCache mem_vsi (BlockCache_FlushCache mem_vsi) ex_cached"
  have e: "BlockCache_FlushCache mem_vsi (snd ?r) = (CE_None, snd ?r)"
    by (rule BlockCache_FlushCache_empty) (simp add: FlushCache_cache)
  have fl: "\<And>f. fst (VSIFFlushL mem_vsi f) = 0" by (simp add: mem_vsi_def)
  have 1: "fst ?r = CE_None \<and> \<not> bDirty (snd ?r) \<and>
      fileCalls (snd ?r) = [CallSeek 4 SEEK_SET, CallWrite [9, 8, 7, 6], CallFlush] \<and>
      FlushCache mem_vsi (BlockCache_FlushCache mem_vsi) (snd ?r) = (CE_None, snd ?r)"
    using FlushCache_policy[where vsi = mem_vsi and b = ex_cached
        and GDALRasterBand_FlushCache = "BlockCache_FlushCache mem_vsi"] e
    by (simp add: ex_cached_flush fl)
  have 2: "fst (FlushCache noseek_vsi (BlockCache_FlushCache noseek_vsi) ex_cached) = CE_Failure \<and>
   \<not> bDirty (snd (FlushCache noseek_vsi (BlockCache_FlushCache noseek_vsi) ex_cached)) \<and>
   fileCalls (snd (FlushCache noseek_vsi (BlockCache_FlushCache noseek_vsi) ex_cached))
     = [CallSeek 4 SEEK_SET]"
    using FlushCache_policy[where vsi = noseek_vsi and b = ex_cached
        and GDALRasterBand_FlushCache = "BlockCache_FlushCache noseek_vsi"]
    by (simp add: ex_cached_flush_noseek)
  from 1 2 show ?thesis by simp
qed


subsection \<open>Reading a line back after writing it\<close>

text \<open>
  Claim C3 says that \<open>read_block(y)\<close> after \<open>write_block(y, src)\<close> returns \<open>src\<close>
  without a read from the file. On the floating band of 4 by 2 bytes (pixels
  contiguous, so \<open>IWriteBlock\<close> does not call \<open>AccessLine\<close>) the write of line 1
  succeeds and leaves \<open>nLoadedScanline\<close> at -1; the read of line 1 that follows returns
  the written values, but after a seek and a read on the file. The same omission makes
  the buffer stale: after line 0 has been read, the write of line 1 leaves the buffer
  holding line 1 under the line number 0, and the next read of line 0 returns line 1.
\<close>

theorem IWriteBlock_then_IReadBlock_reads_file:
  "fst (IWriteBlock mem_vsi 1 [9, 8, 7, 6] ex_floating) = CE_None \<and>
   nLoadedScanline (snd (IWriteBlock mem_vsi 1 [9, 8, 7, 6] ex_floating)) = - 1 \<and>
   fst (snd (IReadBlock mem_vsi 1 [0, 0, 0, 0]
               (snd (IWriteBlock mem_vsi 1 [9, 8, 7, 6] ex_floating)))) = [9, 8, 7, 6] \<and>
   fileCalls (snd (snd (IReadBlock mem_vsi 1 [0, 0, 0, 0]
                          (snd (IWriteBlock mem_vsi 1 [9, 8, 7, 6] ex_floating)))))
     = [CallSeek 4 SEEK_SET, CallWrite [9, 8, 7, 6], CallSeek 4 SEEK_SET, CallRead 4] \<and>
   fst (snd (IReadBlock mem_vsi 0 [0, 0, 0, 0] ex_floating)) = [1, 2, 3, 4] \<and>
   fst (snd (IReadBlock mem_vsi 0 [0, 0, 0, 0]
               (snd (IWriteBlock mem_vsi 1 [9, 8, 7, 6]
                       (snd (snd (IReadBlock mem_vsi 0 [0, 0, 0, 0] ex_floating)))))))
     = [9, 8, 7, 6]"
  by code_simp

subsection \<open>Input and output on a band without a line buffer\<close>

lemma IReadBlock_null:
  "pLineBuffer b = None \<Longrightarrow> IReadBlock vsi nBlockYOff pImage b = (CE_Failure, pImage, b)"
  by (simp add: IReadBlock_def)

text \<open>
  Claim C7 says that every operation on a band whose construction failed returns failure
  and performs no file access. \<open>AccessLine\<close>, \<open>IReadBlock\<close> and \<open>IWriteBlock\<close> test
  the line buffer first (\<open>AccessLine_null\<close>, \<open>IReadBlock_null\<close>,
  \<open>IWriteBlock_null\<close>); \<open>IRasterIO\<close> does not. With \<open>GDAL_ONE_BIG_READ=YES\<close> the
  gate is open, and on the band whose construction failed a windowed read seeks and
  reads the file and returns success with the file's bytes, and a windowed write
  overwrites the file and returns success.
\<close>

theorem IRasterIO_null_buffer_accesses_file:
  "pLineBuffer ex_failed = None \<and>
   map_option fst
     (IRasterIO mem_vsi (ex_framework ex_big_read) GF_Read 0 0 4 1 [0, 0, 0, 0] 4 1 GDT_Byte
        1 4 ex_nearest ex_failed) = Some CE_None \<and>
   map_option (\<lambda>r. fst (snd r))
     (IRasterIO mem_vsi (ex_framework ex_big_read) GF_Read 0 0 4 1 [0, 0, 0, 0] 4 1 GDT_Byte
        1 4 ex_nearest ex_failed) = Some [1, 2, 3, 4] \<and>
   map_option (\<lambda>r. fileCalls (snd (snd r)))
     (IRasterIO mem_vsi (ex_framework ex_big_read) GF_Read 0 0 4 1 [0, 0, 0, 0] 4 1 GDT_Byte
        1 4 ex_nearest ex_failed) = Some [CallSeek 0 SEEK_SET, CallRead 4] \<and>
   map_option fst
     (IRasterIO mem_vsi (ex_framework ex_big_read) GF_Write 0 0 4 1 [9, 9, 9, 9] 4 1 GDT_Byte
        1 4 ex_nearest ex_failed) = Some CE_None \<and>
   map_option (\<lambda>r. mfData (fpRawL (snd (snd r))))
     (IRasterIO mem_vsi (ex_framework ex_big_read) GF_Write 0 0 4 1 [9, 9, 9, 9] 4 1 GDT_Byte
        1 4 ex_nearest ex_failed) = Some [9, 9, 9, 9, 5, 6]"
  by code_simp


subsection \<open>The gate of the direct path\<close>

lemma c_quot_nonneg: "0 \<le> a \<Longrightarrow> 0 < b \<Longrightarrow> c_quot a b = a div b"
  by (cases "a = 0") (simp_all add: c_quot_def)

lemma upto_filter_step:
  "i < e \<Longrightarrow> filter P [i..e - 1] = (if P i then [i] else []) @ filter P [i + 1..e - 1]"
  by (subst upto_rec1) simp_all

lemma IsSignificantNumberOfLinesLoaded_loop_count:
  assumes "0 \<le> nLines" "nCountLoaded \<le> nLines div 20"
  shows "IsSignificantNumberOfLinesLoaded_loop cached iLine nEnd nLines nCountLoaded =
         (nLines div 20 < nCountLoaded + int (length (filter cached [iLine..nEnd - 1])))"
  using assms
proof (induction cached iLine nEnd nLines nCountLoaded
       rule: IsSignificantNumberOfLinesLoaded_loop.induct)
  case (1 cached iLine nEnd nLines nCountLoaded)
  have q: "c_quot nLines 20 = nLines div 20" using "1.prems" by (simp add: c_quot_nonneg)
  show ?case
  proof (cases "iLine < nEnd")
    case False
    then show ?thesis
      using "1.prems" by (subst IsSignificantNumberOfLinesLoaded_loop.simps) simp
  next
    case True
    note st = upto_filter_step[OF True, of cached]
    show ?thesis
    proof (cases "cached iLine")
      case c: True
      show ?thesis
      proof (cases "nCountLoaded + 1 > nLines div 20")
        case True
        then show ?thesis
          using \<open>iLine < nEnd\<close> c
          by (subst IsSignificantNumberOfLinesLoaded_loop.simps) (simp add: q st)
      next
        case False
        then have le: "nCountLoaded + 1 \<le> nLines div 20" by simp
        have "IsSignificantNumberOfLinesLoaded_loop cached (iLine + 1) nEnd nLines
                (nCountLoaded + 1) =
              (nLines div 20 < nCountLoaded + 1 + int (length (filter cached [iLine + 1..nEnd - 1])))"
          using "1.IH"(1)[OF \<open>iLine < nEnd\<close> c _ "1.prems"(1) le] False by (simp add: q)
        then show ?thesis
          using \<open>iLine < nEnd\<close> c False
          by (subst IsSignificantNumberOfLinesLoaded_loop.simps) (simp add: q st add.assoc)
      qed
    next
      case c: False
      have "IsSignificantNumberOfLinesLoaded_loop cached (iLine + 1) nEnd nLines nCountLoaded =
              (nLines div 20 < nCountLoaded + int (length (filter cached [iLine + 1..nEnd - 1])))"
        using "1.IH"(2)[OF \<open>iLine < nEnd\<close> c "1.prems"] .
      then show ?thesis
        using \<open>iLine < nEnd\<close> c
        by (subst IsSignificantNumberOfLinesLoaded_loop.simps) (simp add: st)
    qed
  qed
qed

lemma IsSignificantNumberOfLinesLoaded_count:
  "IsSignificantNumberOfLinesLoaded fw nLineOff nLines b =
     (0 < nLines \<and> nLines < 20 * cached_lines fw nLineOff nLines b)"
proof (cases "0 < nLines")
  case False
  then show ?thesis
    unfolding IsSignificantNumberOfLinesLoaded_def
    by (subst IsSignificantNumberOfLinesLoaded_loop.simps) simp
next
  case True
  then have "IsSignificantNumberOfLinesLoaded fw nLineOff nLines b =
      (nLines div 20 < cached_lines fw nLineOff nLines b)"
    unfolding IsSignificantNumberOfLinesLoaded_def cached_lines_def
    by (subst IsSignificantNumberOfLinesLoaded_loop_count) simp_all
  also have "\<dots> = (nLines < 20 * cached_lines fw nLineOff nLines b)"
    using True by linarith
  finally show ?thesis using True by simp
qed


lemma CanUseDirectIO_unset:
  assumes "0 \<le> nPixelOffset b" "eResampleAlg psExtraArg = GRIORA_NearestNeighbour"
    and "CPLGetConfigOption fw ''GDAL_ONE_BIG_READ'' = None"
  shows "CanUseDirectIO fw nYOff nXSize nYSize psExtraArg b =
    (if 50000 \<le> nLineSize b \<and> nPixelOffset b = 0 then None
     else Some (\<not> (nLineSize b < 50000 \<or>
                    nXSize > nLineSize b div nPixelOffset b div 5 * 2 \<or>
                    (0 < nYSize \<and> nYSize < 20 * cached_lines fw nYOff nYSize b))))"
proof (cases "nLineSize b < 50000")
  case True
  then show ?thesis using assms by (simp add: CanUseDirectIO_def)
next
  case False
  show ?thesis
  proof (cases "nPixelOffset b = 0")
    case True
    then show ?thesis using assms False by (simp add: CanUseDirectIO_def c_div_def)
  next
    case nz: False
    then have p: "0 < nPixelOffset b" using assms by simp
    have q: "c_quot (nLineSize b) (nPixelOffset b) = nLineSize b div nPixelOffset b"
      using False p by (intro c_quot_nonneg) simp_all
    have "0 \<le> nLineSize b div nPixelOffset b" using False p by (simp add: pos_imp_zdiv_nonneg_iff)
    then have q5: "c_quot (nLineSize b div nPixelOffset b) 5 = nLineSize b div nPixelOffset b div 5"
      by (intro c_quot_nonneg) simp_all
    show ?thesis
      using assms False nz
      by (simp add: CanUseDirectIO_def c_div_def q q5 IsSignificantNumberOfLinesLoaded_count)
  qed
qed

text \<open>
  Claim C4, as amended. \<open>CanUseDirectIO\<close> refuses for a negative pixel stride and for
  a resampling other than nearest-neighbour. Otherwise a set \<open>GDAL_ONE_BIG_READ\<close>
  decides by its truth value, and with the option unset the answer is no exactly when
  the line has fewer than 50000 bytes, or \<open>nXSize\<close> exceeds
  \<open>((nLineSize / nPixelOffset) / 5) * 2\<close> in integer division, or more than 5% of the
  requested lines are in the block cache. The division traps for a zero pixel stride
  under a line of 50000 bytes or more, which the line size that \<open>Initialize\<close> computes
  excludes.
\<close>

theorem CanUseDirectIO_gate:
  fixes b :: "('f, 'c) RawRasterBand" and fw :: "('f, 'c) Framework"
    and nYOff nXSize nYSize :: int and psExtraArg :: GDALRasterIOExtraArg
  defines "r \<equiv> CanUseDirectIO fw nYOff nXSize nYSize psExtraArg b"
  shows "(nPixelOffset b < 0 \<or> eResampleAlg psExtraArg \<noteq> GRIORA_NearestNeighbour \<longrightarrow>
            r = Some False) \<and>
         (0 \<le> nPixelOffset b \<and> eResampleAlg psExtraArg = GRIORA_NearestNeighbour \<longrightarrow>
            (case CPLGetConfigOption fw ''GDAL_ONE_BIG_READ'' of
               Some v \<Rightarrow> r = Some (CPLTestBool fw v)
             | None \<Rightarrow>
                 if 50000 \<le> nLineSize b \<and> nPixelOffset b = 0 then r = None
                 else r = Some (\<not> (nLineSize b < 50000 \<or>
                                    nXSize > nLineSize b div nPixelOffset b div 5 * 2 \<or>
                                    (0 < nYSize \<and>
                                     nYSize < 20 * cached_lines fw nYOff nYSize b))))) \<and>
         (nLineSize b = \<bar>nPixelOffset b\<bar> * (nBlockXSize b - 1)
                          + GDALGetDataTypeSizeBytes (eDataType b) \<longrightarrow>
            \<not> (50000 \<le> nLineSize b \<and> nPixelOffset b = 0))"
proof (intro conjI impI)
  assume "nPixelOffset b < 0 \<or> eResampleAlg psExtraArg \<noteq> GRIORA_NearestNeighbour"
  then show "r = Some False" unfolding r_def by (auto simp: CanUseDirectIO_def)
next
  assume a: "0 \<le> nPixelOffset b \<and> eResampleAlg psExtraArg = GRIORA_NearestNeighbour"
  show "case CPLGetConfigOption fw ''GDAL_ONE_BIG_READ'' of
               Some v \<Rightarrow> r = Some (CPLTestBool fw v)
             | None \<Rightarrow>
                 if 50000 \<le> nLineSize b \<and> nPixelOffset b = 0 then r = None
                 else r = Some (\<not> (nLineSize b < 50000 \<or>
                                    nXSize > nLineSize b div nPixelOffset b div 5 * 2 \<or>
                                    (0 < nYSize \<and>
                                     nYSize < 20 * cached_lines fw nYOff nYSize b)))"
  proof (cases "CPLGetConfigOption fw ''GDAL_ONE_BIG_READ''")
    case None
    from a have p: "0 \<le> nPixelOffset b" and e: "eResampleAlg psExtraArg = GRIORA_NearestNeighbour"
      by simp_all
    show ?thesis unfolding r_def CanUseDirectIO_unset[OF p e None] using None by simp
  next
    case (Some v)
    then show ?thesis using a unfolding r_def by (simp add: CanUseDirectIO_def)
  qed
next
  assume l: "nLineSize b = \<bar>nPixelOffset b\<bar> * (nBlockXSize b - 1)
                          + GDALGetDataTypeSizeBytes (eDataType b)"
  have "GDALGetDataTypeSizeBytes (eDataType b) \<le> 16" by (cases "eDataType b") simp_all
  then show "\<not> (50000 \<le> nLineSize b \<and> nPixelOffset b = 0)" using l by auto
qed

lemma ex_sparse_fields:
  "nLineSize ex_sparse = 54001" "nPixelOffset ex_sparse = 6000" "blockCache ex_sparse = ()"
  "nBlockXSize ex_sparse = 10" "eDataType ex_sparse = GDT_Byte"
  by (simp_all add: ex_sparse_def RawRasterBand_floating_def RawRasterBand_floating_init_def
      GDALCheckDatasetDimensions_def
      Initialize_def Initialize_line_def Initialize_pixel_def Initialize_buffer_def
      zero_malloc_def u64_mul_def u64_def u64_sub_def u64_add_def UINT64_MAX_def
      GINTBIG_MAX_def INT_MAX_def CPLError_def)

lemma ex_framework_fields:
  "CPLGetConfigOption (ex_framework options) = options"
  "TryGetLockedBlockRef (ex_framework options) = (\<lambda>cache nXBlockOff nYBlockOff. False)"
  "CPLTestBool (ex_framework options) ''YES''"
  "\<not> CPLTestBool (ex_framework options) ''NO''"
  by (simp_all add: ex_framework_def)

lemma ex_cached_lines: "cached_lines (ex_framework options) nLineOff nLines b = 0"
  by (simp add: cached_lines_def ex_framework_fields)

theorem CanUseDirectIO_counterexample:
  "CanUseDirectIO (ex_framework ex_no_options) 0 3 1 ex_nearest ex_sparse = Some False \<and>
   CanUseDirectIO_spec (ex_framework ex_no_options) 0 3 1 ex_nearest ex_sparse \<and>
   \<not> 3 > nLineSize ex_sparse div nPixelOffset ex_sparse * 2 div 5"
  by (simp add: CanUseDirectIO_unset CanUseDirectIO_spec_def ex_sparse_fields
      ex_framework_fields ex_cached_lines ex_no_options_def ex_nearest_def)

theorem CanUseDirectIO_gate_witness:
  "CanUseDirectIO (ex_framework ex_no_options) 0 2 1 ex_nearest ex_sparse = Some True \<and>
   CanUseDirectIO (ex_framework ex_no_options) 0 3 1 ex_nearest ex_sparse = Some False \<and>
   CanUseDirectIO (ex_framework ex_big_read) 0 3 1 ex_nearest ex_sparse = Some True \<and>
   CanUseDirectIO (ex_framework ex_big_read) 0 3 1 ex_nearest
     (Initialize zero_malloc ex_reversed_init) = Some False \<and>
   CanUseDirectIO (ex_framework ex_big_read) 0 3 1
     (ex_nearest\<lparr>eResampleAlg := GRIORA_Bilinear\<rparr>) ex_sparse = Some False"
proof -
  have 1: "CanUseDirectIO (ex_framework ex_no_options) 0 2 1 ex_nearest ex_sparse = Some True"
    using CanUseDirectIO_gate[where b = ex_sparse and psExtraArg = ex_nearest
        and fw = "ex_framework ex_no_options" and nYOff = 0 and nXSize = 2 and nYSize = 1]
    by (simp add: ex_sparse_fields ex_framework_fields ex_cached_lines ex_no_options_def
        ex_nearest_def)
  have 2: "CanUseDirectIO (ex_framework ex_no_options) 0 3 1 ex_nearest ex_sparse = Some False"
    using CanUseDirectIO_gate[where b = ex_sparse and psExtraArg = ex_nearest
        and fw = "ex_framework ex_no_options" and nYOff = 0 and nXSize = 3 and nYSize = 1]
    by (simp add: ex_sparse_fields ex_framework_fields ex_cached_lines ex_no_options_def
        ex_nearest_def)
  have 3: "CanUseDirectIO (ex_framework ex_big_read) 0 3 1 ex_nearest ex_sparse = Some True"
    using CanUseDirectIO_gate[where b = ex_sparse and psExtraArg = ex_nearest
        and fw = "ex_framework ex_big_read" and nYOff = 0 and nXSize = 3 and nYSize = 1]
    by (simp add: ex_sparse_fields ex_framework_fields ex_big_read_def ex_nearest_def)
  have 4: "CanUseDirectIO (ex_framework ex_big_read) 0 3 1 ex_nearest
     (Initialize zero_malloc ex_reversed_init) = Some False"
    using CanUseDirectIO_gate[where b = "Initialize zero_malloc ex_reversed_init" and psExtraArg = ex_nearest
        and fw = "ex_framework ex_big_read" and nYOff = 0 and nXSize = 3 and nYSize = 1]
    by (simp add: Initialize_fields ex_reversed_init_def RawRasterBand_floating_init_def)
  have 5: "CanUseDirectIO (ex_framework ex_big_read) 0 3 1
     (ex_nearest\<lparr>eResampleAlg := GRIORA_Bilinear\<rparr>) ex_sparse = Some False"
    using CanUseDirectIO_gate[where b = ex_sparse and psExtraArg = "ex_nearest\<lparr>eResampleAlg := GRIORA_Bilinear\<rparr>"
        and fw = "ex_framework ex_big_read" and nYOff = 0 and nXSize = 3 and nYSize = 1]
    by simp
  from 1 2 3 4 5 show ?thesis by simp
qed

subsection \<open>The sanity check before opening\<close>

lemma CPLSM_add_Some:
  "CPLSM_add (Some x) (Some y) = (if x + y > UINT64_MAX then None else Some (x + y))"
  by (simp add: CPLSM_add_def)

lemma CPLSM_add_None [simp]: "CPLSM_add None b = None"
  by (simp add: CPLSM_add_def)

lemma CPLSM_add_None2 [simp]: "CPLSM_add a None = None"
  by (simp add: CPLSM_add_def split: option.splits)

lemma CPLSM_mul_Some:
  "CPLSM_mul (Some x) (Some y) = (if x * y > UINT64_MAX then None else Some (x * y))"
  by (simp add: CPLSM_mul_def)

lemma u64_of_u64: "is_u64 x \<Longrightarrow> u64 x = x"
  by (simp add: is_u64_def u64_def)

lemma u64_of_nonneg_int32: "is_int32 x \<Longrightarrow> 0 \<le> x \<Longrightarrow> u64 x = x"
  by (simp add: is_int32_def u64_def)

lemma nExpectedFileSize_exact:
  assumes t: "is_int32 nXSize" "is_int32 nYSize" "is_int32 nBandCount" "is_int32 p" "is_int32 l"
      "is_u64 nHeaderSize" "is_u64 nBandOffset"
    and d: "1 \<le> nXSize" "1 \<le> nYSize" "1 \<le> nBandCount"
  shows "nExpectedFileSize nXSize nYSize nBandCount p l nHeaderSize nBandOffset =
    (if expected_size_spec nXSize nYSize nBandCount p l nHeaderSize nBandOffset > UINT64_MAX
     then None
     else Some (expected_size_spec nXSize nYSize nBandCount p l nHeaderSize nBandOffset))"
proof -
  define t1 where "t1 = nBandOffset * (nBandCount - 1)"
  define t2 where "t2 = (if l \<ge> 0 then (nYSize - 1) * l else 0)"
  define t3 where "t3 = (if p \<ge> 0 then (nXSize - 1) * p else 0)"
  have u: "u64 nHeaderSize = nHeaderSize" "u64 nBandOffset = nBandOffset"
    "u64 (nBandCount - 1) = nBandCount - 1" "u64 (nYSize - 1) = nYSize - 1"
    "u64 (nXSize - 1) = nXSize - 1" "u64 0 = 0"
    using t d by (simp_all add: is_u64_def is_int32_def u64_def)
  have ul: "l \<ge> 0 \<Longrightarrow> u64 l = l" and up: "p \<ge> 0 \<Longrightarrow> u64 p = p"
    using t by (simp_all add: u64_of_nonneg_int32)
  have t1: "0 \<le> t1" using t d by (simp add: t1_def is_u64_def)
  have b2: "0 \<le> t2 \<and> t2 \<le> 4611686018427387904"
  proof (cases "l \<ge> 0")
    case True
    then show ?thesis unfolding t2_def using t d
      by (simp add: is_int32_def mul31_bound)
  next
    case False
    then show ?thesis by (simp add: t2_def)
  qed
  have b3: "0 \<le> t3 \<and> t3 \<le> 4611686018427387904"
  proof (cases "p \<ge> 0")
    case True
    then show ?thesis unfolding t3_def using t d
      by (simp add: is_int32_def mul31_bound)
  next
    case False
    then show ?thesis by (simp add: t3_def)
  qed
  have m2: "(if l \<ge> 0 then CPLSM_mul (CPLSM (u64 (nYSize - 1))) (CPLSM (u64 l)) else CPLSM (u64 0))
      = Some t2"
    using b2 unfolding t2_def
    by (cases "l \<ge> 0") (simp_all add: CPLSM_def CPLSM_mul_Some u ul UINT64_MAX_def)
  have m3: "(if p \<ge> 0 then CPLSM_mul (CPLSM (u64 (nXSize - 1))) (CPLSM (u64 p)) else CPLSM (u64 0))
      = Some t3"
    using b3 unfolding t3_def
    by (cases "p \<ge> 0") (simp_all add: CPLSM_def CPLSM_mul_Some u up UINT64_MAX_def)
  have m1: "CPLSM_mul (CPLSM (u64 nBandOffset)) (CPLSM (u64 (nBandCount - 1)))
      = (if t1 > UINT64_MAX then None else Some t1)"
    by (simp add: CPLSM_def CPLSM_mul_Some u t1_def)
  have h: "0 \<le> nHeaderSize" using t by (simp add: is_u64_def)
  have E: "expected_size_spec nXSize nYSize nBandCount p l nHeaderSize nBandOffset
      = nHeaderSize + t1 + t2 + t3"
    by (simp add: expected_size_spec_def t1_def t2_def t3_def mult.commute)
  show ?thesis
    unfolding nExpectedFileSize_def m1 m2 m3 E
    using t1 b2 b3 h by (simp add: CPLSM_def CPLSM_add_Some u UINT64_MAX_def)
qed

lemma CheckFileSize_eq:
  "CheckFileSize fw nXSize nBandCount p =
    (case CPLGetConfigOption fw ''RAW_CHECK_FILE_SIZE'' of
       None \<Rightarrow> nBandCount > 10 \<or> u64_mul (u64 p) (u64 nXSize) > 20000
     | Some v \<Rightarrow> CPLTestBool fw v)"
  by (auto simp: CheckFileSize_def Let_def split: option.splits)

lemma pixel_trigger:
  assumes "is_int32 p" "is_int32 nXSize" "1 \<le> nXSize"
  shows "(u64_mul (u64 p) (u64 nXSize) > 20000) = (p < 0 \<or> p * nXSize > 20000)"
proof (cases "p < 0")
  case False
  then have "u64_mul (u64 p) (u64 nXSize) = p * nXSize"
    using assms by (intro u64_mul_small) (simp_all add: is_int32_def)
  then show ?thesis using False by simp
next
  case True
  have "u64_mul (u64 p) (u64 nXSize) = u64_mul (u64 nXSize) (u64 p)"
    by (simp add: u64_mul_def mult.commute)
  also have "\<dots> = 18446744073709551616 + nXSize * p"
    using assms True by (intro u64_mul_neg) (simp_all add: is_int32_def)
  finally have e: "u64_mul (u64 p) (u64 nXSize) = 18446744073709551616 + nXSize * p" .
  have "nXSize * (- p) \<le> 2147483648 * 2147483648"
    using assms True by (intro mult_mono) (simp_all add: is_int32_def)
  then show ?thesis using True by (simp add: e)
qed

lemma TooMuchMemory_eq:
  "TooMuchMemory nXSize nBandCount nDTSize p =
    (1 \<le> nBandCount \<and> \<bar>p\<bar> * (nXSize - 1) + nDTSize > INT_MAX div (4 * nBandCount))"
proof (cases "1 \<le> nBandCount")
  case False
  then show ?thesis by (simp add: TooMuchMemory_def)
next
  case True
  have "c_quot INT_MAX 4 = INT_MAX div 4" by (intro c_quot_nonneg) (simp_all add: INT_MAX_def)
  moreover have "c_quot (INT_MAX div 4) nBandCount = INT_MAX div 4 div nBandCount"
    using True by (intro c_quot_nonneg) (simp_all add: INT_MAX_def)
  moreover have "INT_MAX div 4 div nBandCount = INT_MAX div (4 * nBandCount)"
    using True by (simp add: zdiv_zmult2_eq)
  ultimately show ?thesis using True by (simp add: TooMuchMemory_def)
qed


lemma RAWDatasetCheckMemoryUsage_unchecked:
  assumes "\<not> CheckFileSize fw nXSize nBandCount p"
  shows "RAWDatasetCheckMemoryUsage vsi fw nXSize nYSize nBandCount nDTSize p l nHeaderSize
           nBandOffset fp =
         (if TooMuchMemory nXSize nBandCount nDTSize p
          then (False, fp, [(CE_Failure, CPLE_OutOfMemory)]) else (True, fp, []))"
  using assms by (simp add: RAWDatasetCheckMemoryUsage_def)

lemma RAWDatasetCheckMemoryUsage_checked:
  assumes "CheckFileSize fw nXSize nBandCount p"
    and "nExpectedFileSize nXSize nYSize nBandCount p l nHeaderSize nBandOffset = Some E"
  shows "RAWDatasetCheckMemoryUsage vsi fw nXSize nYSize nBandCount nDTSize p l nHeaderSize
           nBandOffset fp =
         (if u64 (VSIFTellL vsi (snd (VSIFSeekL vsi fp 0 SEEK_END))) < E div 2
          then (False, snd (VSIFSeekL vsi fp 0 SEEK_END), [(CE_Failure, CPLE_AppDefined)])
          else if TooMuchMemory nXSize nBandCount nDTSize p
          then (False, snd (VSIFSeekL vsi fp 0 SEEK_END), [(CE_Failure, CPLE_OutOfMemory)])
          else (True, snd (VSIFSeekL vsi fp 0 SEEK_END), []))"
  using assms by (simp add: RAWDatasetCheckMemoryUsage_def)

lemma RAWDatasetCheckMemoryUsage_overflow:
  assumes "CheckFileSize fw nXSize nBandCount p"
    and "nExpectedFileSize nXSize nYSize nBandCount p l nHeaderSize nBandOffset = None"
  shows "RAWDatasetCheckMemoryUsage vsi fw nXSize nYSize nBandCount nDTSize p l nHeaderSize
           nBandOffset fp = (False, fp, [(CE_Failure, CPLE_AppDefined)])"
  using assms by (simp add: RAWDatasetCheckMemoryUsage_def)

text \<open>
  Claim C8, as amended. For a dataset of at least one band, a pixel stride of at
  least \<open>- INT_MAX\<close> (the absolute value of \<open>INT_MIN\<close> is undefined in the source), and \<open>R\<close> the result of the check:
  \<^item> if the scanline size \<open>|pixel_stride| * (width - 1) + dt_size\<close> exceeds
    \<open>INT_MAX div (4 * nBands)\<close>, the verdict is a rejection;
  \<^item> the file is left either as it was or positioned at its end, and nothing else is
    touched;
  \<^item> for 32 bit sizes and strides, 64 bit header size and band stride, a width and a
    height of at least one: the size check runs exactly when the option
    \<open>RAW_CHECK_FILE_SIZE\<close> is set to a true value, or is unset and \<open>nBands > 10\<close> or the
    pixel stride is negative or \<open>pixel_stride * width > 20000\<close>; an option set to a false
    value switches it off. When it runs, the verdict is a rejection exactly when the
    expected size does not fit in 64 bits, or the file size is less than half of the
    expected size, or the scanline size is too large, and in the first two cases the
    error is the application-defined one; when it does not run, the verdict is a
    rejection exactly when the scanline size is too large, and the file is untouched.
\<close>

theorem RAWDatasetCheckMemoryUsage_verdict:
  fixes vsi :: "'f VSIVirtualFile" and fw :: "('f, 'c) Framework"
    and nXSize nYSize nBandCount nDTSize p l nHeaderSize nBandOffset :: int and fp :: 'f
  assumes nb: "1 \<le> nBandCount" and pmin: "- INT_MAX \<le> p"
  defines "R \<equiv> RAWDatasetCheckMemoryUsage vsi fw nXSize nYSize nBandCount nDTSize p l
                  nHeaderSize nBandOffset fp"
    and "atEnd \<equiv> snd (VSIFSeekL vsi fp 0 SEEK_END)"
    and "E \<equiv> expected_size_spec nXSize nYSize nBandCount p l nHeaderSize nBandOffset"
    and "tooMuch \<equiv> \<bar>p\<bar> * (nXSize - 1) + nDTSize > INT_MAX div (4 * nBandCount)"
    and "runs \<equiv> (case CPLGetConfigOption fw ''RAW_CHECK_FILE_SIZE'' of
                    None \<Rightarrow> nBandCount > 10 \<or> p < 0 \<or> p * nXSize > 20000
                  | Some v \<Rightarrow> CPLTestBool fw v)"
  shows "(tooMuch \<longrightarrow> \<not> fst R) \<and>
         (fst (snd R) = fp \<or> fst (snd R) = atEnd) \<and>
         (is_int32 nXSize \<and> is_int32 nYSize \<and> is_int32 nBandCount \<and> is_int32 p \<and> is_int32 l \<and>
          is_u64 nHeaderSize \<and> is_u64 nBandOffset \<and> 1 \<le> nXSize \<and> 1 \<le> nYSize \<longrightarrow>
          (runs \<longrightarrow>
             (\<not> fst R \<longleftrightarrow> UINT64_MAX < E \<or> u64 (VSIFTellL vsi atEnd) < E div 2 \<or> tooMuch) \<and>
             (UINT64_MAX < E \<or> u64 (VSIFTellL vsi atEnd) < E div 2 \<longrightarrow>
                snd (snd R) = [(CE_Failure, CPLE_AppDefined)]) \<and>
             (\<not> UINT64_MAX < E \<longrightarrow> fst (snd R) = atEnd)) \<and>
          (\<not> runs \<longrightarrow> (\<not> fst R \<longleftrightarrow> tooMuch) \<and> fst (snd R) = fp))"
proof -
  have tm: "TooMuchMemory nXSize nBandCount nDTSize p = tooMuch"
    using nb by (simp add: TooMuchMemory_eq tooMuch_def)
  have c1: "tooMuch \<longrightarrow> \<not> fst R"
    unfolding R_def RAWDatasetCheckMemoryUsage_def
    by (simp add: tm split: option.splits)
  have c2: "fst (snd R) = fp \<or> fst (snd R) = atEnd"
    unfolding R_def RAWDatasetCheckMemoryUsage_def atEnd_def
    by (simp split: option.splits)
  have c3: "(runs \<longrightarrow>
             (\<not> fst R \<longleftrightarrow> UINT64_MAX < E \<or> u64 (VSIFTellL vsi atEnd) < E div 2 \<or> tooMuch) \<and>
             (UINT64_MAX < E \<or> u64 (VSIFTellL vsi atEnd) < E div 2 \<longrightarrow>
                snd (snd R) = [(CE_Failure, CPLE_AppDefined)]) \<and>
             (\<not> UINT64_MAX < E \<longrightarrow> fst (snd R) = atEnd)) \<and>
          (\<not> runs \<longrightarrow> (\<not> fst R \<longleftrightarrow> tooMuch) \<and> fst (snd R) = fp)"
    if t: "is_int32 nXSize" "is_int32 nYSize" "is_int32 nBandCount" "is_int32 p" "is_int32 l"
      "is_u64 nHeaderSize" "is_u64 nBandOffset" and d: "1 \<le> nXSize" "1 \<le> nYSize"
  proof -
    have tr: "(u64_mul (u64 p) (u64 nXSize) > 20000) = (p < 0 \<or> p * nXSize > 20000)"
      using t d by (intro pixel_trigger)
    have cf: "CheckFileSize fw nXSize nBandCount p = runs"
      unfolding CheckFileSize_eq runs_def tr ..
    have ex: "nExpectedFileSize nXSize nYSize nBandCount p l nHeaderSize nBandOffset =
        (if E > UINT64_MAX then None else Some E)"
      unfolding E_def using t d nb by (intro nExpectedFileSize_exact)
    show ?thesis
    proof (cases runs)
      case False
      then show ?thesis
        unfolding R_def using cf
        by (simp add: RAWDatasetCheckMemoryUsage_unchecked tm)
    next
      case True
      show ?thesis
      proof (cases "E > UINT64_MAX")
        case over: True
        then have "R = (False, fp, [(CE_Failure, CPLE_AppDefined)])"
          unfolding R_def using cf True ex
          by (intro RAWDatasetCheckMemoryUsage_overflow) simp_all
        then show ?thesis using True over by simp
      next
        case fits: False
        then have "R = (if u64 (VSIFTellL vsi atEnd) < E div 2
          then (False, atEnd, [(CE_Failure, CPLE_AppDefined)])
          else if TooMuchMemory nXSize nBandCount nDTSize p
          then (False, atEnd, [(CE_Failure, CPLE_OutOfMemory)])
          else (True, atEnd, []))"
          unfolding R_def atEnd_def using cf True ex
          by (intro RAWDatasetCheckMemoryUsage_checked) simp_all
        then show ?thesis using True fits by (simp add: tm)
      qed
    qed
  qed
  show ?thesis using c1 c2 c3 by blast
qed

lemma mem_vsi_end:
  "VSIFTellL mem_vsi (snd (VSIFSeekL mem_vsi ex_six_bytes 0 SEEK_END)) = 6"
  by (simp add: mem_vsi_def ex_six_bytes_def)

lemma ex_size_check_fields:
  "CPLGetConfigOption (ex_framework ex_size_check) ''RAW_CHECK_FILE_SIZE'' = Some ''YES''"
  "CPLGetConfigOption (ex_framework ex_no_size_check) ''RAW_CHECK_FILE_SIZE'' = Some ''NO''"
  "CPLTestBool (ex_framework ex_size_check) ''YES''"
  "\<not> CPLTestBool (ex_framework ex_no_size_check) ''NO''"
  by (simp_all add: ex_framework_def ex_size_check_def ex_no_size_check_def)

text \<open>
  The size check forced by the configuration, on a file of six bytes where 118 are
  expected: the dataset is rejected with the application-defined error.
\<close>

theorem RAWDatasetCheckMemoryUsage_verdict_witness:
  "\<not> fst (RAWDatasetCheckMemoryUsage mem_vsi (ex_framework ex_size_check) 5 4 3 2 2 30 0 10
            ex_six_bytes) \<and>
   snd (snd (RAWDatasetCheckMemoryUsage mem_vsi (ex_framework ex_size_check) 5 4 3 2 2 30 0 10
            ex_six_bytes)) = [(CE_Failure, CPLE_AppDefined)] \<and>
   expected_size_spec 5 4 3 2 30 0 10 = 118"
  using RAWDatasetCheckMemoryUsage_verdict [where vsi = mem_vsi
      and fw = "ex_framework ex_size_check" and nXSize = 5 and nYSize = 4 and nBandCount = 3
      and nDTSize = 2 and p = 2 and l = 30 and nHeaderSize = 0 and nBandOffset = 10
      and fp = ex_six_bytes]
  by (simp add: ex_size_check_fields mem_vsi_end expected_size_spec_def is_int32_def
      is_u64_def INT_MAX_def UINT64_MAX_def u64_def)

text \<open>
  Claim C8, as stated, fails when the option \<open>RAW_CHECK_FILE_SIZE\<close> is set to a false
  value: with eleven bands the claim has the size check run, the file of six bytes is less
  than half of the 10000 expected, and the check accepts the dataset.
\<close>

theorem RAWDatasetCheckMemoryUsage_counterexample:
  "SizeCheckTriggered_spec (ex_framework ex_no_size_check) 1 11 1 \<and>
   u64 (VSIFTellL mem_vsi (snd (VSIFSeekL mem_vsi ex_six_bytes 0 SEEK_END)))
     < expected_size_spec 1 1 11 1 1 0 1000 div 2 \<and>
   RAWDatasetCheckMemoryUsage mem_vsi (ex_framework ex_no_size_check) 1 1 11 1 1 1 0 1000
     ex_six_bytes = (True, ex_six_bytes, [])"
  by (simp add: SizeCheckTriggered_spec_def mem_vsi_end expected_size_spec_def u64_def
      RAWDatasetCheckMemoryUsage_unchecked CheckFileSize_eq ex_size_check_fields
      TooMuchMemory_eq INT_MAX_def)

subsection \<open>Layout inference\<close>

lemma s64_small: "- 9223372036854775808 \<le> x \<Longrightarrow> x \<le> 9223372036854775807 \<Longrightarrow> s64 x = x"
  by (simp add: s64_def)

lemma s64_offset: "0 \<le> x \<Longrightarrow> x \<le> GINTBIG_MAX \<Longrightarrow> s64 x = x"
  by (simp add: s64_small GINTBIG_MAX_def)

lemma GetRawBinaryLayout_bands_rest:
  assumes "2 < i"
    and "\<forall>b \<in> set rest. 0 \<le> nImgOffset b \<and> nImgOffset b \<le> GINTBIG_MAX"
    and "0 \<le> scanImgOffset sc" "scanImgOffset sc \<le> GINTBIG_MAX"
  shows "GetRawBinaryLayout_bands i (map RawBand rest) sc =
    (if list_all (\<lambda>(k, b). scan_agrees sc b \<and>
                     nImgOffset b = scanImgOffset sc + scanBandOffset sc * (int k - 1))
          (enumerate (nat i) rest)
     then Some sc else None)"
  using assms
proof (induction rest arbitrary: i)
  case Nil
  then show ?case by simp
next
  case (Cons b rest)
  have n: "Suc (nat i) = nat (i + 1)" using Cons.prems by simp
  have k: "int (nat i) = i" using Cons.prems by simp
  have s: "s64 (nImgOffset b) = nImgOffset b" "s64 (scanImgOffset sc) = scanImgOffset sc"
    using Cons.prems by (simp_all add: s64_offset)
  have IH: "GetRawBinaryLayout_bands (i + 1) (map RawBand rest) sc =
    (if list_all (\<lambda>(k, b). scan_agrees sc b \<and>
                     nImgOffset b = scanImgOffset sc + scanBandOffset sc * (int k - 1))
          (enumerate (nat (i + 1)) rest)
     then Some sc else None)"
    using Cons.prems by (intro Cons.IH) simp_all
  have i: "i \<noteq> 1" "i \<noteq> 2" using Cons.prems by simp_all
  have e: "enumerate (nat i) (b # rest) = (nat i, b) # enumerate (nat (i + 1)) rest"
    by (simp add: n)
  have ag: "(scanPixelOffset sc \<noteq> nPixelOffset b \<or> scanLineOffset sc \<noteq> nLineOffset b \<or>
             scanNativeOrder sc \<noteq> bNativeOrder b \<or> scanDT sc \<noteq> eDataType b)
            = (\<not> scan_agrees sc b)"
    by (auto simp: scan_agrees_def)
  have off: "(scanBandOffset sc * (i - 1) \<noteq> nImgOffset b - scanImgOffset sc)
            = (\<not> nImgOffset b = scanImgOffset sc + scanBandOffset sc * (i - 1))"
    by arith
  show ?case
    unfolding list.map GetRawBinaryLayout_bands.simps e list.pred_inject prod.case
      IH s k ag off
    using i by simp
qed


lemma regular_layout_spec_Cons2:
  "regular_layout_spec (b1 # b2 # rest) =
    (same_shape_spec b1 b2 \<and>
     list_all (\<lambda>(i, b). same_shape_spec b1 b \<and>
                 nImgOffset b = nImgOffset b1 + (nImgOffset b2 - nImgOffset b1) * (int i - 1))
       (enumerate 3 rest))"
proof -
  have e: "enumerate 1 (b1 # b2 # rest) = (1, b1) # (2, b2) # enumerate 3 rest"
    by (simp add: eval_nat_numeral)
  show ?thesis
    unfolding regular_layout_spec_def band_stride_spec_def e list.pred_inject prod.case
    by (simp add: same_shape_spec_def)
qed

lemma GetRawBinaryLayout_bands_all:
  assumes r: "\<forall>b \<in> set (b1 # b2 # rest). 0 \<le> nImgOffset b \<and> nImgOffset b \<le> GINTBIG_MAX"
  shows "GetRawBinaryLayout_bands 1 (map RawBand (b1 # b2 # rest)) sc0 =
    (if regular_layout_spec (b1 # b2 # rest)
     then Some \<lparr> scanImgOffset = nImgOffset b1,
                 scanBandOffset = nImgOffset b2 - nImgOffset b1,
                 scanPixelOffset = nPixelOffset b1, scanLineOffset = nLineOffset b1,
                 scanNativeOrder = bNativeOrder b1, scanDT = eDataType b1 \<rparr>
     else None)"
proof -
  define sc2 where "sc2 = \<lparr> scanImgOffset = nImgOffset b1,
                 scanBandOffset = nImgOffset b2 - nImgOffset b1,
                 scanPixelOffset = nPixelOffset b1, scanLineOffset = nLineOffset b1,
                 scanNativeOrder = bNativeOrder b1, scanDT = eDataType b1 \<rparr>"
  have s: "s64 (nImgOffset b1) = nImgOffset b1" "s64 (nImgOffset b2) = nImgOffset b2"
    using r by (simp_all add: s64_offset)
  have f: "scanImgOffset sc2 = nImgOffset b1" "scanBandOffset sc2 = nImgOffset b2 - nImgOffset b1"
    by (simp_all add: sc2_def)
  have ag: "scan_agrees sc2 b = same_shape_spec b1 b" for b
    by (simp add: scan_agrees_def same_shape_spec_def sc2_def)
  have rest: "GetRawBinaryLayout_bands 3 (map RawBand rest) sc2 =
    (if list_all (\<lambda>(k, b). scan_agrees sc2 b \<and>
                     nImgOffset b = scanImgOffset sc2 + scanBandOffset sc2 * (int k - 1))
          (enumerate (nat 3) rest)
     then Some sc2 else None)"
    using r by (intro GetRawBinaryLayout_bands_rest) (simp_all add: f)
  have n3: "nat 3 = 3" by simp
  have step: "GetRawBinaryLayout_bands 1 (map RawBand (b1 # b2 # rest)) sc0 =
    (if same_shape_spec b1 b2 then GetRawBinaryLayout_bands 3 (map RawBand rest) sc2 else None)"
    by (cases sc0) (auto simp: same_shape_spec_def sc2_def s)
  show ?thesis
    unfolding step rest regular_layout_spec_Cons2 ag f n3 sc2_def [symmetric]
    by simp
qed

lemma ClassifyInterleaving_spec:
  assumes "1 < n"
  shows "ClassifyInterleaving n dt w h ps ls B =
    (if BIP_spec n dt w ps ls B then BIP
     else if BIL_spec n dt w ps ls B then BIL
     else if BSQ_spec dt w h ps ls B then BSQ else UNKNOWN)"
  using assms by (simp add: ClassifyInterleaving_def BIP_spec_def BIL_spec_def BSQ_spec_def)

lemma layouts_exclusive:
  assumes "1 < (n::int)" "0 < dt" "0 < w"
  shows "\<not> (BIP_spec n dt w ps ls B \<and> BIL_spec n dt w ps ls B)"
    "\<not> (BIP_spec n dt w ps ls B \<and> BSQ_spec dt w h ps ls B)"
    "\<not> (BIL_spec n dt w ps ls B \<and> BSQ_spec dt w h ps ls B)"
proof -
  have a: "n * dt \<noteq> dt" using assms by simp
  have "dt * w * n \<noteq> dt * w * 1" using assms by (simp del: mult_1_right mult.right_neutral)
  then have b: "dt * n * w \<noteq> dt * w" by (simp add: mult.commute mult.left_commute)
  show "\<not> (BIP_spec n dt w ps ls B \<and> BIL_spec n dt w ps ls B)"
    using a by (auto simp: BIP_spec_def BIL_spec_def)
  show "\<not> (BIP_spec n dt w ps ls B \<and> BSQ_spec dt w h ps ls B)"
    using a by (auto simp: BIP_spec_def BSQ_spec_def)
  show "\<not> (BIL_spec n dt w ps ls B \<and> BSQ_spec dt w h ps ls B)"
    using b by (auto simp: BIL_spec_def BSQ_spec_def)
qed


lemma Initialize_buffer_layout_fields:
  "bNativeOrder (Initialize_buffer m b) = bNativeOrder b"
  "eDataType (Initialize_buffer m b) = eDataType b"
  by (simp_all add: Initialize_buffer_def Let_def CPLError_def)

lemma Initialize_fail_layout_fields:
  "bNativeOrder (Initialize_fail b) = bNativeOrder b"
  "eDataType (Initialize_fail b) = eDataType b"
  by (simp_all add: Initialize_fail_def CPLError_def)

lemma Initialize_layout_fields:
  "bNativeOrder (Initialize m b) = bNativeOrder b"
  "eDataType (Initialize m b) = eDataType b"
  by (simp_all add: Initialize_def Let_def Initialize_buffer_layout_fields
      Initialize_fail_layout_fields split: option.splits prod.splits)

text \<open>
  Claim C5. A dataset of more than one band, all of them raw bands \<open>bs\<close> with image
  offsets between 0 and \<open>GINTBIG_MAX\<close>, and strides for which the products of the source
  do not overflow. With \<open>I\<close> the image offset of band 1 and the band stride the offset of
  band 2 minus \<open>I\<close>:
  \<^item> if some band disagrees with band 1 on pixel stride, line stride, byte order or data
    type, or band \<open>i\<close> does not start at \<open>I + band_stride * (i - 1)\<close>, the inference
    fails (it returns \<open>false\<close>);
  \<^item> otherwise it succeeds and reports \<open>I\<close>, the strides, the data type and the byte
    order of band 1; the interleaving is BIP exactly when the BIP equations hold, BIL
    exactly when the BIL equations hold and the BIP ones do not, BSQ exactly when the BSQ
    equations hold and neither of the others, and UNKNOWN exactly when none holds;
  \<^item> for a data type of positive size and a positive width the three sets of equations
    exclude each other, so that each interleaving is reported exactly when its own
    equations hold, and a dataset built with exact BIP, BIL or BSQ strides is reported
    as such.
\<close>

theorem GetRawBinaryLayout_inference:
  fixes ds :: "('f, 'c) RawDataset" and bs :: "('f, 'c) RawRasterBand list"
    and CPL_LSB :: bool
  defines "n \<equiv> int (length bs)"
    and "dt \<equiv> GDALGetDataTypeSizeBytes (eDataType (bs ! 0))"
    and "w \<equiv> dsRasterXSize ds" and "h \<equiv> dsRasterYSize ds"
    and "ps \<equiv> nPixelOffset (bs ! 0)" and "ls \<equiv> nLineOffset (bs ! 0)"
    and "B \<equiv> band_stride_spec bs"
  assumes bands: "papoBands ds = map RawBand bs"
    and len: "1 < length bs"
    and rng: "\<forall>b \<in> set bs. 0 \<le> nImgOffset b \<and> nImgOffset b \<le> GINTBIG_MAX"
    and defined: "is_int32 (n * dt)" "is_int32 (ps * w)" "is_int32 (dt * n * w)"
      "\<bar>B\<bar> * (n - 1) \<le> GINTBIG_MAX"
  shows "(\<not> regular_layout_spec bs \<longrightarrow> GetRawBinaryLayout CPL_LSB ds = None) \<and>
         (regular_layout_spec bs \<longrightarrow>
            (\<exists>L. GetRawBinaryLayout CPL_LSB ds = Some L \<and>
               nImageOffset L = nImgOffset (bs ! 0) \<and> sLayout_nBandOffset L = B \<and>
               sLayout_nPixelOffset L = ps \<and> sLayout_nLineOffset L = ls \<and>
               sLayout_eDataType L = eDataType (bs ! 0) \<and>
               bLittleEndianOrder L =
                 (if CPL_LSB then bNativeOrder (bs ! 0) \<noteq> 0 else bNativeOrder (bs ! 0) = 0) \<and>
               (eInterleaving L = BIP \<longleftrightarrow> BIP_spec n dt w ps ls B) \<and>
               (eInterleaving L = BIL \<longleftrightarrow>
                  BIL_spec n dt w ps ls B \<and> \<not> BIP_spec n dt w ps ls B) \<and>
               (eInterleaving L = BSQ \<longleftrightarrow>
                  BSQ_spec dt w h ps ls B \<and> \<not> BIP_spec n dt w ps ls B \<and>
                  \<not> BIL_spec n dt w ps ls B) \<and>
               (eInterleaving L = UNKNOWN \<longleftrightarrow>
                  \<not> BIP_spec n dt w ps ls B \<and> \<not> BIL_spec n dt w ps ls B \<and>
                  \<not> BSQ_spec dt w h ps ls B))) \<and>
         (0 < dt \<and> 0 < w \<longrightarrow>
            \<not> (BIP_spec n dt w ps ls B \<and> BIL_spec n dt w ps ls B) \<and>
            \<not> (BIP_spec n dt w ps ls B \<and> BSQ_spec dt w h ps ls B) \<and>
            \<not> (BIL_spec n dt w ps ls B \<and> BSQ_spec dt w h ps ls B))"
proof -
  obtain b1 b2 rest where bs: "bs = b1 # b2 # rest"
    using len by (cases bs; cases "tl bs") auto
  have n1: "1 < n" using len by (simp add: n_def)
  have nb: "nBands ds = n" by (simp add: nBands_def bands n_def)
  have f: "bs ! 0 = b1" "B = nImgOffset b2 - nImgOffset b1"
    by (simp_all add: bs B_def band_stride_spec_def)
  have scan: "GetRawBinaryLayout_bands 1 (papoBands ds)
        \<lparr> scanImgOffset = 0, scanBandOffset = 0, scanPixelOffset = 0,
          scanLineOffset = 0, scanNativeOrder = 0, scanDT = GDT_Unknown \<rparr> =
    (if regular_layout_spec bs
     then Some \<lparr> scanImgOffset = nImgOffset b1,
                 scanBandOffset = nImgOffset b2 - nImgOffset b1,
                 scanPixelOffset = nPixelOffset b1, scanLineOffset = nLineOffset b1,
                 scanNativeOrder = bNativeOrder b1, scanDT = eDataType b1 \<rparr>
     else None)"
    unfolding bands bs using rng [unfolded bs] by (rule GetRawBinaryLayout_bands_all)
  have cl: "ClassifyInterleaving n dt w h ps ls B =
    (if BIP_spec n dt w ps ls B then BIP
     else if BIL_spec n dt w ps ls B then BIL
     else if BSQ_spec dt w h ps ls B then BSQ else UNKNOWN)"
    using n1 by (rule ClassifyInterleaving_spec)
  have c1: "\<not> regular_layout_spec bs \<longrightarrow> GetRawBinaryLayout CPL_LSB ds = None"
    by (simp add: GetRawBinaryLayout_def scan)
  have c2: "regular_layout_spec bs \<longrightarrow>
            (\<exists>L. GetRawBinaryLayout CPL_LSB ds = Some L \<and>
               nImageOffset L = nImgOffset (bs ! 0) \<and> sLayout_nBandOffset L = B \<and>
               sLayout_nPixelOffset L = ps \<and> sLayout_nLineOffset L = ls \<and>
               sLayout_eDataType L = eDataType (bs ! 0) \<and>
               bLittleEndianOrder L =
                 (if CPL_LSB then bNativeOrder (bs ! 0) \<noteq> 0 else bNativeOrder (bs ! 0) = 0) \<and>
               (eInterleaving L = BIP \<longleftrightarrow> BIP_spec n dt w ps ls B) \<and>
               (eInterleaving L = BIL \<longleftrightarrow>
                  BIL_spec n dt w ps ls B \<and> \<not> BIP_spec n dt w ps ls B) \<and>
               (eInterleaving L = BSQ \<longleftrightarrow>
                  BSQ_spec dt w h ps ls B \<and> \<not> BIP_spec n dt w ps ls B \<and>
                  \<not> BIL_spec n dt w ps ls B) \<and>
               (eInterleaving L = UNKNOWN \<longleftrightarrow>
                  \<not> BIP_spec n dt w ps ls B \<and> \<not> BIL_spec n dt w ps ls B \<and>
                  \<not> BSQ_spec dt w h ps ls B))"
  proof
    assume reg: "regular_layout_spec bs"
    have "GetRawBinaryLayout CPL_LSB ds =
      Some \<lparr> eInterleaving = ClassifyInterleaving n dt w h ps ls B,
             sLayout_eDataType = eDataType b1,
             bLittleEndianOrder = (if CPL_LSB then bNativeOrder b1 \<noteq> 0 else \<not> bNativeOrder b1 \<noteq> 0),
             nImageOffset = nImgOffset b1, sLayout_nPixelOffset = ps,
             sLayout_nLineOffset = ls, sLayout_nBandOffset = B \<rparr>"
      using reg by (simp add: GetRawBinaryLayout_def scan nb dt_def w_def h_def ps_def ls_def f)
    then show "\<exists>L. GetRawBinaryLayout CPL_LSB ds = Some L \<and>
               nImageOffset L = nImgOffset (bs ! 0) \<and> sLayout_nBandOffset L = B \<and>
               sLayout_nPixelOffset L = ps \<and> sLayout_nLineOffset L = ls \<and>
               sLayout_eDataType L = eDataType (bs ! 0) \<and>
               bLittleEndianOrder L =
                 (if CPL_LSB then bNativeOrder (bs ! 0) \<noteq> 0 else bNativeOrder (bs ! 0) = 0) \<and>
               (eInterleaving L = BIP \<longleftrightarrow> BIP_spec n dt w ps ls B) \<and>
               (eInterleaving L = BIL \<longleftrightarrow>
                  BIL_spec n dt w ps ls B \<and> \<not> BIP_spec n dt w ps ls B) \<and>
               (eInterleaving L = BSQ \<longleftrightarrow>
                  BSQ_spec dt w h ps ls B \<and> \<not> BIP_spec n dt w ps ls B \<and>
                  \<not> BIL_spec n dt w ps ls B) \<and>
               (eInterleaving L = UNKNOWN \<longleftrightarrow>
                  \<not> BIP_spec n dt w ps ls B \<and> \<not> BIL_spec n dt w ps ls B \<and>
                  \<not> BSQ_spec dt w h ps ls B)"
      by (simp add: cl f(1))
  qed
  have c3: "0 < dt \<and> 0 < w \<longrightarrow>
            \<not> (BIP_spec n dt w ps ls B \<and> BIL_spec n dt w ps ls B) \<and>
            \<not> (BIP_spec n dt w ps ls B \<and> BSQ_spec dt w h ps ls B) \<and>
            \<not> (BIL_spec n dt w ps ls B \<and> BSQ_spec dt w h ps ls B)"
    using layouts_exclusive [OF n1] by blast
  show ?thesis using c1 c2 c3 by (intro conjI)
qed

lemma ex_bil_band_fields:
  "nImgOffset (ex_bil_band k off) = off"
  "nPixelOffset (ex_bil_band k off) = 2"
  "nLineOffset (ex_bil_band k off) = 30"
  "bNativeOrder (ex_bil_band k off) = 1"
  "eDataType (ex_bil_band k off) = GDT_UInt16"
  by (simp_all add: ex_bil_band_def RawRasterBand_ctor_def Initialize_fields
      Initialize_layout_fields RawRasterBand_ctor_init_def)

lemma ex_bil_fields:
  "papoBands ex_bil = map RawBand [ex_bil_band 1 0, ex_bil_band 2 10, ex_bil_band 3 20]"
  "dsRasterXSize ex_bil = 5" "dsRasterYSize ex_bil = 4"
  by (simp_all add: ex_bil_def)

lemma ex_bil_regular:
  "regular_layout_spec [ex_bil_band 1 0, ex_bil_band 2 10, ex_bil_band 3 20]"
  by (simp add: regular_layout_spec_Cons2 same_shape_spec_def ex_bil_band_fields)

text \<open>
  The three bands interleaved by line are regular and the inference reports BIL, with
  a band stride of 10.
\<close>

theorem GetRawBinaryLayout_inference_witness:
  "regular_layout_spec [ex_bil_band 1 0, ex_bil_band 2 10, ex_bil_band 3 20] \<and>
   map_option eInterleaving (GetRawBinaryLayout True ex_bil) = Some BIL \<and>
   map_option sLayout_nBandOffset (GetRawBinaryLayout True ex_bil) = Some 10"
  using GetRawBinaryLayout_inference [where ds = ex_bil and CPL_LSB = True
      and bs = "[ex_bil_band 1 0, ex_bil_band 2 10, ex_bil_band 3 20]"]
  by (auto simp: ex_bil_fields ex_bil_regular ex_bil_band_fields band_stride_spec_def
      BIL_spec_def BIP_spec_def is_int32_def GINTBIG_MAX_def)

end
